theory Spec2Isabelle
  imports Main "HOL-Library.Word" "HOL-Library.Signed_Division"
begin

unbundle bit_operations_syntax

section \<open>Types and bit-range helpers (rv\_types.h)\<close>

text \<open>
  \<^verbatim>\<open>ux_t\<close> is \<^verbatim>\<open>uint32_t\<close>, \<^verbatim>\<open>sx_t\<close> its signed reading, \<^verbatim>\<open>uint\<close> is
  \<^verbatim>\<open>unsigned int\<close> (32 bits on the targets the simulator builds for), and
  \<^verbatim>\<open>sdx_t\<close> is \<^verbatim>\<open>int64_t\<close>.
\<close>

type_synonym ux_t = "32 word"
type_synonym uint = "32 word"
type_synonym uint16_t = "16 word"
type_synonym uint8_t = "8 word"

definition XLEN :: nat where
  "XLEN = 32"

definition BITS_UPTO :: "nat \<Rightarrow> ux_t" where
  "BITS_UPTO msb = NOT (push_bit 1 (push_bit msb (- 1)))"

definition BITRANGE :: "nat \<Rightarrow> nat \<Rightarrow> ux_t" where
  "BITRANGE msb lsb = push_bit lsb (BITS_UPTO (msb - lsb))"

definition GETBITS :: "ux_t \<Rightarrow> nat \<Rightarrow> nat \<Rightarrow> ux_t" where
  "GETBITS x msb lsb = drop_bit lsb (x AND BITRANGE msb lsb)"

definition GETBIT :: "ux_t \<Rightarrow> nat \<Rightarrow> ux_t" where
  "GETBIT x b = drop_bit b x AND 1"

section \<open>Encoding constants (encoding/rv\_csr.h)\<close>

text \<open>
  Modelled from the spec: the header \<^verbatim>\<open>encoding/rv_csr.h\<close> (privilege levels, CSR
  addresses, status and interrupt bits, cause codes, page-table-entry flags, satp fields)
  is included by the sources but is not among them. The values below are the ones the
  specification's glossary and cause-code table give, which are those of the RISC-V
  privileged architecture; the source itself fixes the positions of MPP (\<^verbatim>\<open>priv << 11\<close>,
  \<^verbatim>\<open>GETBITS(xstatus, 12, 11)\<close>) and SPP (\<^verbatim>\<open>priv << 8\<close>, \<^verbatim>\<open>GETBIT(xstatus, 8)\<close>).
\<close>

definition PRV_U :: uint where "PRV_U = 0"
definition PRV_S :: uint where "PRV_S = 1"
definition PRV_M :: uint where "PRV_M = 3"

definition MSTATUS_MIE  :: ux_t where "MSTATUS_MIE  = 0x00000008"
definition MSTATUS_MPIE :: ux_t where "MSTATUS_MPIE = 0x00000080"
definition MSTATUS_MPP  :: ux_t where "MSTATUS_MPP  = 0x00001800"
definition MSTATUS_MPRV :: ux_t where "MSTATUS_MPRV = 0x00020000"
definition MSTATUS_TVM  :: ux_t where "MSTATUS_TVM  = 0x00100000"
definition MSTATUS_TW   :: ux_t where "MSTATUS_TW   = 0x00200000"
definition MSTATUS_TSR  :: ux_t where "MSTATUS_TSR  = 0x00400000"
definition SSTATUS_SIE  :: ux_t where "SSTATUS_SIE  = 0x00000002"
definition SSTATUS_SPIE :: ux_t where "SSTATUS_SPIE = 0x00000020"
definition SSTATUS_SPP  :: ux_t where "SSTATUS_SPP  = 0x00000100"
definition SSTATUS_SUM  :: ux_t where "SSTATUS_SUM  = 0x00040000"
definition SSTATUS_MXR  :: ux_t where "SSTATUS_MXR  = 0x00080000"

definition MIP_SSIP :: ux_t where "MIP_SSIP = 0x002"
definition MIP_MSIP :: ux_t where "MIP_MSIP = 0x008"
definition MIP_STIP :: ux_t where "MIP_STIP = 0x020"
definition MIP_MTIP :: ux_t where "MIP_MTIP = 0x080"
definition MIP_SEIP :: ux_t where "MIP_SEIP = 0x200"
definition MIP_MEIP :: ux_t where "MIP_MEIP = 0x800"

definition PTE_V :: ux_t where "PTE_V = 0x01"
definition PTE_R :: ux_t where "PTE_R = 0x02"
definition PTE_W :: ux_t where "PTE_W = 0x04"
definition PTE_X :: ux_t where "PTE_X = 0x08"
definition PTE_U :: ux_t where "PTE_U = 0x10"
definition PTE_A :: ux_t where "PTE_A = 0x40"
definition PTE_D :: ux_t where "PTE_D = 0x80"

definition SATP32_MODE :: ux_t where "SATP32_MODE = 0x80000000"
definition SATP32_ASID :: ux_t where "SATP32_ASID = 0x7fc00000"
definition SATP32_PPN  :: ux_t where "SATP32_PPN  = 0x003fffff"

definition XCAUSE_INSTR_ALIGN     :: uint where "XCAUSE_INSTR_ALIGN     = 0"
definition XCAUSE_INSTR_FAULT     :: uint where "XCAUSE_INSTR_FAULT     = 1"
definition XCAUSE_INSTR_ILLEGAL   :: uint where "XCAUSE_INSTR_ILLEGAL   = 2"
definition XCAUSE_EBREAK          :: uint where "XCAUSE_EBREAK          = 3"
definition XCAUSE_LOAD_ALIGN      :: uint where "XCAUSE_LOAD_ALIGN      = 4"
definition XCAUSE_LOAD_FAULT      :: uint where "XCAUSE_LOAD_FAULT      = 5"
definition XCAUSE_STORE_ALIGN     :: uint where "XCAUSE_STORE_ALIGN     = 6"
definition XCAUSE_STORE_FAULT     :: uint where "XCAUSE_STORE_FAULT     = 7"
definition XCAUSE_ECALL_U         :: uint where "XCAUSE_ECALL_U         = 8"
definition XCAUSE_ECALL_S         :: uint where "XCAUSE_ECALL_S         = 9"
definition XCAUSE_ECALL_M         :: uint where "XCAUSE_ECALL_M         = 11"
definition XCAUSE_INSTR_PAGEFAULT :: uint where "XCAUSE_INSTR_PAGEFAULT = 12"
definition XCAUSE_LOAD_PAGEFAULT  :: uint where "XCAUSE_LOAD_PAGEFAULT  = 13"
definition XCAUSE_STORE_PAGEFAULT :: uint where "XCAUSE_STORE_PAGEFAULT = 15"

definition CSR_MSTATUS    :: uint16_t where "CSR_MSTATUS    = 0x300"
definition CSR_MISA       :: uint16_t where "CSR_MISA       = 0x301"
definition CSR_MEDELEG    :: uint16_t where "CSR_MEDELEG    = 0x302"
definition CSR_MIDELEG    :: uint16_t where "CSR_MIDELEG    = 0x303"
definition CSR_MIE        :: uint16_t where "CSR_MIE        = 0x304"
definition CSR_MTVEC      :: uint16_t where "CSR_MTVEC      = 0x305"
definition CSR_MCOUNTEREN :: uint16_t where "CSR_MCOUNTEREN = 0x306"
definition CSR_MSCRATCH   :: uint16_t where "CSR_MSCRATCH   = 0x340"
definition CSR_MEPC       :: uint16_t where "CSR_MEPC       = 0x341"
definition CSR_MCAUSE     :: uint16_t where "CSR_MCAUSE     = 0x342"
definition CSR_MTVAL      :: uint16_t where "CSR_MTVAL      = 0x343"
definition CSR_MIP        :: uint16_t where "CSR_MIP        = 0x344"
definition CSR_MCYCLE     :: uint16_t where "CSR_MCYCLE     = 0xb00"
definition CSR_MINSTRET   :: uint16_t where "CSR_MINSTRET   = 0xb02"
definition CSR_MCYCLEH    :: uint16_t where "CSR_MCYCLEH    = 0xb80"
definition CSR_MINSTRETH  :: uint16_t where "CSR_MINSTRETH  = 0xb82"
definition CSR_MVENDORID  :: uint16_t where "CSR_MVENDORID  = 0xf11"
definition CSR_MARCHID    :: uint16_t where "CSR_MARCHID    = 0xf12"
definition CSR_MIMPID     :: uint16_t where "CSR_MIMPID     = 0xf13"
definition CSR_MHARTID    :: uint16_t where "CSR_MHARTID    = 0xf14"
definition CSR_SSTATUS    :: uint16_t where "CSR_SSTATUS    = 0x100"
definition CSR_SIE        :: uint16_t where "CSR_SIE        = 0x104"
definition CSR_STVEC      :: uint16_t where "CSR_STVEC      = 0x105"
definition CSR_SCOUNTEREN :: uint16_t where "CSR_SCOUNTEREN = 0x106"
definition CSR_SSCRATCH   :: uint16_t where "CSR_SSCRATCH   = 0x140"
definition CSR_SEPC       :: uint16_t where "CSR_SEPC       = 0x141"
definition CSR_SCAUSE     :: uint16_t where "CSR_SCAUSE     = 0x142"
definition CSR_STVAL      :: uint16_t where "CSR_STVAL      = 0x143"
definition CSR_SIP        :: uint16_t where "CSR_SIP        = 0x144"
definition CSR_SATP       :: uint16_t where "CSR_SATP       = 0x180"
definition CSR_CYCLE      :: uint16_t where "CSR_CYCLE      = 0xc00"
definition CSR_INSTRET    :: uint16_t where "CSR_INSTRET    = 0xc02"
definition CSR_CYCLEH     :: uint16_t where "CSR_CYCLEH     = 0xc80"
definition CSR_INSTRETH   :: uint16_t where "CSR_INSTRETH   = 0xc82"

section \<open>The CSR and trap engine (rv\_csr.h, rv\_csr.cpp)\<close>

record RVCSR =
  priv :: uint
  irq_t :: bool
  irq_s :: bool
  irq_e :: bool
  xstatus :: ux_t
  xie :: ux_t
  xip :: ux_t
  mtvec :: ux_t
  mtval :: ux_t
  mscratch :: ux_t
  mepc :: ux_t
  mcause :: ux_t
  medeleg :: ux_t
  mideleg :: ux_t
  mcounteren :: ux_t
  mcycle :: ux_t
  mcycleh :: ux_t
  minstret :: ux_t
  minstreth :: ux_t
  stvec :: ux_t
  stval :: ux_t
  scounteren :: ux_t
  sscratch :: ux_t
  sepc :: ux_t
  scause :: ux_t
  satp :: ux_t

text \<open>The constructor \<^verbatim>\<open>RVCSR()\<close>: M-mode, every register zero. The constructor does not
  initialise the three latched IRQ lines; the host sets them before they matter, and the
  model starts them low.\<close>

definition RVCSR_init :: RVCSR where
  "RVCSR_init = \<lparr> priv = 3, irq_t = False, irq_s = False, irq_e = False,
     xstatus = 0, xie = 0, xip = 0, mtvec = 0, mtval = 0, mscratch = 0, mepc = 0,
     mcause = 0, medeleg = 0, mideleg = 0, mcounteren = 0, mcycle = 0, mcycleh = 0,
     minstret = 0, minstreth = 0, stvec = 0, stval = 0, scounteren = 0, sscratch = 0,
     sepc = 0, scause = 0, satp = 0 \<rparr>"

definition get_effective_xip :: "RVCSR \<Rightarrow> ux_t" where
  "get_effective_xip c =
     xip c OR
     (if irq_s c then MIP_MSIP OR MIP_SSIP else 0) OR
     (if irq_t c then MIP_MTIP OR MIP_STIP else 0) OR
     (if irq_e c then MIP_MEIP OR MIP_SEIP else 0)"

definition step_counters :: "RVCSR \<Rightarrow> RVCSR" where
  "step_counters c =
     (let mcycle_next = (push_bit 32 (ucast (mcycleh c)) + ucast (mcycle c) + 1 :: 64 word);
          c1 = c\<lparr> mcycle := ucast (mcycle_next AND 0xffffffff),
                  mcycleh := ucast (drop_bit 32 mcycle_next) \<rparr>;
          minstret_next =
            (push_bit 32 (ucast (minstreth c1)) + ucast (minstret c1) + 1 :: 64 word)
      in c1\<lparr> minstret := ucast (minstret_next AND 0xffffffff),
              minstreth := ucast (drop_bit 32 minstret_next) \<rparr>)"

definition SSTATUS_MASK :: ux_t where
  "SSTATUS_MASK = SSTATUS_SIE OR SSTATUS_SPIE OR SSTATUS_SPP OR SSTATUS_SUM OR SSTATUS_MXR"

definition MSTATUS_MASK :: ux_t where
  "MSTATUS_MASK = SSTATUS_MASK OR MSTATUS_MIE OR MSTATUS_MPIE OR MSTATUS_MPP OR
     MSTATUS_MPRV OR MSTATUS_TVM OR MSTATUS_TW OR MSTATUS_TSR"

definition SIP_MASK :: ux_t where
  "SIP_MASK = MIP_SSIP OR MIP_STIP OR MIP_SEIP"

definition ALL_MIP_BITS :: ux_t where
  "ALL_MIP_BITS = SIP_MASK OR MIP_MSIP OR MIP_MTIP OR MIP_MEIP"

definition MIP_R_MASK :: ux_t where "MIP_R_MASK = ALL_MIP_BITS"
definition MIP_W_MASK :: ux_t where "MIP_W_MASK = SIP_MASK"
definition MIE_R_MASK :: ux_t where "MIE_R_MASK = ALL_MIP_BITS"
definition MIE_W_MASK :: ux_t where "MIE_W_MASK = ALL_MIP_BITS"

text \<open>\<^verbatim>\<open>RVCSR::read\<close>: \<open>None\<close> on a permission or decode failure. The \<^verbatim>\<open>side_effect\<close>
  argument is unused in the source. The \<^verbatim>\<open>switch\<close> becomes a chain of tests in the
  order of its \<^verbatim>\<open>case\<close> labels (the labels are pairwise distinct).\<close>

definition read :: "RVCSR \<Rightarrow> uint16_t \<Rightarrow> ux_t option" where
  "read c addr =
    (if (ucast addr :: ux_t) \<ge> push_bit 12 1 \<or> GETBITS (ucast addr) 9 8 > priv c then None
     else
       let permit_cycle =
             ((priv c \<ge> PRV_M \<or> mcounteren c AND 0x1 \<noteq> 0) \<and>
              (priv c \<ge> PRV_S \<or> scounteren c AND 0x1 \<noteq> 0));
           permit_instret =
             ((priv c \<ge> PRV_M \<or> mcounteren c AND 0x4 \<noteq> 0) \<and>
              (priv c \<ge> PRV_S \<or> scounteren c AND 0x4 \<noteq> 0));
           permit_satp = (priv c \<ge> PRV_M \<or> \<not> (xstatus c AND MSTATUS_TVM \<noteq> 0))
       in
       if addr = CSR_MISA then Some 0x40101105
       else if addr = CSR_MHARTID then Some 0
       else if addr = CSR_MARCHID then Some 0
       else if addr = CSR_MIMPID then Some 0
       else if addr = CSR_MVENDORID then Some 0
       else if addr = CSR_MSTATUS then Some (xstatus c AND MSTATUS_MASK)
       else if addr = CSR_MIE then Some (xie c AND MIE_R_MASK)
       else if addr = CSR_MIP then Some (get_effective_xip c AND MIP_R_MASK)
       else if addr = CSR_MTVEC then Some (mtvec c)
       else if addr = CSR_MSCRATCH then Some (mscratch c)
       else if addr = CSR_MEPC then Some (mepc c)
       else if addr = CSR_MCAUSE then Some (mcause c)
       else if addr = CSR_MTVAL then Some (mtval c)
       else if addr = CSR_MEDELEG then Some (medeleg c)
       else if addr = CSR_MIDELEG then Some (mideleg c)
       else if addr = CSR_MCOUNTEREN then Some (mcounteren c)
       else if addr = CSR_MCYCLE then Some (mcycle c)
       else if addr = CSR_MCYCLEH then Some (mcycleh c)
       else if addr = CSR_MINSTRET then Some (minstreth c)
       else if addr = CSR_MINSTRETH then Some (minstreth c)
       else if addr = CSR_SSTATUS then Some (xstatus c AND SSTATUS_MASK)
       else if addr = CSR_SIE then Some (xie c AND SIP_MASK)
       else if addr = CSR_SIP then Some (get_effective_xip c AND SIP_MASK AND mideleg c)
       else if addr = CSR_STVEC then Some (stvec c)
       else if addr = CSR_SCOUNTEREN then Some (scounteren c)
       else if addr = CSR_SSCRATCH then Some (sscratch c)
       else if addr = CSR_SEPC then Some (sepc c)
       else if addr = CSR_SCAUSE then Some (scause c)
       else if addr = CSR_STVAL then Some (stval c)
       else if addr = CSR_SATP then (if permit_satp then Some (satp c) else None)
       else if addr = CSR_CYCLE then (if permit_cycle then Some (mcycle c) else None)
       else if addr = CSR_CYCLEH then (if permit_cycle then Some (mcycleh c) else None)
       else if addr = CSR_INSTRET then (if permit_instret then Some (minstreth c) else None)
       else if addr = CSR_INSTRETH then (if permit_instret then Some (minstreth c) else None)
       else None)"

definition WRITE :: uint where "WRITE = 0"
definition WRITE_SET :: uint where "WRITE_SET = 1"
definition WRITE_CLEAR :: uint where "WRITE_CLEAR = 2"

text \<open>\<^verbatim>\<open>RVCSR::write\<close> returns \<^verbatim>\<open>false\<close> on a permission or decode failure, always before
  it has changed any field; the model returns \<open>None\<close> there and the updated state
  otherwise. \<open>write_data\<close> is the \<^verbatim>\<open>switch\<close> of the function, \<open>RVCSR_write\<close> the whole of
  it (the bare name is reserved in Isabelle).\<close>

definition write_data :: "RVCSR \<Rightarrow> uint16_t \<Rightarrow> ux_t \<Rightarrow> RVCSR option" where
  "write_data c addr data =
    (let permit_satp = (priv c \<ge> PRV_M \<or> \<not> (xstatus c AND MSTATUS_TVM \<noteq> 0));
         sip_mask_deleg = SIP_MASK AND mideleg c
     in
     if addr = CSR_MISA then Some c
     else if addr = CSR_MHARTID then Some c
     else if addr = CSR_MARCHID then Some c
     else if addr = CSR_MIMPID then Some c
     else if addr = CSR_MVENDORID then Some c
     else if addr = CSR_MSTATUS then
       Some (c\<lparr>xstatus := (data AND MSTATUS_MASK) OR (xstatus c AND NOT MSTATUS_MASK)\<rparr>)
     else if addr = CSR_MIE then
       Some (c\<lparr>xie := (data AND MIE_W_MASK) OR (xie c AND NOT MIE_W_MASK)\<rparr>)
     else if addr = CSR_MIP then
       Some (c\<lparr>xip := (data AND MIP_W_MASK) OR (xip c AND NOT MIP_W_MASK)\<rparr>)
     else if addr = CSR_MTVEC then Some (c\<lparr>mtvec := data AND 0xfffffffd\<rparr>)
     else if addr = CSR_MSCRATCH then Some (c\<lparr>mscratch := data\<rparr>)
     else if addr = CSR_MEPC then Some (c\<lparr>mepc := data AND 0xfffffffe\<rparr>)
     else if addr = CSR_MCAUSE then Some (c\<lparr>mcause := data AND 0x800000ff\<rparr>)
     else if addr = CSR_MTVAL then Some (c\<lparr>mtval := data\<rparr>)
     else if addr = CSR_MEDELEG then Some (c\<lparr>medeleg := data\<rparr>)
     else if addr = CSR_MIDELEG then Some (c\<lparr>mideleg := data\<rparr>)
     else if addr = CSR_MCOUNTEREN then Some (c\<lparr>mcounteren := data AND 0x7\<rparr>)
     else if addr = CSR_MCYCLE then Some (c\<lparr>mcycle := data\<rparr>)
     else if addr = CSR_MCYCLEH then Some (c\<lparr>mcycleh := data\<rparr>)
     else if addr = CSR_MINSTRET then Some (c\<lparr>minstret := data\<rparr>)
     else if addr = CSR_MINSTRETH then Some (c\<lparr>minstreth := data\<rparr>)
     else if addr = CSR_SSTATUS then
       Some (c\<lparr>xstatus := (data AND SSTATUS_MASK) OR (xstatus c AND NOT SSTATUS_MASK)\<rparr>)
     else if addr = CSR_SIE then
       Some (c\<lparr>xie := (data AND SIP_MASK) OR (xie c AND NOT SIP_MASK)\<rparr>)
     else if addr = CSR_SIP then
       Some (c\<lparr>xip := (data AND sip_mask_deleg) OR (xip c AND NOT sip_mask_deleg)\<rparr>)
     else if addr = CSR_STVEC then Some (c\<lparr>stvec := data AND 0xfffffffd\<rparr>)
     else if addr = CSR_SCOUNTEREN then Some (c\<lparr>scounteren := data AND 0x7\<rparr>)
     else if addr = CSR_SSCRATCH then Some (c\<lparr>sscratch := data\<rparr>)
     else if addr = CSR_SEPC then Some (c\<lparr>sepc := data AND 0xfffffffe\<rparr>)
     else if addr = CSR_SCAUSE then Some (c\<lparr>scause := data AND 0x800000ff\<rparr>)
     else if addr = CSR_STVAL then Some (c\<lparr>stval := data\<rparr>)
     else if addr = CSR_SATP then
       (if permit_satp then Some (c\<lparr>satp := data AND NOT SATP32_ASID\<rparr>) else None)
     else None)"

definition RVCSR_write :: "RVCSR \<Rightarrow> uint16_t \<Rightarrow> ux_t \<Rightarrow> uint \<Rightarrow> RVCSR option" where
  "RVCSR_write c addr data op =
    (if (ucast addr :: ux_t) \<ge> push_bit 12 1 \<or> GETBITS (ucast addr) 9 8 > priv c \<or>
        GETBITS (ucast addr) 11 10 = 0x3 then None
     else if op = WRITE_CLEAR \<or> op = WRITE_SET then
       (case read c addr of
          None \<Rightarrow> None
        | Some rdata \<Rightarrow>
            write_data c addr (if op = WRITE_CLEAR then rdata AND NOT data else rdata OR data))
     else write_data c addr data)"

text \<open>\<^verbatim>\<open>RVCSR::trap_enter_at_priv\<close>: returns the trap target pc and the updated state.
  The source asserts \<^verbatim>\<open>target_priv == PRV_S\<close> in the branch that is not M; every caller
  passes M or S.\<close>

definition trap_enter_at_priv :: "RVCSR \<Rightarrow> uint \<Rightarrow> ux_t \<Rightarrow> uint \<Rightarrow> ux_t \<times> RVCSR" where
  "trap_enter_at_priv c xcause xepc target_priv =
    (if target_priv = PRV_M then
       let c1 = c\<lparr>xstatus := (xstatus c AND NOT MSTATUS_MPP) OR push_bit 11 (priv c)\<rparr>;
           c2 = c1\<lparr>priv := PRV_M\<rparr>;
           c3 = (if xstatus c2 AND MSTATUS_MIE \<noteq> 0
                 then c2\<lparr>xstatus := xstatus c2 OR MSTATUS_MPIE\<rparr> else c2);
           c4 = c3\<lparr>xstatus := xstatus c3 AND NOT MSTATUS_MIE\<rparr>;
           c5 = c4\<lparr>mcause := xcause, mepc := xepc\<rparr>
       in if mtvec c5 AND 0x1 \<noteq> 0 \<and> xcause AND push_bit 31 1 \<noteq> 0
          then ((mtvec c5 AND - 2) + 4 * (xcause AND NOT (push_bit 31 1)), c5)
          else (mtvec c5 AND - 2, c5)
     else
       let c1 = c\<lparr>xstatus := (xstatus c AND NOT SSTATUS_SPP) OR push_bit 8 (priv c)\<rparr>;
           c2 = c1\<lparr>priv := PRV_S\<rparr>;
           c3 = (if xstatus c2 AND SSTATUS_SIE \<noteq> 0
                 then c2\<lparr>xstatus := xstatus c2 OR SSTATUS_SPIE\<rparr> else c2);
           c4 = c3\<lparr>xstatus := xstatus c3 AND NOT SSTATUS_SIE\<rparr>;
           c5 = c4\<lparr>scause := xcause, sepc := xepc\<rparr>
       in if stvec c5 AND 0x1 \<noteq> 0 \<and> xcause AND push_bit 31 1 \<noteq> 0
          then ((stvec c5 AND - 2) + 4 * (xcause AND NOT (push_bit 31 1)), c5)
          else (stvec c5 AND - 2, c5))"

text \<open>\<^verbatim>\<open>RVCSR::trap_enter_exception\<close>. The source asserts \<^verbatim>\<open>xcause < 32\<close>; every cause
  the step function raises is below 16.\<close>

definition trap_enter_exception :: "RVCSR \<Rightarrow> uint \<Rightarrow> ux_t \<Rightarrow> ux_t \<times> RVCSR" where
  "trap_enter_exception c xcause xepc =
    (let target_priv = (if medeleg c AND push_bit (unat xcause) 1 \<noteq> 0 then PRV_S else PRV_M);
         target_priv = (if target_priv < priv c then priv c else target_priv)
     in trap_enter_at_priv c xcause xepc target_priv)"

text \<open>\<^verbatim>\<open>__builtin_ctz\<close>: the number of trailing zero bits; only called on a nonzero
  argument (the result for 0 is undefined in C, here it is 32).\<close>

primrec ctz_upto :: "nat \<Rightarrow> ux_t \<Rightarrow> nat" where
  "ctz_upto 0 w = 0"
| "ctz_upto (Suc n) w = (if bit w 0 then 0 else Suc (ctz_upto n (drop_bit 1 w)))"

definition builtin_ctz :: "ux_t \<Rightarrow> nat" where
  "builtin_ctz w = ctz_upto 32 w"

definition m_targeted_irqs :: "RVCSR \<Rightarrow> ux_t" where
  "m_targeted_irqs c = get_effective_xip c AND xie c AND MIP_R_MASK AND NOT (mideleg c)"

definition s_targeted_irqs :: "RVCSR \<Rightarrow> ux_t" where
  "s_targeted_irqs c = get_effective_xip c AND xie c AND SIP_MASK AND mideleg c"

definition take_m_irq :: "RVCSR \<Rightarrow> bool" where
  "take_m_irq c \<longleftrightarrow>
     m_targeted_irqs c \<noteq> 0 \<and> (xstatus c AND MSTATUS_MIE \<noteq> 0 \<or> priv c < PRV_M)"

definition take_s_irq :: "RVCSR \<Rightarrow> bool" where
  "take_s_irq c \<longleftrightarrow>
     s_targeted_irqs c \<noteq> 0 \<and> (xstatus c AND SSTATUS_SIE \<noteq> 0 \<or> priv c < PRV_S) \<and>
     priv c \<le> PRV_S"

text \<open>\<^verbatim>\<open>RVCSR::trap_check_enter_irq\<close>; the four locals of the source are the four
  definitions above.\<close>

definition trap_check_enter_irq :: "RVCSR \<Rightarrow> ux_t \<Rightarrow> ux_t option \<times> RVCSR" where
  "trap_check_enter_irq c xepc =
    (if take_m_irq c then
       let cause = push_bit 31 1 OR of_nat (builtin_ctz (m_targeted_irqs c));
           (t, c') = trap_enter_at_priv c cause xepc PRV_M
       in (Some t, c')
     else if take_s_irq c then
       let cause = push_bit 31 1 OR of_nat (builtin_ctz (s_targeted_irqs c));
           (t, c') = trap_enter_at_priv c cause xepc PRV_S
       in (Some t, c')
     else (None, c))"

definition trap_mret :: "RVCSR \<Rightarrow> ux_t \<times> RVCSR" where
  "trap_mret c =
    (let c1 = c\<lparr>priv := GETBITS (xstatus c) 12 11\<rparr>;
         c2 = c1\<lparr>xstatus := xstatus c1 AND NOT MSTATUS_MPP\<rparr>;
         c3 = (if priv c2 \<noteq> PRV_M
               then c2\<lparr>xstatus := xstatus c2 AND NOT MSTATUS_MPRV\<rparr> else c2);
         c4 = (if xstatus c3 AND MSTATUS_MPIE \<noteq> 0
               then c3\<lparr>xstatus := xstatus c3 OR MSTATUS_MIE\<rparr> else c3);
         c5 = c4\<lparr>xstatus := xstatus c4 AND NOT MSTATUS_MPIE\<rparr>
     in (mepc c5, c5))"

definition trap_sret :: "RVCSR \<Rightarrow> ux_t \<Rightarrow> ux_t \<times> RVCSR" where
  "trap_sret c pc =
    (if xstatus c AND MSTATUS_TSR \<noteq> 0 \<and> priv c = PRV_S then
       trap_enter_exception c XCAUSE_INSTR_ILLEGAL pc
     else
       let c1 = c\<lparr>priv := GETBIT (xstatus c) 8\<rparr>;
           c2 = c1\<lparr>xstatus := xstatus c1 AND NOT SSTATUS_SPP\<rparr>;
           c3 = (if xstatus c2 AND SSTATUS_SPIE \<noteq> 0
                 then c2\<lparr>xstatus := xstatus c2 OR SSTATUS_SIE\<rparr> else c2);
           c4 = c3\<lparr>xstatus := xstatus c3 AND NOT SSTATUS_SPIE\<rparr>;
           c5 = c4\<lparr>xstatus := xstatus c4 AND NOT MSTATUS_MPRV\<rparr>
       in (sepc c5, c5))"

text \<open>\<^verbatim>\<open>RVCSR::trap_set_xtval\<close> (the source asserts \<^verbatim>\<open>priv >= PRV_S\<close>: it is called right
  after a trap entry).\<close>

definition trap_set_xtval :: "RVCSR \<Rightarrow> ux_t \<Rightarrow> RVCSR" where
  "trap_set_xtval c xtval = (if priv c = PRV_S then c\<lparr>stval := xtval\<rparr> else c\<lparr>mtval := xtval\<rparr>)"

definition get_true_priv :: "RVCSR \<Rightarrow> uint" where
  "get_true_priv c = priv c"

definition get_effective_priv_ls :: "RVCSR \<Rightarrow> uint" where
  "get_effective_priv_ls c =
     (if xstatus c AND MSTATUS_MPRV \<noteq> 0 then GETBITS (xstatus c) 12 11 else priv c)"

definition translation_enabled_fetch :: "RVCSR \<Rightarrow> bool" where
  "translation_enabled_fetch c \<longleftrightarrow> get_true_priv c \<noteq> PRV_M \<and> satp c AND SATP32_MODE \<noteq> 0"

definition translation_enabled_ls :: "RVCSR \<Rightarrow> bool" where
  "translation_enabled_ls c \<longleftrightarrow>
     get_effective_priv_ls c \<noteq> PRV_M \<and> satp c AND SATP32_MODE \<noteq> 0"

definition get_atp :: "RVCSR \<Rightarrow> ux_t" where
  "get_atp c = push_bit 12 (satp c AND SATP32_PPN)"

definition permit_sfence_vma :: "RVCSR \<Rightarrow> bool" where
  "permit_sfence_vma c \<longleftrightarrow>
     (priv c = PRV_S \<and> \<not> (xstatus c AND MSTATUS_TVM \<noteq> 0)) \<or> priv c = PRV_M"

text \<open>\<^verbatim>\<open>RVCSR::pte_permissions_ok\<close> (the source asserts \<^verbatim>\<open>effective_priv <= PRV_S\<close>:
  translation is only enabled below M).\<close>

definition pte_permissions_ok :: "RVCSR \<Rightarrow> ux_t \<Rightarrow> ux_t \<Rightarrow> bool" where
  "pte_permissions_ok c pte required_permissions =
    (let effective_priv =
           (if required_permissions AND PTE_X \<noteq> 0 then get_true_priv c
            else get_effective_priv_ls c)
     in
     if pte AND PTE_U \<noteq> 0 \<and> effective_priv = PRV_S \<and> \<not> (xstatus c AND SSTATUS_SUM \<noteq> 0)
     then False
     else if \<not> (pte AND PTE_U \<noteq> 0) \<and> effective_priv = PRV_U then False
     else
       let permissions = pte AND (PTE_R OR PTE_W OR PTE_X);
           permissions =
             (if xstatus c AND SSTATUS_MXR \<noteq> 0 \<and> permissions AND PTE_X \<noteq> 0
              then permissions OR PTE_R else permissions)
       in if NOT permissions AND required_permissions \<noteq> 0 then False else True)"

section \<open>Opcode patterns (encoding/rv\_opcodes.h)\<close>

text \<open>
  Modelled from the spec: the header \<^verbatim>\<open>encoding/rv_opcodes.h\<close> (a \<^verbatim>\<open>_BITS\<close> and a
  \<^verbatim>\<open>_MASK\<close> constant for each mnemonic, and the macro \<^verbatim>\<open>RVOPC_MATCH\<close>) is included by
  \<^verbatim>\<open>rv_core.cpp\<close> but is not among the sources. The specification says that an
  instruction is identified by \<^verbatim>\<open>(instr & mask) == bits\<close> against a table that encodes
  the full set of mandated fixed bits, with the all-zero halfword matched explicitly; the
  pairs below are the fixed bits of the RISC-V encodings of the mnemonics the step function
  names. A pattern is the pair (bits, mask).
\<close>

type_synonym rvopc = "ux_t \<times> ux_t"

definition RVOPC_MATCH :: "ux_t \<Rightarrow> rvopc \<Rightarrow> bool" where
  "RVOPC_MATCH instr opc \<longleftrightarrow> instr AND snd opc = fst opc"

definition RVOPC_LR_W      :: rvopc where "RVOPC_LR_W      = (0x1000202f, 0xf9f0707f)"
definition RVOPC_SC_W      :: rvopc where "RVOPC_SC_W      = (0x1800202f, 0xf800707f)"
definition RVOPC_AMOSWAP_W :: rvopc where "RVOPC_AMOSWAP_W = (0x0800202f, 0xf800707f)"
definition RVOPC_AMOADD_W  :: rvopc where "RVOPC_AMOADD_W  = (0x0000202f, 0xf800707f)"
definition RVOPC_AMOXOR_W  :: rvopc where "RVOPC_AMOXOR_W  = (0x2000202f, 0xf800707f)"
definition RVOPC_AMOAND_W  :: rvopc where "RVOPC_AMOAND_W  = (0x6000202f, 0xf800707f)"
definition RVOPC_AMOOR_W   :: rvopc where "RVOPC_AMOOR_W   = (0x4000202f, 0xf800707f)"
definition RVOPC_AMOMIN_W  :: rvopc where "RVOPC_AMOMIN_W  = (0x8000202f, 0xf800707f)"
definition RVOPC_AMOMAX_W  :: rvopc where "RVOPC_AMOMAX_W  = (0xa000202f, 0xf800707f)"
definition RVOPC_AMOMINU_W :: rvopc where "RVOPC_AMOMINU_W = (0xc000202f, 0xf800707f)"
definition RVOPC_AMOMAXU_W :: rvopc where "RVOPC_AMOMAXU_W = (0xe000202f, 0xf800707f)"

definition RVOPC_FENCE      :: rvopc where "RVOPC_FENCE      = (0x0000000f, 0x0000707f)"
definition RVOPC_FENCE_I    :: rvopc where "RVOPC_FENCE_I    = (0x0000100f, 0x0000707f)"
definition RVOPC_CSRRW      :: rvopc where "RVOPC_CSRRW      = (0x00001073, 0x0000707f)"
definition RVOPC_CSRRS      :: rvopc where "RVOPC_CSRRS      = (0x00002073, 0x0000707f)"
definition RVOPC_CSRRC      :: rvopc where "RVOPC_CSRRC      = (0x00003073, 0x0000707f)"
definition RVOPC_CSRRWI     :: rvopc where "RVOPC_CSRRWI     = (0x00005073, 0x0000707f)"
definition RVOPC_CSRRSI     :: rvopc where "RVOPC_CSRRSI     = (0x00006073, 0x0000707f)"
definition RVOPC_CSRRCI     :: rvopc where "RVOPC_CSRRCI     = (0x00007073, 0x0000707f)"
definition RVOPC_MRET       :: rvopc where "RVOPC_MRET       = (0x30200073, 0xffffffff)"
definition RVOPC_SRET       :: rvopc where "RVOPC_SRET       = (0x10200073, 0xffffffff)"
definition RVOPC_SFENCE_VMA :: rvopc where "RVOPC_SFENCE_VMA = (0x12000073, 0xfe007fff)"
definition RVOPC_ECALL      :: rvopc where "RVOPC_ECALL      = (0x00000073, 0xffffffff)"
definition RVOPC_EBREAK     :: rvopc where "RVOPC_EBREAK     = (0x00100073, 0xffffffff)"
definition RVOPC_WFI        :: rvopc where "RVOPC_WFI        = (0x10500073, 0xffffffff)"

definition RVOPC_ILLEGAL16  :: rvopc where "RVOPC_ILLEGAL16  = (0x0000, 0xffff)"
definition RVOPC_C_ADDI4SPN :: rvopc where "RVOPC_C_ADDI4SPN = (0x0000, 0xe003)"
definition RVOPC_C_LW       :: rvopc where "RVOPC_C_LW       = (0x4000, 0xe003)"
definition RVOPC_C_SW       :: rvopc where "RVOPC_C_SW       = (0xc000, 0xe003)"
definition RVOPC_C_ADDI     :: rvopc where "RVOPC_C_ADDI     = (0x0001, 0xe003)"
definition RVOPC_C_JAL      :: rvopc where "RVOPC_C_JAL      = (0x2001, 0xe003)"
definition RVOPC_C_J        :: rvopc where "RVOPC_C_J        = (0xa001, 0xe003)"
definition RVOPC_C_LI       :: rvopc where "RVOPC_C_LI       = (0x4001, 0xe003)"
definition RVOPC_C_LUI      :: rvopc where "RVOPC_C_LUI      = (0x6001, 0xe003)"
definition RVOPC_C_SRLI     :: rvopc where "RVOPC_C_SRLI     = (0x8001, 0xfc03)"
definition RVOPC_C_SRAI     :: rvopc where "RVOPC_C_SRAI     = (0x8401, 0xfc03)"
definition RVOPC_C_ANDI     :: rvopc where "RVOPC_C_ANDI     = (0x8801, 0xec03)"
definition RVOPC_C_SUB      :: rvopc where "RVOPC_C_SUB      = (0x8c01, 0xfc63)"
definition RVOPC_C_XOR      :: rvopc where "RVOPC_C_XOR      = (0x8c21, 0xfc63)"
definition RVOPC_C_OR       :: rvopc where "RVOPC_C_OR       = (0x8c41, 0xfc63)"
definition RVOPC_C_AND      :: rvopc where "RVOPC_C_AND      = (0x8c61, 0xfc63)"
definition RVOPC_C_BEQZ     :: rvopc where "RVOPC_C_BEQZ     = (0xc001, 0xe003)"
definition RVOPC_C_BNEZ     :: rvopc where "RVOPC_C_BNEZ     = (0xe001, 0xe003)"
definition RVOPC_C_SLLI     :: rvopc where "RVOPC_C_SLLI     = (0x0002, 0xf003)"
definition RVOPC_C_MV       :: rvopc where "RVOPC_C_MV       = (0x8002, 0xf003)"
definition RVOPC_C_ADD      :: rvopc where "RVOPC_C_ADD      = (0x9002, 0xf003)"
definition RVOPC_C_LWSP     :: rvopc where "RVOPC_C_LWSP     = (0x4002, 0xe003)"
definition RVOPC_C_SWSP     :: rvopc where "RVOPC_C_SWSP     = (0xc002, 0xe003)"

section \<open>Immediate decoders (rv\_core.cpp)\<close>

definition sext :: "ux_t \<Rightarrow> nat \<Rightarrow> ux_t" where
  "sext bits sign_bit =
     (if sign_bit \<ge> XLEN - 1 then bits
      else (bits AND (push_bit (sign_bit + 1) 1 - 1)) - push_bit 1 (bits AND push_bit sign_bit 1))"

definition imm_i :: "ux_t \<Rightarrow> ux_t" where
  "imm_i instr = drop_bit 20 instr - (drop_bit 19 instr AND 0x1000)"

definition imm_s :: "ux_t \<Rightarrow> ux_t" where
  "imm_s instr =
     (drop_bit 20 instr AND 0xfe0) + (drop_bit 7 instr AND 0x1f) - (drop_bit 19 instr AND 0x1000)"

definition imm_u :: "ux_t \<Rightarrow> ux_t" where
  "imm_u instr = instr AND 0xfffff000"

definition imm_b :: "ux_t \<Rightarrow> ux_t" where
  "imm_b instr =
     (drop_bit 7 instr AND 0x1e) + (drop_bit 20 instr AND 0x7e0) + (push_bit 4 instr AND 0x800)
       - (drop_bit 19 instr AND 0x1000)"

definition imm_j :: "ux_t \<Rightarrow> ux_t" where
  "imm_j instr =
     (drop_bit 20 instr AND 0x7fe) + (drop_bit 9 instr AND 0x800) + (instr AND 0xff000)
       - (drop_bit 11 instr AND 0x100000)"

definition imm_ci :: "ux_t \<Rightarrow> ux_t" where
  "imm_ci instr = GETBITS instr 6 2 - push_bit 5 (GETBIT instr 12)"

definition imm_cj :: "ux_t \<Rightarrow> ux_t" where
  "imm_cj instr =
     - (push_bit 11 (GETBIT instr 12))
       + push_bit 4 (GETBIT instr 11)
       + push_bit 8 (GETBITS instr 10 9)
       + push_bit 10 (GETBIT instr 8)
       + push_bit 6 (GETBIT instr 7)
       + push_bit 7 (GETBIT instr 6)
       + push_bit 1 (GETBITS instr 5 3)
       + push_bit 5 (GETBIT instr 2)"

definition imm_cb :: "ux_t \<Rightarrow> ux_t" where
  "imm_cb instr =
     - (push_bit 8 (GETBIT instr 12))
       + push_bit 3 (GETBITS instr 11 10)
       + push_bit 6 (GETBITS instr 6 5)
       + push_bit 1 (GETBITS instr 4 3)
       + push_bit 5 (GETBIT instr 2)"

definition c_rs1_s :: "ux_t \<Rightarrow> uint" where
  "c_rs1_s instr = GETBITS instr 9 7 + 8"

definition c_rs2_s :: "ux_t \<Rightarrow> uint" where
  "c_rs2_s instr = GETBITS instr 4 2 + 8"

definition c_rs1_l :: "ux_t \<Rightarrow> uint" where
  "c_rs1_l instr = GETBITS instr 11 7"

definition c_rs2_l :: "ux_t \<Rightarrow> uint" where
  "c_rs2_l instr = GETBITS instr 6 2"

section \<open>Memory interface (mem.h)\<close>

text \<open>
  A call of a device method either returns or does not return: \<^verbatim>\<open>FlatMem32\<close> aborts the
  simulator on a failed \<^verbatim>\<open>assert\<close>, and \<^verbatim>\<open>TBMemIO\<close> leaves by an exception. The outcome of
  a call is an option, \<open>None\<close> when the call does not return; every function below that
  calls a device has such an outcome too, \<open>None\<close> as soon as one of its calls does not
  return.
\<close>

type_synonym 'a call = "'a option"

text \<open>
  \<^verbatim>\<open>MemBase32\<close> is an abstract base class with six virtual methods. A device is modelled
  by its state, of some type \<open>'m\<close>, and the table of its methods. A read that returns
  gives the optional value (no device of the repository changes state on a read); a write
  that returns gives the success flag and the device state after it.
\<close>

record 'm MemBase32 =
  mem_r8  :: "'m \<Rightarrow> ux_t \<Rightarrow> uint8_t option call"
  mem_w8  :: "'m \<Rightarrow> ux_t \<Rightarrow> uint8_t \<Rightarrow> (bool \<times> 'm) call"
  mem_r16 :: "'m \<Rightarrow> ux_t \<Rightarrow> uint16_t option call"
  mem_w16 :: "'m \<Rightarrow> ux_t \<Rightarrow> uint16_t \<Rightarrow> (bool \<times> 'm) call"
  mem_r32 :: "'m \<Rightarrow> ux_t \<Rightarrow> ux_t option call"
  mem_w32 :: "'m \<Rightarrow> ux_t \<Rightarrow> ux_t \<Rightarrow> (bool \<times> 'm) call"

text \<open>The methods of the base class itself: every access returns a bus error. A derived
  device overrides some of them (\<^verbatim>\<open>TBMemIO\<close> for instance overrides \<^verbatim>\<open>w32\<close> only).\<close>

definition MemBase32_base :: "'m MemBase32" where
  "MemBase32_base =
     \<lparr> mem_r8 = (\<lambda>m addr. Some None), mem_w8 = (\<lambda>m addr data. Some (False, m)),
       mem_r16 = (\<lambda>m addr. Some None), mem_w16 = (\<lambda>m addr data. Some (False, m)),
       mem_r32 = (\<lambda>m addr. Some None), mem_w32 = (\<lambda>m addr data. Some (False, m)) \<rparr>"

section \<open>The hart (rv\_core.h)\<close>

text \<open>
  \<^verbatim>\<open>regs\<close> is a \<^verbatim>\<open>std::array<ux_t, 32>\<close>; every index the step function uses is a five-bit
  field of the instruction (or 8 plus a three-bit field), so it is modelled as a function
  from the index. \<^verbatim>\<open>ram\<close> is the embedded RAM, an array of words indexed by
  \<^verbatim>\<open>(addr - ram_base) >> 2\<close> and only reached for \<^verbatim>\<open>ram_base <= addr < ram_top\<close>.
  \<^verbatim>\<open>mem\<close> is the state of the device the hart refers to.
\<close>

record 'm RVCore =
  regs :: "nat \<Rightarrow> ux_t"
  pc :: ux_t
  csr :: RVCSR
  load_reserved :: bool
  mem :: 'm
  ram :: "nat \<Rightarrow> ux_t"
  ram_base :: ux_t
  ram_top :: ux_t

definition OPC_LOAD     :: uint where "OPC_LOAD     = 0x00"
definition OPC_MISC_MEM :: uint where "OPC_MISC_MEM = 0x03"
definition OPC_OP_IMM   :: uint where "OPC_OP_IMM   = 0x04"
definition OPC_AUIPC    :: uint where "OPC_AUIPC    = 0x05"
definition OPC_STORE    :: uint where "OPC_STORE    = 0x08"
definition OPC_AMO      :: uint where "OPC_AMO      = 0x0b"
definition OPC_OP       :: uint where "OPC_OP       = 0x0c"
definition OPC_LUI      :: uint where "OPC_LUI      = 0x0d"
definition OPC_BRANCH   :: uint where "OPC_BRANCH   = 0x18"
definition OPC_JALR     :: uint where "OPC_JALR     = 0x19"
definition OPC_JAL      :: uint where "OPC_JAL      = 0x1b"
definition OPC_SYSTEM   :: uint where "OPC_SYSTEM   = 0x1c"

text \<open>\<^verbatim>\<open>RVCore::r32\<close> and \<^verbatim>\<open>RVCore::w32\<close>, the hart's view of memory that the page-table
  walk uses: the embedded RAM takes precedence over the device.\<close>

definition r32 :: "'m MemBase32 \<Rightarrow> 'm RVCore \<Rightarrow> ux_t \<Rightarrow> ux_t option call" where
  "r32 M c addr =
     (if addr \<ge> ram_base c \<and> addr < ram_top c
      then Some (Some (ram c (unat (drop_bit 2 (addr - ram_base c)))))
      else mem_r32 M (mem c) addr)"

definition w32 ::
  "'m MemBase32 \<Rightarrow> 'm RVCore \<Rightarrow> ux_t \<Rightarrow> ux_t \<Rightarrow> (bool \<times> 'm RVCore) call" where
  "w32 M c addr data =
     (if addr \<ge> ram_base c \<and> addr < ram_top c
      then Some (True, c\<lparr>ram := (ram c)(unat (drop_bit 2 (addr - ram_base c)) := data)\<rparr>)
      else (case mem_w32 M (mem c) addr data of
              None \<Rightarrow> None
            | Some (ok, m') \<Rightarrow> Some (ok, c\<lparr>mem := m'\<rparr>)))"

text \<open>The A/D update and result of a leaf entry, the tail shared by the two levels of
  \<^verbatim>\<open>vmap_sv32\<close>: \<open>keep\<close> is the mask of the PPN bits taken from the entry,
  \<open>off\<close> the mask of the address bits taken from \<open>vaddr\<close>.\<close>

definition pte_a_d_update :: "ux_t \<Rightarrow> ux_t \<Rightarrow> ux_t" where
  "pte_a_d_update pte required_permissions =
     pte OR PTE_A OR (if required_permissions AND PTE_W \<noteq> 0 then PTE_D else 0)"

definition vmap_leaf ::
  "'m MemBase32 \<Rightarrow> 'm RVCore \<Rightarrow> ux_t \<Rightarrow> ux_t \<Rightarrow> ux_t \<Rightarrow> ux_t \<Rightarrow> ux_t \<Rightarrow> ux_t \<Rightarrow>
     (ux_t option \<times> 'm RVCore) call" where
  "vmap_leaf M c addr_of_pte pte required_permissions vaddr keep off =
     (let upd = pte_a_d_update pte required_permissions;
          paddr = (push_bit 2 pte AND keep) OR (vaddr AND off)
      in if upd \<noteq> pte then
           (case w32 M c addr_of_pte upd of
              None \<Rightarrow> None
            | Some (ok, c') \<Rightarrow> Some (if \<not> ok then (None, c') else (Some paddr, c')))
         else Some (Some paddr, c))"

text \<open>\<^verbatim>\<open>RVCore::vmap_sv32\<close>. It starts with \<^verbatim>\<open>assert(effective_priv <= PRV_S)\<close>, the only
  use of that argument: the call does not return when the assertion fails.\<close>

definition vmap_sv32 ::
  "'m MemBase32 \<Rightarrow> 'm RVCore \<Rightarrow> ux_t \<Rightarrow> ux_t \<Rightarrow> uint \<Rightarrow> ux_t \<Rightarrow>
     (ux_t option \<times> 'm RVCore) call" where
  "vmap_sv32 M c vaddr atp effective_priv required_permissions =
    (if \<not> effective_priv \<le> PRV_S then None
     else
     let addr_of_pte1 = atp + (drop_bit 20 vaddr AND 0xffc) in
     case r32 M c addr_of_pte1 of
       None \<Rightarrow> None
     | Some None \<Rightarrow> Some (None, c)
     | Some (Some pte1) \<Rightarrow>
         if \<not> (pte1 AND PTE_V \<noteq> 0) then Some (None, c)
         else if pte1 AND (PTE_X OR PTE_W OR PTE_R) \<noteq> 0 then
           (if \<not> pte_permissions_ok (csr c) pte1 required_permissions then Some (None, c)
            else if pte1 AND 0x000ffc00 \<noteq> 0 then Some (None, c)
            else vmap_leaf M c addr_of_pte1 pte1 required_permissions vaddr
                   0xffc00000 0x003fffff)
         else
           (let addr_of_pte0 = (push_bit 2 pte1 AND 0xfffff000) OR (drop_bit 10 vaddr AND 0xffc)
            in (case r32 M c addr_of_pte0 of
                  None \<Rightarrow> None
                | Some None \<Rightarrow> Some (None, c)
                | Some (Some pte0) \<Rightarrow>
                    (if \<not> (pte0 AND PTE_V \<noteq> 0 \<and> pte0 AND (PTE_X OR PTE_W OR PTE_R) \<noteq> 0)
                     then Some (None, c)
                     else if \<not> pte_permissions_ok (csr c) pte0 required_permissions
                     then Some (None, c)
                     else vmap_leaf M c addr_of_pte0 pte0 required_permissions vaddr
                            0xfffff000 0xfff))))"

definition vmap_ls ::
  "'m MemBase32 \<Rightarrow> 'm RVCore \<Rightarrow> ux_t \<Rightarrow> ux_t \<Rightarrow> (ux_t option \<times> 'm RVCore) call" where
  "vmap_ls M c vaddr required_permissions =
     (if translation_enabled_ls (csr c)
      then vmap_sv32 M c vaddr (get_atp (csr c)) (get_effective_priv_ls (csr c))
             required_permissions
      else Some (Some vaddr, c))"

definition vmap_fetch ::
  "'m MemBase32 \<Rightarrow> 'm RVCore \<Rightarrow> ux_t \<Rightarrow> (ux_t option \<times> 'm RVCore) call" where
  "vmap_fetch M c vaddr =
     (if translation_enabled_fetch (csr c)
      then vmap_sv32 M c vaddr (get_atp (csr c)) (get_true_priv (csr c)) PTE_X
      else Some (Some vaddr, c))"

section \<open>The instruction step (rv\_core.cpp)\<close>

text \<open>
  The local variables of \<^verbatim>\<open>RVCore::step\<close> that carry the outcome of an instruction to the
  write-back at the end of the function. The \<^verbatim>\<open>trace\<close> argument only prints, and the
  \<^verbatim>\<open>trace_*\<close> locals feed the printing alone; they are left out.
\<close>

record step_locals =
  rd_wdata :: "ux_t option"
  pc_wdata :: "ux_t option"
  exception_cause :: "uint option"
  xtval_wdata :: "ux_t option"
  regnum_rd :: uint

definition locals_init :: step_locals where
  "locals_init = \<lparr> rd_wdata = None, pc_wdata = None, exception_cause = None,
     xtval_wdata = None, regnum_rd = 0 \<rparr>"

text \<open>The multiplications of \<^verbatim>\<open>case OPC_OP\<close>, \<^verbatim>\<open>funct7 == 0b0000001\<close>,
  \<^verbatim>\<open>funct3 < 0b100\<close>. The operands are \<^verbatim>\<open>int64_t\<close>; the model computes on 64-bit words
  (two's complement, as the compilers the simulator builds with do), with \<^verbatim>\<open>>>\<close> on the
  signed product an arithmetic shift. The constant \<^verbatim>\<open>1 << (XLEN - 1)\<close> is the \<^verbatim>\<open>int\<close>
  with only the sign bit set, which widens to \<^verbatim>\<open>0xffffffff80000000\<close>.\<close>

definition mul_ops :: "uint \<Rightarrow> ux_t \<Rightarrow> ux_t \<Rightarrow> ux_t" where
  "mul_ops funct3 rs1 rs2 =
    (let mul_op_a = (ucast rs1 :: 64 word);
         mul_op_b = (ucast rs2 :: 64 word);
         mul_op_a = (if funct3 \<noteq> 3
                     then mul_op_a - push_bit 1 (mul_op_a AND 0xffffffff80000000)
                     else mul_op_a);
         mul_op_b = (if funct3 < 2
                     then mul_op_b - push_bit 1 (mul_op_b AND 0xffffffff80000000)
                     else mul_op_b);
         mul_result = mul_op_a * mul_op_b
     in if funct3 = 0 then ucast mul_result else ucast (signed_drop_bit XLEN mul_result))"

text \<open>The divisions and remainders of the same case, \<^verbatim>\<open>funct3 >= 0b100\<close>. C's \<^verbatim>\<open>/\<close> and
  \<^verbatim>\<open>%\<close> on \<^verbatim>\<open>sx_t\<close> truncate towards zero (\<open>sdiv\<close>, \<open>smod\<close>); they are only reached
  with a divisor that is neither 0 nor -1.\<close>

definition div_ops :: "uint \<Rightarrow> ux_t \<Rightarrow> ux_t \<Rightarrow> ux_t option" where
  "div_ops funct3 rs1 rs2 =
    (if funct3 = 4 then
       (if rs2 = 0 then Some (- 1)
        else if rs2 = NOT 0 then Some (- rs1)
        else Some (word_of_int (sint rs1 sdiv sint rs2)))
     else if funct3 = 5 then Some (if rs2 \<noteq> 0 then rs1 div rs2 else NOT 0)
     else if funct3 = 6 then
       (if rs2 = 0 then Some rs1
        else if rs2 = NOT 0 then Some 0
        else Some (word_of_int (sint rs1 smod sint rs2)))
     else if funct3 = 7 then Some (if rs2 \<noteq> 0 then rs1 mod rs2 else rs1)
     else None)"

text \<open>\<^verbatim>\<open>case OPC_OP\<close>: sets \<^verbatim>\<open>rd_wdata\<close> or \<^verbatim>\<open>exception_cause\<close>.\<close>

definition exec_op :: "uint \<Rightarrow> uint \<Rightarrow> ux_t \<Rightarrow> ux_t \<Rightarrow> step_locals \<Rightarrow> step_locals" where
  "exec_op funct7 funct3 rs1 rs2 l =
    (if funct7 = 0x00 then
       (if funct3 = 0 then l\<lparr>rd_wdata := Some (rs1 + rs2)\<rparr>
        else if funct3 = 1 then l\<lparr>rd_wdata := Some (push_bit (unat (rs2 AND 0x1f)) rs1)\<rparr>
        else if funct3 = 2 then l\<lparr>rd_wdata := Some (of_bool (rs1 <s rs2))\<rparr>
        else if funct3 = 3 then l\<lparr>rd_wdata := Some (of_bool (rs1 < rs2))\<rparr>
        else if funct3 = 4 then l\<lparr>rd_wdata := Some (rs1 XOR rs2)\<rparr>
        else if funct3 = 5 then l\<lparr>rd_wdata := Some (drop_bit (unat (rs2 AND 0x1f)) rs1)\<rparr>
        else if funct3 = 6 then l\<lparr>rd_wdata := Some (rs1 OR rs2)\<rparr>
        else if funct3 = 7 then l\<lparr>rd_wdata := Some (rs1 AND rs2)\<rparr>
        else l\<lparr>exception_cause := Some XCAUSE_INSTR_ILLEGAL\<rparr>)
     else if funct7 = 0x20 then
       (if funct3 = 0 then l\<lparr>rd_wdata := Some (rs1 - rs2)\<rparr>
        else if funct3 = 5
        then l\<lparr>rd_wdata := Some (signed_drop_bit (unat (rs2 AND 0x1f)) rs1)\<rparr>
        else l\<lparr>exception_cause := Some XCAUSE_INSTR_ILLEGAL\<rparr>)
     else if funct7 = 0x01 then
       (if funct3 < 4 then l\<lparr>rd_wdata := Some (mul_ops funct3 rs1 rs2)\<rparr>
        else (case div_ops funct3 rs1 rs2 of Some v \<Rightarrow> l\<lparr>rd_wdata := Some v\<rparr> | None \<Rightarrow> l))
     else l\<lparr>exception_cause := Some XCAUSE_INSTR_ILLEGAL\<rparr>)"

text \<open>\<^verbatim>\<open>case OPC_OP_IMM\<close>; the shift amount is the field \<^verbatim>\<open>regnum_rs2\<close>.\<close>

definition exec_op_imm ::
  "ux_t \<Rightarrow> uint \<Rightarrow> uint \<Rightarrow> uint \<Rightarrow> ux_t \<Rightarrow> step_locals \<Rightarrow> step_locals" where
  "exec_op_imm instr funct7 funct3 regnum_rs2 rs1 l =
    (let imm = imm_i instr in
     if funct3 = 0 then l\<lparr>rd_wdata := Some (rs1 + imm)\<rparr>
     else if funct3 = 2 then l\<lparr>rd_wdata := Some (of_bool (rs1 <s imm))\<rparr>
     else if funct3 = 3 then l\<lparr>rd_wdata := Some (of_bool (rs1 < imm))\<rparr>
     else if funct3 = 4 then l\<lparr>rd_wdata := Some (rs1 XOR imm)\<rparr>
     else if funct3 = 6 then l\<lparr>rd_wdata := Some (rs1 OR imm)\<rparr>
     else if funct3 = 7 then l\<lparr>rd_wdata := Some (rs1 AND imm)\<rparr>
     else if funct3 = 1 \<or> funct3 = 5 then
       (if funct7 = 0x00 \<and> funct3 = 1
        then l\<lparr>rd_wdata := Some (push_bit (unat regnum_rs2) rs1)\<rparr>
        else if funct7 = 0x00 \<and> funct3 = 5
        then l\<lparr>rd_wdata := Some (drop_bit (unat regnum_rs2) rs1)\<rparr>
        else if funct7 = 0x20 \<and> funct3 = 5
        then l\<lparr>rd_wdata := Some (signed_drop_bit (unat regnum_rs2) rs1)\<rparr>
        else l\<lparr>exception_cause := Some XCAUSE_INSTR_ILLEGAL\<rparr>)
     else l\<lparr>exception_cause := Some XCAUSE_INSTR_ILLEGAL\<rparr>)"

text \<open>\<^verbatim>\<open>case OPC_BRANCH\<close>.\<close>

definition exec_branch :: "ux_t \<Rightarrow> ux_t \<Rightarrow> uint \<Rightarrow> ux_t \<Rightarrow> ux_t \<Rightarrow> step_locals \<Rightarrow> step_locals" where
  "exec_branch instr pc0 funct3 rs1 rs2 l =
    (let target = pc0 + imm_b instr;
         (taken, l1) =
           (if funct3 AND 6 = 0 then (rs1 = rs2, l)
            else if funct3 AND 6 = 4 then (rs1 <s rs2, l)
            else if funct3 AND 6 = 6 then (rs1 < rs2, l)
            else (False, l\<lparr>exception_cause := Some XCAUSE_INSTR_ILLEGAL\<rparr>));
         taken = (if exception_cause l1 = None \<and> funct3 AND 1 \<noteq> 0 then \<not> taken else taken)
     in if taken then l1\<lparr>pc_wdata := Some target\<rparr> else l1)"

text \<open>\<^verbatim>\<open>case OPC_LOAD\<close>. The value read (an optional \<^verbatim>\<open>uint8_t\<close>, \<^verbatim>\<open>uint16_t\<close> or
  \<^verbatim>\<open>uint32_t\<close>) is assigned to \<^verbatim>\<open>rd_wdata\<close>, empty when the read failed.\<close>

definition load_value :: "'m MemBase32 \<Rightarrow> 'm \<Rightarrow> uint \<Rightarrow> ux_t \<Rightarrow> ux_t option call" where
  "load_value M m funct3 addr =
    (if funct3 = 0 then map_option (map_option (\<lambda>v. sext (ucast v) 7)) (mem_r8 M m addr)
     else if funct3 = 1
     then map_option (map_option (\<lambda>v. sext (ucast v) 15)) (mem_r16 M m addr)
     else if funct3 = 2 then mem_r32 M m addr
     else if funct3 = 4 then map_option (map_option ucast) (mem_r8 M m addr)
     else if funct3 = 5 then map_option (map_option ucast) (mem_r16 M m addr)
     else Some None)"

definition exec_load ::
  "'m MemBase32 \<Rightarrow> ux_t \<Rightarrow> uint \<Rightarrow> ux_t \<Rightarrow> step_locals \<Rightarrow> 'm RVCore \<Rightarrow>
     (step_locals \<times> 'm RVCore) call"
  where
  "exec_load M instr funct3 rs1 l c =
    (let load_addr_v = rs1 + imm_i instr;
         align_mask = NOT (push_bit (unat (funct3 AND 0x3)) (- 1 :: ux_t));
         misalign = (load_addr_v AND align_mask \<noteq> 0)
     in
     if funct3 = 3 \<or> funct3 > 5
     then Some (l\<lparr>exception_cause := Some XCAUSE_INSTR_ILLEGAL\<rparr>, c)
     else if misalign then
       Some (l\<lparr>exception_cause := Some XCAUSE_LOAD_ALIGN,
                xtval_wdata := Some load_addr_v\<rparr>, c)
     else
       (case vmap_ls M c load_addr_v PTE_R of
          None \<Rightarrow> None
        | Some (None, c1) \<Rightarrow>
            Some (l\<lparr>exception_cause := Some XCAUSE_LOAD_PAGEFAULT,
                     xtval_wdata := Some load_addr_v\<rparr>, c1)
        | Some (Some p, c1) \<Rightarrow>
            (case load_value M (mem c1) funct3 p of
               None \<Rightarrow> None
             | Some (Some v) \<Rightarrow> Some (l\<lparr>rd_wdata := Some v\<rparr>, c1)
             | Some None \<Rightarrow>
                 Some (l\<lparr>rd_wdata := None, exception_cause := Some XCAUSE_LOAD_FAULT,
                          xtval_wdata := Some load_addr_v\<rparr>, c1))))"

text \<open>\<^verbatim>\<open>case OPC_STORE\<close>.\<close>

definition store_value ::
  "'m MemBase32 \<Rightarrow> 'm \<Rightarrow> uint \<Rightarrow> ux_t \<Rightarrow> ux_t \<Rightarrow> (bool \<times> 'm) call" where
  "store_value M m funct3 addr rs2 =
    (if funct3 = 0 then mem_w8 M m addr (ucast (rs2 AND 0xff))
     else if funct3 = 1 then mem_w16 M m addr (ucast (rs2 AND 0xffff))
     else if funct3 = 2 then mem_w32 M m addr rs2
     else Some (True, m))"

definition exec_store ::
  "'m MemBase32 \<Rightarrow> ux_t \<Rightarrow> uint \<Rightarrow> ux_t \<Rightarrow> ux_t \<Rightarrow> step_locals \<Rightarrow> 'm RVCore \<Rightarrow>
     (step_locals \<times> 'm RVCore) call" where
  "exec_store M instr funct3 rs1 rs2 l c =
    (let store_addr_v = rs1 + imm_s instr;
         align_mask = NOT (push_bit (unat (funct3 AND 0x3)) (- 1 :: ux_t));
         misalign = (store_addr_v AND align_mask \<noteq> 0)
     in
     if funct3 > 2 then Some (l\<lparr>exception_cause := Some XCAUSE_INSTR_ILLEGAL\<rparr>, c)
     else if misalign then
       Some (l\<lparr>exception_cause := Some XCAUSE_STORE_ALIGN,
                xtval_wdata := Some store_addr_v\<rparr>, c)
     else
       (case vmap_ls M c store_addr_v PTE_W of
          None \<Rightarrow> None
        | Some (None, c1) \<Rightarrow>
            Some (l\<lparr>exception_cause := Some XCAUSE_STORE_PAGEFAULT,
                     xtval_wdata := Some store_addr_v\<rparr>, c1)
        | Some (Some p, c1) \<Rightarrow>
            (case store_value M (mem c1) funct3 p rs2 of
               None \<Rightarrow> None
             | Some (ok, m') \<Rightarrow>
                 Some (if \<not> ok
                       then (l\<lparr>exception_cause := Some XCAUSE_STORE_FAULT,
                               xtval_wdata := Some store_addr_v\<rparr>, c1\<lparr>mem := m'\<rparr>)
                       else (l, c1\<lparr>mem := m'\<rparr>)))))"

text \<open>\<^verbatim>\<open>case OPC_AMO\<close>. First the value an AMO stores, the \<^verbatim>\<open>switch\<close> on
  \<^verbatim>\<open>instr & RVOPC_AMOSWAP_W_MASK\<close>; \<open>None\<close> is its \<^verbatim>\<open>default\<close>, which asserts false
  (the AMO then does not return) and is not reached from the enclosing test.\<close>

definition amo_wdata :: "ux_t \<Rightarrow> ux_t \<Rightarrow> ux_t \<Rightarrow> ux_t option" where
  "amo_wdata instr rd rs2 =
    (let sel = instr AND snd RVOPC_AMOSWAP_W in
     if sel = fst RVOPC_AMOSWAP_W then Some rs2
     else if sel = fst RVOPC_AMOADD_W then Some (rd + rs2)
     else if sel = fst RVOPC_AMOXOR_W then Some (rd XOR rs2)
     else if sel = fst RVOPC_AMOAND_W then Some (rd AND rs2)
     else if sel = fst RVOPC_AMOOR_W then Some (rd OR rs2)
     else if sel = fst RVOPC_AMOMIN_W then Some (if rd <s rs2 then rd else rs2)
     else if sel = fst RVOPC_AMOMAX_W then Some (if rs2 <s rd then rd else rs2)
     else if sel = fst RVOPC_AMOMINU_W then Some (if rd < rs2 then rd else rs2)
     else if sel = fst RVOPC_AMOMAXU_W then Some (if rd > rs2 then rd else rs2)
     else None)"

definition exec_lr_w ::
  "'m MemBase32 \<Rightarrow> ux_t \<Rightarrow> step_locals \<Rightarrow> 'm RVCore \<Rightarrow> (step_locals \<times> 'm RVCore) call"
  where
  "exec_lr_w M rs1 l c =
    (if rs1 AND 0x3 \<noteq> 0
     then Some (l\<lparr>exception_cause := Some XCAUSE_LOAD_ALIGN, xtval_wdata := Some rs1\<rparr>, c)
     else
       (case vmap_ls M c rs1 PTE_R of
          None \<Rightarrow> None
        | Some (None, c1) \<Rightarrow>
            Some (l\<lparr>exception_cause := Some XCAUSE_LOAD_PAGEFAULT,
                     xtval_wdata := Some rs1\<rparr>, c1)
        | Some (Some p, c1) \<Rightarrow>
            (case mem_r32 M (mem c1) p of
               None \<Rightarrow> None
             | Some (Some v) \<Rightarrow> Some (l\<lparr>rd_wdata := Some v\<rparr>, c1\<lparr>load_reserved := True\<rparr>)
             | Some None \<Rightarrow>
                 Some (l\<lparr>rd_wdata := None, exception_cause := Some XCAUSE_LOAD_FAULT,
                          xtval_wdata := Some rs1\<rparr>, c1))))"

text \<open>SC.W. In the source the assignment of \<^verbatim>\<open>xtval_wdata\<close> sits inside the aligned
  branch, so a misaligned SC.W raises its fault without a syndrome.\<close>

definition exec_sc_w ::
  "'m MemBase32 \<Rightarrow> ux_t \<Rightarrow> ux_t \<Rightarrow> step_locals \<Rightarrow> 'm RVCore \<Rightarrow>
     (step_locals \<times> 'm RVCore) call"
  where
  "exec_sc_w M rs1 rs2 l c =
    (if rs1 AND 0x3 \<noteq> 0 then Some (l\<lparr>exception_cause := Some XCAUSE_STORE_ALIGN\<rparr>, c)
     else if load_reserved c then
       (case vmap_ls M c rs1 PTE_W of
          None \<Rightarrow> None
        | Some (None, c1) \<Rightarrow>
            Some (l\<lparr>exception_cause := Some XCAUSE_STORE_PAGEFAULT,
                     xtval_wdata := Some rs1\<rparr>, c1)
        | Some (Some p, c1) \<Rightarrow>
            (let c2 = c1\<lparr>load_reserved := False\<rparr> in
             case mem_w32 M (mem c2) p rs2 of
               None \<Rightarrow> None
             | Some (ok, m') \<Rightarrow>
                 Some (if ok then (l\<lparr>rd_wdata := Some 0\<rparr>, c2\<lparr>mem := m'\<rparr>)
                       else (l\<lparr>exception_cause := Some XCAUSE_STORE_FAULT,
                               xtval_wdata := Some rs1\<rparr>, c2\<lparr>mem := m'\<rparr>))))
     else Some (l\<lparr>rd_wdata := Some 1\<rparr>, c))"

definition exec_amo_rmw ::
  "'m MemBase32 \<Rightarrow> ux_t \<Rightarrow> ux_t \<Rightarrow> ux_t \<Rightarrow> step_locals \<Rightarrow> 'm RVCore \<Rightarrow>
     (step_locals \<times> 'm RVCore) call" where
  "exec_amo_rmw M instr rs1 rs2 l c =
    (if rs1 AND 0x3 \<noteq> 0
     then Some (l\<lparr>exception_cause := Some XCAUSE_STORE_ALIGN, xtval_wdata := Some rs1\<rparr>, c)
     else
       (case vmap_ls M c rs1 (PTE_W OR PTE_R) of
          None \<Rightarrow> None
        | Some (None, c1) \<Rightarrow>
            Some (l\<lparr>exception_cause := Some XCAUSE_STORE_PAGEFAULT,
                     xtval_wdata := Some rs1\<rparr>, c1)
        | Some (Some p, c1) \<Rightarrow>
            (case mem_r32 M (mem c1) p of
               None \<Rightarrow> None
             | Some None \<Rightarrow>
                 Some (l\<lparr>rd_wdata := None, exception_cause := Some XCAUSE_STORE_FAULT,
                          xtval_wdata := Some rs1\<rparr>, c1)
             | Some (Some rd) \<Rightarrow>
                 (let l1 = l\<lparr>rd_wdata := Some rd\<rparr> in
                  case (case amo_wdata instr rd rs2 of
                          Some v \<Rightarrow> mem_w32 M (mem c1) p v
                        | None \<Rightarrow> None) of
                    None \<Rightarrow> None
                  | Some (write_success, m') \<Rightarrow>
                      Some (if \<not> write_success
                            then (l1\<lparr>exception_cause := Some XCAUSE_STORE_FAULT,
                                     xtval_wdata := Some rs1\<rparr>, c1\<lparr>mem := m'\<rparr>)
                            else (l1, c1\<lparr>mem := m'\<rparr>))))))"

definition exec_amo ::
  "'m MemBase32 \<Rightarrow> ux_t \<Rightarrow> ux_t \<Rightarrow> ux_t \<Rightarrow> step_locals \<Rightarrow> 'm RVCore \<Rightarrow>
     (step_locals \<times> 'm RVCore) call" where
  "exec_amo M instr rs1 rs2 l c =
    (if RVOPC_MATCH instr RVOPC_LR_W then exec_lr_w M rs1 l c
     else if RVOPC_MATCH instr RVOPC_SC_W then exec_sc_w M rs1 rs2 l c
     else if RVOPC_MATCH instr RVOPC_AMOSWAP_W \<or> RVOPC_MATCH instr RVOPC_AMOADD_W \<or>
             RVOPC_MATCH instr RVOPC_AMOXOR_W \<or> RVOPC_MATCH instr RVOPC_AMOAND_W \<or>
             RVOPC_MATCH instr RVOPC_AMOOR_W \<or> RVOPC_MATCH instr RVOPC_AMOMIN_W \<or>
             RVOPC_MATCH instr RVOPC_AMOMAX_W \<or> RVOPC_MATCH instr RVOPC_AMOMINU_W \<or>
             RVOPC_MATCH instr RVOPC_AMOMAXU_W
     then exec_amo_rmw M instr rs1 rs2 l c
     else Some (l\<lparr>exception_cause := Some XCAUSE_INSTR_ILLEGAL\<rparr>, c))"

text \<open>\<^verbatim>\<open>case OPC_SYSTEM\<close>, first its CSR instructions.\<close>

definition exec_csr ::
  "ux_t \<Rightarrow> uint \<Rightarrow> uint \<Rightarrow> ux_t \<Rightarrow> step_locals \<Rightarrow> RVCSR \<Rightarrow> step_locals \<times> RVCSR" where
  "exec_csr instr funct3 regnum_rs1 rs1 l cs =
    (let csr_addr = (ucast (drop_bit 20 instr) :: uint16_t);
         write_op = (funct3 - 1) AND 0x3;
         wdata = (if funct3 AND 0x4 \<noteq> 0 then regnum_rs1 else rs1);
         l1 = (if write_op \<noteq> WRITE \<or> regnum_rd l \<noteq> 0 then
                 (case read cs csr_addr of
                    Some v \<Rightarrow> l\<lparr>rd_wdata := Some v\<rparr>
                  | None \<Rightarrow> l\<lparr>rd_wdata := None,
                               exception_cause := Some XCAUSE_INSTR_ILLEGAL\<rparr>)
               else l);
         (l2, cs1) =
           (if write_op = WRITE \<or> regnum_rs1 \<noteq> 0 then
              (case RVCSR_write cs csr_addr wdata write_op of
                 Some cs' \<Rightarrow> (l1, cs')
               | None \<Rightarrow> (l1\<lparr>exception_cause := Some XCAUSE_INSTR_ILLEGAL\<rparr>, cs))
            else (l1, cs))
     in ((if exception_cause l2 \<noteq> None then l2\<lparr>rd_wdata := None\<rparr> else l2), cs1))"

definition exec_system ::
  "ux_t \<Rightarrow> ux_t \<Rightarrow> uint \<Rightarrow> uint \<Rightarrow> ux_t \<Rightarrow> step_locals \<Rightarrow> RVCSR \<Rightarrow> step_locals \<times> RVCSR"
  where
  "exec_system instr pc0 funct3 regnum_rs1 rs1 l cs =
    (if RVOPC_MATCH instr RVOPC_CSRRW \<or> RVOPC_MATCH instr RVOPC_CSRRS \<or>
        RVOPC_MATCH instr RVOPC_CSRRC \<or> RVOPC_MATCH instr RVOPC_CSRRWI \<or>
        RVOPC_MATCH instr RVOPC_CSRRSI \<or> RVOPC_MATCH instr RVOPC_CSRRCI
     then exec_csr instr funct3 regnum_rs1 rs1 l cs
     else if RVOPC_MATCH instr RVOPC_MRET then
       (if get_true_priv cs = PRV_M
        then (case trap_mret cs of (t, cs') \<Rightarrow> (l\<lparr>pc_wdata := Some t\<rparr>, cs'))
        else (l\<lparr>exception_cause := Some XCAUSE_INSTR_ILLEGAL\<rparr>, cs))
     else if RVOPC_MATCH instr RVOPC_SRET then
       (if get_true_priv cs \<ge> PRV_S
        then (case trap_sret cs pc0 of (t, cs') \<Rightarrow> (l\<lparr>pc_wdata := Some t\<rparr>, cs'))
        else (l\<lparr>exception_cause := Some XCAUSE_INSTR_ILLEGAL\<rparr>, cs))
     else if RVOPC_MATCH instr RVOPC_SFENCE_VMA then
       (if \<not> permit_sfence_vma cs then (l\<lparr>exception_cause := Some XCAUSE_INSTR_ILLEGAL\<rparr>, cs)
        else (l, cs))
     else if RVOPC_MATCH instr RVOPC_ECALL then
       (l\<lparr>exception_cause := Some (XCAUSE_ECALL_U + get_true_priv cs),
          xtval_wdata := Some 0\<rparr>, cs)
     else if RVOPC_MATCH instr RVOPC_EBREAK then
       (l\<lparr>exception_cause := Some XCAUSE_EBREAK, xtval_wdata := Some 0\<rparr>, cs)
     else if RVOPC_MATCH instr RVOPC_WFI then (l, cs)
     else (l\<lparr>exception_cause := Some XCAUSE_INSTR_ILLEGAL\<rparr>, cs))"

text \<open>The 32-bit instructions: the \<^verbatim>\<open>switch (opc)\<close>.\<close>

definition exec32 ::
  "'m MemBase32 \<Rightarrow> ux_t \<Rightarrow> 'm RVCore \<Rightarrow> (step_locals \<times> 'm RVCore) call" where
  "exec32 M instr c =
    (let opc = drop_bit 2 instr AND 0x1f;
         funct3 = drop_bit 12 instr AND 0x7;
         funct7 = drop_bit 25 instr AND 0x7f;
         regnum_rs1 = drop_bit 15 instr AND 0x1f;
         regnum_rs2 = drop_bit 20 instr AND 0x1f;
         l = locals_init\<lparr>regnum_rd := drop_bit 7 instr AND 0x1f\<rparr>;
         rs1 = regs c (unat regnum_rs1);
         rs2 = regs c (unat regnum_rs2)
     in
     if opc = OPC_OP then Some (exec_op funct7 funct3 rs1 rs2 l, c)
     else if opc = OPC_OP_IMM
     then Some (exec_op_imm instr funct7 funct3 regnum_rs2 rs1 l, c)
     else if opc = OPC_BRANCH then Some (exec_branch instr (pc c) funct3 rs1 rs2 l, c)
     else if opc = OPC_LOAD then exec_load M instr funct3 rs1 l c
     else if opc = OPC_STORE then exec_store M instr funct3 rs1 rs2 l c
     else if opc = OPC_AMO then exec_amo M instr rs1 rs2 l c
     else if opc = OPC_MISC_MEM then
       (if RVOPC_MATCH instr RVOPC_FENCE then Some (l, c)
        else if RVOPC_MATCH instr RVOPC_FENCE_I then Some (l, c)
        else Some (l\<lparr>exception_cause := Some XCAUSE_INSTR_ILLEGAL\<rparr>, c))
     else if opc = OPC_JAL
     then Some (l\<lparr>rd_wdata := Some (pc c + 4), pc_wdata := Some (pc c + imm_j instr)\<rparr>, c)
     else if opc = OPC_JALR
     then Some (l\<lparr>rd_wdata := Some (pc c + 4),
                   pc_wdata := Some ((rs1 + imm_i instr) AND - 2)\<rparr>, c)
     else if opc = OPC_LUI then Some (l\<lparr>rd_wdata := Some (imm_u instr)\<rparr>, c)
     else if opc = OPC_AUIPC then Some (l\<lparr>rd_wdata := Some (pc c + imm_u instr)\<rparr>, c)
     else if opc = OPC_SYSTEM then
       (case exec_system instr (pc c) funct3 regnum_rs1 rs1 l (csr c) of
          (l', cs') \<Rightarrow> Some (l', c\<lparr>csr := cs'\<rparr>))
     else Some (l\<lparr>exception_cause := Some XCAUSE_INSTR_ILLEGAL\<rparr>, c))"

text \<open>The word load and word store shared by \<^verbatim>\<open>c.lw\<close>, \<^verbatim>\<open>c.lwsp\<close>, \<^verbatim>\<open>c.sw\<close> and
  \<^verbatim>\<open>c.swsp\<close> (the source repeats the code at each of them).\<close>

definition exec_c_load ::
  "'m MemBase32 \<Rightarrow> ux_t \<Rightarrow> step_locals \<Rightarrow> 'm RVCore \<Rightarrow> (step_locals \<times> 'm RVCore) call"
  where
  "exec_c_load M addr_v l c =
    (if addr_v AND 0x3 \<noteq> 0
     then Some (l\<lparr>exception_cause := Some XCAUSE_LOAD_ALIGN, xtval_wdata := Some addr_v\<rparr>, c)
     else
       (case vmap_ls M c addr_v PTE_R of
          None \<Rightarrow> None
        | Some (Some p, c1) \<Rightarrow>
            (case mem_r32 M (mem c1) p of
               None \<Rightarrow> None
             | Some (Some v) \<Rightarrow> Some (l\<lparr>rd_wdata := Some v\<rparr>, c1)
             | Some None \<Rightarrow>
                 Some (l\<lparr>rd_wdata := None, exception_cause := Some XCAUSE_LOAD_FAULT,
                          xtval_wdata := Some addr_v\<rparr>, c1))
        | Some (None, c1) \<Rightarrow>
            Some (l\<lparr>exception_cause := Some XCAUSE_LOAD_PAGEFAULT,
                     xtval_wdata := Some addr_v\<rparr>, c1)))"

definition exec_c_store ::
  "'m MemBase32 \<Rightarrow> ux_t \<Rightarrow> ux_t \<Rightarrow> step_locals \<Rightarrow> 'm RVCore \<Rightarrow>
     (step_locals \<times> 'm RVCore) call"
  where
  "exec_c_store M addr_v data l c =
    (if addr_v AND 0x3 \<noteq> 0
     then Some (l\<lparr>exception_cause := Some XCAUSE_STORE_ALIGN,
                   xtval_wdata := Some addr_v\<rparr>, c)
     else
       (case vmap_ls M c addr_v PTE_W of
          None \<Rightarrow> None
        | Some (Some p, c1) \<Rightarrow>
            (case mem_w32 M (mem c1) p data of
               None \<Rightarrow> None
             | Some (ok, m') \<Rightarrow>
                 Some (if \<not> ok
                       then (l\<lparr>exception_cause := Some XCAUSE_STORE_FAULT,
                               xtval_wdata := Some addr_v\<rparr>, c1\<lparr>mem := m'\<rparr>)
                       else (l, c1\<lparr>mem := m'\<rparr>)))
        | Some (None, c1) \<Rightarrow>
            Some (l\<lparr>exception_cause := Some XCAUSE_STORE_PAGEFAULT,
                     xtval_wdata := Some addr_v\<rparr>, c1)))"

text \<open>RVC quadrant 00.\<close>

definition exec_rvc_q0 ::
  "'m MemBase32 \<Rightarrow> ux_t \<Rightarrow> 'm RVCore \<Rightarrow> (step_locals \<times> 'm RVCore) call" where
  "exec_rvc_q0 M instr c =
    (let l = locals_init in
     if RVOPC_MATCH instr RVOPC_ILLEGAL16
     then Some (l\<lparr>exception_cause := Some XCAUSE_INSTR_ILLEGAL\<rparr>, c)
     else if RVOPC_MATCH instr RVOPC_C_ADDI4SPN then
       Some (l\<lparr>regnum_rd := c_rs2_s instr,
          rd_wdata := Some (regs c 2
            + push_bit 4 (GETBITS instr 12 11)
            + push_bit 6 (GETBITS instr 10 7)
            + push_bit 2 (GETBIT instr 6)
            + push_bit 3 (GETBIT instr 5))\<rparr>, c)
     else if RVOPC_MATCH instr RVOPC_C_LW then
       exec_c_load M
         (regs c (unat (c_rs1_s instr))
            + push_bit 2 (GETBIT instr 6)
            + push_bit 3 (GETBITS instr 12 10)
            + push_bit 6 (GETBIT instr 5))
         (l\<lparr>regnum_rd := c_rs2_s instr\<rparr>) c
     else if RVOPC_MATCH instr RVOPC_C_SW then
       exec_c_store M
         (regs c (unat (c_rs1_s instr))
            + push_bit 2 (GETBIT instr 6)
            + push_bit 3 (GETBITS instr 12 10)
            + push_bit 6 (GETBIT instr 5))
         (regs c (unat (c_rs2_s instr))) l c
     else Some (l\<lparr>exception_cause := Some XCAUSE_INSTR_ILLEGAL\<rparr>, c))"

text \<open>RVC quadrant 01; it touches neither memory nor the CSRs.\<close>

definition exec_rvc_q1 :: "ux_t \<Rightarrow> 'm RVCore \<Rightarrow> step_locals" where
  "exec_rvc_q1 instr c =
    (let l = locals_init in
     if RVOPC_MATCH instr RVOPC_C_ADDI then
       l\<lparr>regnum_rd := c_rs1_l instr,
         rd_wdata := Some (regs c (unat (c_rs1_l instr)) + imm_ci instr)\<rparr>
     else if RVOPC_MATCH instr RVOPC_C_JAL then
       l\<lparr>pc_wdata := Some (pc c + imm_cj instr), regnum_rd := 1, rd_wdata := Some (pc c + 2)\<rparr>
     else if RVOPC_MATCH instr RVOPC_C_LI then
       l\<lparr>regnum_rd := c_rs1_l instr, rd_wdata := Some (imm_ci instr)\<rparr>
     else if RVOPC_MATCH instr RVOPC_C_LUI then
       (if c_rs1_l instr = 2 then
          l\<lparr>regnum_rd := c_rs1_l instr,
            rd_wdata := Some (regs c 2
              - push_bit 9 (GETBIT instr 12)
              + push_bit 4 (GETBIT instr 6)
              + push_bit 6 (GETBIT instr 5)
              + push_bit 7 (GETBITS instr 4 3)
              + push_bit 5 (GETBIT instr 2))\<rparr>
        else
          l\<lparr>regnum_rd := c_rs1_l instr,
            rd_wdata := Some (- (push_bit 17 (GETBIT instr 12))
              + push_bit 12 (GETBITS instr 6 2))\<rparr>)
     else if RVOPC_MATCH instr RVOPC_C_SRLI then
       l\<lparr>regnum_rd := c_rs1_s instr,
         rd_wdata := Some (drop_bit (unat (GETBITS instr 6 2)) (regs c (unat (c_rs1_s instr))))\<rparr>
     else if RVOPC_MATCH instr RVOPC_C_SRAI then
       l\<lparr>regnum_rd := c_rs1_s instr,
         rd_wdata :=
           Some (signed_drop_bit (unat (GETBITS instr 6 2)) (regs c (unat (c_rs1_s instr))))\<rparr>
     else if RVOPC_MATCH instr RVOPC_C_ANDI then
       l\<lparr>regnum_rd := c_rs1_s instr,
         rd_wdata := Some (regs c (unat (c_rs1_s instr)) AND imm_ci instr)\<rparr>
     else if RVOPC_MATCH instr RVOPC_C_SUB then
       l\<lparr>regnum_rd := c_rs1_s instr,
         rd_wdata := Some (regs c (unat (c_rs1_s instr)) - regs c (unat (c_rs2_s instr)))\<rparr>
     else if RVOPC_MATCH instr RVOPC_C_XOR then
       l\<lparr>regnum_rd := c_rs1_s instr,
         rd_wdata := Some (regs c (unat (c_rs1_s instr)) XOR regs c (unat (c_rs2_s instr)))\<rparr>
     else if RVOPC_MATCH instr RVOPC_C_OR then
       l\<lparr>regnum_rd := c_rs1_s instr,
         rd_wdata := Some (regs c (unat (c_rs1_s instr)) OR regs c (unat (c_rs2_s instr)))\<rparr>
     else if RVOPC_MATCH instr RVOPC_C_AND then
       l\<lparr>regnum_rd := c_rs1_s instr,
         rd_wdata := Some (regs c (unat (c_rs1_s instr)) AND regs c (unat (c_rs2_s instr)))\<rparr>
     else if RVOPC_MATCH instr RVOPC_C_J then l\<lparr>pc_wdata := Some (pc c + imm_cj instr)\<rparr>
     else if RVOPC_MATCH instr RVOPC_C_BEQZ then
       (if regs c (unat (c_rs1_s instr)) = 0 then l\<lparr>pc_wdata := Some (pc c + imm_cb instr)\<rparr>
        else l)
     else if RVOPC_MATCH instr RVOPC_C_BNEZ then
       (if regs c (unat (c_rs1_s instr)) \<noteq> 0 then l\<lparr>pc_wdata := Some (pc c + imm_cb instr)\<rparr>
        else l)
     else l\<lparr>exception_cause := Some XCAUSE_INSTR_ILLEGAL\<rparr>)"

text \<open>RVC quadrant 10.\<close>

definition exec_rvc_q2 ::
  "'m MemBase32 \<Rightarrow> ux_t \<Rightarrow> 'm RVCore \<Rightarrow> (step_locals \<times> 'm RVCore) call" where
  "exec_rvc_q2 M instr c =
    (let l = locals_init in
     if RVOPC_MATCH instr RVOPC_C_SLLI then
       Some (l\<lparr>regnum_rd := c_rs1_l instr,
          rd_wdata :=
            Some (push_bit (unat (GETBITS instr 6 2)) (regs c (unat (c_rs1_l instr))))\<rparr>, c)
     else if RVOPC_MATCH instr RVOPC_C_MV then
       (if c_rs2_l instr = 0
        then Some (l\<lparr>pc_wdata := Some (regs c (unat (c_rs1_l instr)) AND - 2)\<rparr>, c)
        else Some (l\<lparr>regnum_rd := c_rs1_l instr,
                rd_wdata := Some (regs c (unat (c_rs2_l instr)))\<rparr>, c))
     else if RVOPC_MATCH instr RVOPC_C_ADD then
       (if c_rs2_l instr = 0 then
          (if c_rs1_l instr = 0
           then Some (l\<lparr>exception_cause := Some XCAUSE_EBREAK, xtval_wdata := Some 0\<rparr>, c)
           else Some (l\<lparr>pc_wdata := Some (regs c (unat (c_rs1_l instr)) AND - 2),
                   regnum_rd := 1, rd_wdata := Some (pc c + 2)\<rparr>, c))
        else Some (l\<lparr>regnum_rd := c_rs1_l instr,
                rd_wdata := Some (regs c (unat (c_rs1_l instr))
                  + regs c (unat (c_rs2_l instr)))\<rparr>, c))
     else if RVOPC_MATCH instr RVOPC_C_LWSP then
       exec_c_load M
         (regs c 2
            + push_bit 5 (GETBIT instr 12)
            + push_bit 2 (GETBITS instr 6 4)
            + push_bit 6 (GETBITS instr 3 2))
         (l\<lparr>regnum_rd := c_rs1_l instr\<rparr>) c
     else if RVOPC_MATCH instr RVOPC_C_SWSP then
       exec_c_store M
         (regs c 2
            + push_bit 2 (GETBITS instr 12 9)
            + push_bit 6 (GETBITS instr 8 7))
         (regs c (unat (c_rs2_l instr))) l c
     else Some (l\<lparr>exception_cause := Some XCAUSE_INSTR_ILLEGAL\<rparr>, c))"

text \<open>
  The fetch at the head of \<^verbatim>\<open>RVCore::step\<close>: both halfwords are translated and read,
  one after the other, before the first is looked at.
\<close>

record fetched =
  fetch_paddr0 :: "ux_t option"
  fetch0 :: "uint16_t option"
  fetch_paddr1 :: "ux_t option"
  fetch1 :: "uint16_t option"

definition step_fetch :: "'m MemBase32 \<Rightarrow> 'm RVCore \<Rightarrow> (fetched \<times> 'm RVCore) call" where
  "step_fetch M c =
    (case vmap_fetch M c (pc c) of
       None \<Rightarrow> None
     | Some (p0, c1) \<Rightarrow>
         (case (case p0 of Some a \<Rightarrow> mem_r16 M (mem c1) a | None \<Rightarrow> Some None) of
            None \<Rightarrow> None
          | Some f0 \<Rightarrow>
              (case vmap_fetch M c1 (pc c + 2) of
                 None \<Rightarrow> None
               | Some (p1, c2) \<Rightarrow>
                   (case (case p1 of Some a \<Rightarrow> mem_r16 M (mem c2) a | None \<Rightarrow> Some None) of
                      None \<Rightarrow> None
                    | Some f1 \<Rightarrow>
                        Some (\<lparr>fetch_paddr0 = p0, fetch0 = f0, fetch_paddr1 = p1,
                                 fetch1 = f1\<rparr>, c2)))))"

text \<open>
  \<^verbatim>\<open>uint32_t instr = *fetch0 | (*fetch1 << 16)\<close> reads the two optionals without testing
  them. Reading an empty \<^verbatim>\<open>std::optional\<close> is undefined; the halfword such a read yields
  is a parameter of the model (\<open>junk0\<close> for \<^verbatim>\<open>fetch0\<close>, \<open>junk1\<close> for \<^verbatim>\<open>fetch1\<close>), so
  that nothing proved below depends on it.
\<close>

definition deref :: "'a \<Rightarrow> 'a option \<Rightarrow> 'a" where
  "deref junk opt = (case opt of Some v \<Rightarrow> v | None \<Rightarrow> junk)"

definition fetch_instr :: "uint16_t \<Rightarrow> uint16_t \<Rightarrow> fetched \<Rightarrow> ux_t" where
  "fetch_instr junk0 junk1 f =
     ucast (deref junk0 (fetch0 f)) OR push_bit 16 (ucast (deref junk1 (fetch1 f)))"

text \<open>The chain of tests from the fetch faults to the four decoders.\<close>

definition step_execute ::
  "'m MemBase32 \<Rightarrow> uint16_t \<Rightarrow> uint16_t \<Rightarrow> fetched \<Rightarrow> 'm RVCore \<Rightarrow>
     (step_locals \<times> 'm RVCore) call"
  where
  "step_execute M junk0 junk1 f c =
    (let instr = fetch_instr junk0 junk1 f in
     if fetch_paddr0 f = None \<or>
        ((case fetch0 f of Some h \<Rightarrow> h AND 0x3 = 0x3 | None \<Rightarrow> False) \<and>
         fetch_paddr1 f = None)
     then Some (locals_init\<lparr>exception_cause := Some XCAUSE_INSTR_PAGEFAULT,
             xtval_wdata := Some (if fetch_paddr0 f \<noteq> None then pc c + 2 else pc c)\<rparr>, c)
     else if fetch0 f = None \<or> (deref junk0 (fetch0 f) AND 0x3 = 0x3 \<and> fetch1 f = None)
     then Some (locals_init\<lparr>exception_cause := Some XCAUSE_INSTR_FAULT,
             xtval_wdata :=
               Some (if deref junk0 (fetch0 f) \<noteq> 0 then pc c + 2 else pc c)\<rparr>, c)
     else if instr AND 0x3 = 0x3 then exec32 M instr c
     else if instr AND 0x3 = 0x0 then exec_rvc_q0 M instr c
     else if instr AND 0x3 = 0x1 then Some (exec_rvc_q1 instr c, c)
     else exec_rvc_q2 M instr c)"

text \<open>The end of the function. First the trap entry for an exception or, without one,
  the interrupt check: it yields the locals with the final \<^verbatim>\<open>pc_wdata\<close> and the CSR
  state.\<close>

definition step_trap :: "ux_t \<Rightarrow> step_locals \<Rightarrow> 'm RVCore \<Rightarrow> step_locals \<times> RVCSR" where
  "step_trap instr l c =
    (case exception_cause l of
       Some cause \<Rightarrow>
         (let l' = (if cause = XCAUSE_INSTR_ILLEGAL \<and> xtval_wdata l = None
                    then l\<lparr>xtval_wdata :=
                           Some (instr AND (if instr AND 0x3 = 0x3 then 0xffffffff
                                            else 0x0000ffff))\<rparr>
                    else l);
              (t, cs) = trap_enter_exception (csr c) cause (pc c);
              cs' = (case xtval_wdata l' of
                       Some x \<Rightarrow> trap_set_xtval cs x
                     | None \<Rightarrow> cs)
          in (l'\<lparr>pc_wdata := Some t\<rparr>, cs'))
     | None \<Rightarrow>
         (case trap_check_enter_irq (csr c)
                 (case pc_wdata l of Some t \<Rightarrow> t | None \<Rightarrow> pc c) of
            (Some t, cs) \<Rightarrow> (l\<lparr>pc_wdata := Some t\<rparr>, cs)
          | (None, cs) \<Rightarrow> (l, cs)))"

text \<open>Then the commit of \<^verbatim>\<open>pc\<close> and \<^verbatim>\<open>rd\<close>, and the counters.\<close>

definition step_writeback :: "ux_t \<Rightarrow> step_locals \<Rightarrow> 'm RVCore \<Rightarrow> 'm RVCore" where
  "step_writeback instr l c =
    (let (l1, cs1) = step_trap instr l c;
         c1 = c\<lparr>csr := cs1,
                pc := (case pc_wdata l1 of
                         Some t \<Rightarrow> t
                       | None \<Rightarrow> pc c + (if instr AND 0x3 = 0x3 then 4 else 2))\<rparr>;
         c2 = (case rd_wdata l1 of
                 Some v \<Rightarrow>
                   if regnum_rd l1 \<noteq> 0
                   then c1\<lparr>regs := (regs c1)(unat (regnum_rd l1) := v)\<rparr> else c1
               | None \<Rightarrow> c1)
     in c2\<lparr>csr := step_counters (csr c2)\<rparr>)"

text \<open>\<^verbatim>\<open>RVCore::step\<close>: the state after the step, or \<open>None\<close> when the step does not
  return.\<close>

definition step ::
  "'m MemBase32 \<Rightarrow> uint16_t \<Rightarrow> uint16_t \<Rightarrow> 'm RVCore \<Rightarrow> 'm RVCore call" where
  "step M junk0 junk1 c =
    (case step_fetch M c of
       None \<Rightarrow> None
     | Some (f, c1) \<Rightarrow>
         (case step_execute M junk0 junk1 f c1 of
            None \<Rightarrow> None
          | Some (l, c2) \<Rightarrow> Some (step_writeback (fetch_instr junk0 junk1 f) l c2)))"

section \<open>Devices\<close>

text \<open>
  \<^verbatim>\<open>FlatMem32\<close> (mem.h): an array of \<^verbatim>\<open>size >> 2\<close> words, addressed from 0. Each method
  first asserts that the address (and the last byte of the access) is below \<^verbatim>\<open>size\<close>,
  and for the wider accesses that the address is aligned; a failed assertion aborts the
  simulator, and the call does not return. Otherwise a read returns a value and a write
  returns \<^verbatim>\<open>true\<close>.
\<close>

record FlatMem32 =
  fm_size :: "32 word"
  fm_mem :: "nat \<Rightarrow> 32 word"

definition FlatMem32_r8 :: "FlatMem32 \<Rightarrow> ux_t \<Rightarrow> uint8_t option call" where
  "FlatMem32_r8 m addr =
     (if \<not> addr < fm_size m then None
      else Some (Some (ucast (drop_bit (8 * unat (addr AND 0x3))
                                (fm_mem m (unat (drop_bit 2 addr))) AND 0xff))))"

definition FlatMem32_w8 :: "FlatMem32 \<Rightarrow> ux_t \<Rightarrow> uint8_t \<Rightarrow> (bool \<times> FlatMem32) call" where
  "FlatMem32_w8 m addr data =
     (if \<not> addr < fm_size m then None
      else
        (let i = unat (drop_bit 2 addr);
             sh = 8 * unat (addr AND 0x3);
             w = fm_mem m i AND NOT (push_bit sh 0xff);
             w = w OR push_bit sh (ucast data)
         in Some (True, m\<lparr>fm_mem := (fm_mem m)(i := w)\<rparr>)))"

definition FlatMem32_r16 :: "FlatMem32 \<Rightarrow> ux_t \<Rightarrow> uint16_t option call" where
  "FlatMem32_r16 m addr =
     (if \<not> (addr < fm_size m \<and> addr + 1 < fm_size m) then None
      else if \<not> addr mod 2 = 0 then None
      else Some (Some (ucast (drop_bit (8 * unat (addr AND 0x2))
                                (fm_mem m (unat (drop_bit 2 addr))) AND 0xffff))))"

definition FlatMem32_w16 :: "FlatMem32 \<Rightarrow> ux_t \<Rightarrow> uint16_t \<Rightarrow> (bool \<times> FlatMem32) call" where
  "FlatMem32_w16 m addr data =
     (if \<not> (addr < fm_size m \<and> addr + 1 < fm_size m) then None
      else if \<not> addr mod 2 = 0 then None
      else
        (let i = unat (drop_bit 2 addr);
             sh = 8 * unat (addr AND 0x2);
             w = fm_mem m i AND NOT (push_bit sh 0xffff);
             w = w OR push_bit sh (ucast data)
         in Some (True, m\<lparr>fm_mem := (fm_mem m)(i := w)\<rparr>)))"

definition FlatMem32_r32 :: "FlatMem32 \<Rightarrow> ux_t \<Rightarrow> ux_t option call" where
  "FlatMem32_r32 m addr =
     (if \<not> (addr < fm_size m \<and> addr + 3 < fm_size m) then None
      else if \<not> addr mod 4 = 0 then None
      else Some (Some (fm_mem m (unat (drop_bit 2 addr)))))"

definition FlatMem32_w32 :: "FlatMem32 \<Rightarrow> ux_t \<Rightarrow> ux_t \<Rightarrow> (bool \<times> FlatMem32) call" where
  "FlatMem32_w32 m addr data =
     (if \<not> (addr < fm_size m \<and> addr + 3 < fm_size m) then None
      else if \<not> addr mod 4 = 0 then None
      else Some (True, m\<lparr>fm_mem := (fm_mem m)(unat (drop_bit 2 addr) := data)\<rparr>))"

definition FlatMem32_dev :: "FlatMem32 MemBase32" where
  "FlatMem32_dev =
     \<lparr> mem_r8 = FlatMem32_r8, mem_w8 = FlatMem32_w8,
       mem_r16 = FlatMem32_r16, mem_w16 = FlatMem32_w16,
       mem_r32 = FlatMem32_r32, mem_w32 = FlatMem32_w32 \<rparr>"

text \<open>
  A read-only memory, used as an input below: a device that derives from \<^verbatim>\<open>MemBase32\<close>
  and overrides the three reads (with those of \<^verbatim>\<open>FlatMem32\<close>) and none of the writes,
  which stay the base class's \<^verbatim>\<open>return false\<close>. It is not a device of the repository;
  the interface admits it, as it admits \<^verbatim>\<open>TBMemIO\<close>, which overrides \<^verbatim>\<open>w32\<close> alone.
\<close>

definition ReadOnlyMem32_dev :: "FlatMem32 MemBase32" where
  "ReadOnlyMem32_dev =
     MemBase32_base\<lparr> mem_r8 := FlatMem32_r8, mem_r16 := FlatMem32_r16,
       mem_r32 := FlatMem32_r32 \<rparr>"

section \<open>Example machines\<close>


text \<open>
  \<open>irq_core\<close>: M-mode with MIE set, the machine timer interrupt enabled and the timer
  line high, \<^verbatim>\<open>mtvec = 0x100\<close>, \<open>pc = 0\<close>, and \<^verbatim>\<open>addi x1, x0, 1\<close> (\<open>0x00100093\<close>)
  at address 0.
\<close>

definition irq_core :: "FlatMem32 RVCore" where
  "irq_core =
     \<lparr> regs = (\<lambda>_. 0), pc = 0,
       csr = RVCSR_init\<lparr>irq_t := True, xstatus := MSTATUS_MIE, xie := MIP_MTIP,
               mtvec := 0x100\<rparr>,
       load_reserved = False,
       mem = \<lparr> fm_size = 0x10000, fm_mem = (\<lambda>_. 0)(0 := 0x00100093) \<rparr>,
       ram = (\<lambda>_. 0), ram_base = 0, ram_top = 0 \<rparr>"

text \<open>
  \<open>amo_core\<close>: M-mode after reset with \<^verbatim>\<open>mtvec = 0x100\<close>, \<open>pc = 0\<close>, every register 0,
  and \<^verbatim>\<open>amoadd.w x5, x0, (x0)\<close> (\<open>0x000022af\<close>) at address 0. It is stepped on the
  read-only device, so the AMO reads its own instruction word at address 0 and its write
  is refused.
\<close>

definition amo_core :: "FlatMem32 RVCore" where
  "amo_core =
     \<lparr> regs = (\<lambda>_. 0), pc = 0,
       csr = RVCSR_init\<lparr>mtvec := 0x100\<rparr>,
       load_reserved = False,
       mem = \<lparr> fm_size = 0x10000, fm_mem = (\<lambda>_. 0)(0 := 0x000022af) \<rparr>,
       ram = (\<lambda>_. 0), ram_base = 0, ram_top = 0 \<rparr>"

text \<open>
  \<open>rvc_core\<close>: S-mode with translation on, root page table at \<open>0x1000\<close> whose entry 0
  (word index \<open>0x400\<close>) points to the table at \<open>0x2000\<close>. That table maps the virtual
  page 0 to \<open>0x4000\<close> with V, X and A set (\<open>0x1049\<close>, word index \<open>0x800\<close>) and the
  virtual page 1 to \<open>0x5000\<close> with V and X set and A clear (\<open>0x1409\<close>, word index
  \<open>0x801\<close>). \<open>pc = 0xffe\<close>, the last halfword of page 0, where the compressed
  instruction \<^verbatim>\<open>c.nop\<close> (\<open>0x0001\<close>) lies (the upper half of the word at \<open>0x4ffc\<close>,
  word index \<open>0x13ff\<close>).
\<close>

definition rvc_core :: "FlatMem32 RVCore" where
  "rvc_core =
     \<lparr> regs = (\<lambda>_. 0), pc = 0xffe,
       csr = RVCSR_init\<lparr>priv := PRV_S, satp := 0x80000001\<rparr>,
       load_reserved = False,
       mem = \<lparr> fm_size = 0x10000,
               fm_mem = (\<lambda>_. 0)(0x400 := 0x801, 0x800 := 0x1049, 0x801 := 0x1409,
                                0x13ff := 0x00010000) \<rparr>,
       ram = (\<lambda>_. 0), ram_base = 0, ram_top = 0 \<rparr>"

text \<open>
  \<open>sc_core\<close>: M-mode after reset with the reservation set, \<open>x5 = 0x55\<close>,
  \<open>x6 = 0x100\<close>, \<open>x7 = 0xdead\<close>, \<open>pc = 0\<close>, and \<^verbatim>\<open>sc.w x5, x7, (x6)\<close>
  (\<open>0x187322af\<close>) at addresses 0 and 4.
\<close>

definition sc_core :: "FlatMem32 RVCore" where
  "sc_core =
     \<lparr> regs = (\<lambda>_. 0)(5 := 0x55, 6 := 0x100, 7 := 0xdead), pc = 0,
       csr = RVCSR_init,
       load_reserved = True,
       mem = \<lparr> fm_size = 0x10000,
               fm_mem = (\<lambda>_. 0)(0 := 0x187322af, 1 := 0x187322af) \<rparr>,
       ram = (\<lambda>_. 0), ram_base = 0, ram_top = 0 \<rparr>"

text \<open>
  \<open>div_core\<close>: M-mode after reset, \<open>pc = 0\<close>, \<open>x1 = 0x80000000\<close> (\<open>INT_MIN\<close>),
  \<open>x2 = 0xffffffff\<close> (-1), and \<^verbatim>\<open>div x3, x1, x2\<close> (\<open>0x0220c1b3\<close>) at address 0.
\<close>

definition div_core :: "FlatMem32 RVCore" where
  "div_core =
     \<lparr> regs = (\<lambda>_. 0)(1 := 0x80000000, 2 := 0xffffffff), pc = 0,
       csr = RVCSR_init,
       load_reserved = False,
       mem = \<lparr> fm_size = 0x10000, fm_mem = (\<lambda>_. 0)(0 := 0x0220c1b3) \<rparr>,
       ram = (\<lambda>_. 0), ram_base = 0, ram_top = 0 \<rparr>"


text \<open>
  \<open>edge_core\<close>: M-mode after reset with \<open>pc = 0xfffe\<close>, the last halfword of the
  64 KiB memory, where \<^verbatim>\<open>c.nop\<close> (\<open>0x0001\<close>) lies; \<open>pc + 2\<close> is the first address
  outside the memory.
\<close>

definition edge_core :: "FlatMem32 RVCore" where
  "edge_core =
     \<lparr> regs = (\<lambda>_. 0), pc = 0xfffe,
       csr = RVCSR_init,
       load_reserved = False,
       mem = \<lparr> fm_size = 0x10000, fm_mem = (\<lambda>_. 0)(0x3fff := 0x00010000) \<rparr>,
       ram = (\<lambda>_. 0), ram_base = 0, ram_top = 0 \<rparr>"

section \<open>The table of writable CSR bits\<close>

text \<open>
  The next two definitions follow the words of the specification, not the code: the table
  of its section 4.3 gives for each writable CSR the bits a write controls (\<open>csr_wmask_spec\<close>),
  and the remaining bits of the value read (\<open>csr_fixed_bits_spec\<close>) are the constant of
  \<^verbatim>\<open>misa\<close> and, for \<^verbatim>\<open>mip\<close> and \<^verbatim>\<open>sip\<close>, the bits that the latched interrupt lines
  drive together with the stored bits outside the mask. They are compared with \<open>read\<close> and
  \<open>RVCSR_write\<close> below.
\<close>

definition csr_wmask_spec :: "RVCSR \<Rightarrow> uint16_t \<Rightarrow> ux_t" where
  "csr_wmask_spec c a =
    (if a = CSR_MSTATUS then MSTATUS_MASK
     else if a = CSR_SSTATUS then SSTATUS_MASK
     else if a = CSR_MIE then ALL_MIP_BITS
     else if a = CSR_MIP \<or> a = CSR_SIE then SIP_MASK
     else if a = CSR_SIP then SIP_MASK AND mideleg c
     else if a = CSR_MTVEC \<or> a = CSR_STVEC then 0xfffffffd
     else if a = CSR_MEPC \<or> a = CSR_SEPC then 0xfffffffe
     else if a = CSR_MCAUSE \<or> a = CSR_SCAUSE then 0x800000ff
     else if a = CSR_MTVAL \<or> a = CSR_STVAL \<or> a = CSR_MSCRATCH \<or> a = CSR_SSCRATCH \<or>
             a = CSR_MEDELEG \<or> a = CSR_MIDELEG \<or> a = CSR_MCYCLE \<or> a = CSR_MCYCLEH \<or>
             a = CSR_MINSTRET \<or> a = CSR_MINSTRETH then 0xffffffff
     else if a = CSR_MCOUNTEREN \<or> a = CSR_SCOUNTEREN then 0x7
     else if a = CSR_SATP then NOT SATP32_ASID
     else 0)"

definition csr_fixed_bits_spec :: "RVCSR \<Rightarrow> uint16_t \<Rightarrow> ux_t" where
  "csr_fixed_bits_spec c a =
    (if a = CSR_MISA then 0x40101105
     else if a = CSR_MIP then
       get_effective_xip (c\<lparr>xip := xip c AND NOT SIP_MASK\<rparr>) AND ALL_MIP_BITS
     else if a = CSR_SIP then
       get_effective_xip (c\<lparr>xip := 0\<rparr>) AND SIP_MASK AND mideleg c
     else 0)"

section \<open>Collections of defining equations\<close>

lemmas csr_addr_defs =
  CSR_MSTATUS_def CSR_MISA_def CSR_MEDELEG_def CSR_MIDELEG_def CSR_MIE_def CSR_MTVEC_def
  CSR_MCOUNTEREN_def CSR_MSCRATCH_def CSR_MEPC_def CSR_MCAUSE_def CSR_MTVAL_def CSR_MIP_def
  CSR_MCYCLE_def CSR_MINSTRET_def CSR_MCYCLEH_def CSR_MINSTRETH_def CSR_MVENDORID_def
  CSR_MARCHID_def CSR_MIMPID_def CSR_MHARTID_def CSR_SSTATUS_def CSR_SIE_def CSR_STVEC_def
  CSR_SCOUNTEREN_def CSR_SSCRATCH_def CSR_SEPC_def CSR_SCAUSE_def CSR_STVAL_def CSR_SIP_def
  CSR_SATP_def CSR_CYCLE_def CSR_INSTRET_def CSR_CYCLEH_def CSR_INSTRETH_def

lemmas status_bit_defs =
  MSTATUS_MIE_def MSTATUS_MPIE_def MSTATUS_MPP_def MSTATUS_MPRV_def MSTATUS_TVM_def
  MSTATUS_TW_def MSTATUS_TSR_def SSTATUS_SIE_def SSTATUS_SPIE_def SSTATUS_SPP_def
  SSTATUS_SUM_def SSTATUS_MXR_def

lemmas mip_bit_defs =
  MIP_SSIP_def MIP_MSIP_def MIP_STIP_def MIP_MTIP_def MIP_SEIP_def MIP_MEIP_def

lemmas pte_bit_defs =
  PTE_V_def PTE_R_def PTE_W_def PTE_X_def PTE_U_def PTE_A_def PTE_D_def

lemmas prv_defs = PRV_U_def PRV_S_def PRV_M_def

lemmas xcause_defs =
  XCAUSE_INSTR_ALIGN_def XCAUSE_INSTR_FAULT_def XCAUSE_INSTR_ILLEGAL_def XCAUSE_EBREAK_def
  XCAUSE_LOAD_ALIGN_def XCAUSE_LOAD_FAULT_def XCAUSE_STORE_ALIGN_def XCAUSE_STORE_FAULT_def
  XCAUSE_ECALL_U_def XCAUSE_ECALL_S_def XCAUSE_ECALL_M_def XCAUSE_INSTR_PAGEFAULT_def
  XCAUSE_LOAD_PAGEFAULT_def XCAUSE_STORE_PAGEFAULT_def

lemmas mask_defs =
  SSTATUS_MASK_def MSTATUS_MASK_def SIP_MASK_def ALL_MIP_BITS_def MIP_R_MASK_def
  MIP_W_MASK_def MIE_R_MASK_def MIE_W_MASK_def

lemmas write_op_defs = WRITE_def WRITE_SET_def WRITE_CLEAR_def

lemmas opc_defs =
  OPC_LOAD_def OPC_MISC_MEM_def OPC_OP_IMM_def OPC_AUIPC_def OPC_STORE_def OPC_AMO_def
  OPC_OP_def OPC_LUI_def OPC_BRANCH_def OPC_JALR_def OPC_JAL_def OPC_SYSTEM_def

lemmas rvopc32_defs =
  RVOPC_LR_W_def RVOPC_SC_W_def RVOPC_AMOSWAP_W_def RVOPC_AMOADD_W_def RVOPC_AMOXOR_W_def
  RVOPC_AMOAND_W_def RVOPC_AMOOR_W_def RVOPC_AMOMIN_W_def RVOPC_AMOMAX_W_def
  RVOPC_AMOMINU_W_def RVOPC_AMOMAXU_W_def RVOPC_FENCE_def RVOPC_FENCE_I_def RVOPC_CSRRW_def
  RVOPC_CSRRS_def RVOPC_CSRRC_def RVOPC_CSRRWI_def RVOPC_CSRRSI_def RVOPC_CSRRCI_def
  RVOPC_MRET_def RVOPC_SRET_def RVOPC_SFENCE_VMA_def RVOPC_ECALL_def RVOPC_EBREAK_def
  RVOPC_WFI_def

lemmas rvopc16_defs =
  RVOPC_ILLEGAL16_def RVOPC_C_ADDI4SPN_def RVOPC_C_LW_def RVOPC_C_SW_def RVOPC_C_ADDI_def
  RVOPC_C_JAL_def RVOPC_C_J_def RVOPC_C_LI_def RVOPC_C_LUI_def RVOPC_C_SRLI_def
  RVOPC_C_SRAI_def RVOPC_C_ANDI_def RVOPC_C_SUB_def RVOPC_C_XOR_def RVOPC_C_OR_def
  RVOPC_C_AND_def RVOPC_C_BEQZ_def RVOPC_C_BNEZ_def RVOPC_C_SLLI_def RVOPC_C_MV_def
  RVOPC_C_ADD_def RVOPC_C_LWSP_def RVOPC_C_SWSP_def

lemmas FlatMem32_defs =
  FlatMem32_dev_def ReadOnlyMem32_dev_def MemBase32_base_def FlatMem32_r8_def
  FlatMem32_w8_def FlatMem32_r16_def FlatMem32_w16_def FlatMem32_r32_def FlatMem32_w32_def

section \<open>Bit fields\<close>

lemma GETBITS_12_11: "GETBITS x 12 11 = drop_bit 11 (x AND 0x1800)"
  by (simp add: GETBITS_def BITRANGE_def BITS_UPTO_def)

lemma GETBITS_9_8: "GETBITS x 9 8 = drop_bit 8 (x AND 0x300)"
  by (simp add: GETBITS_def BITRANGE_def BITS_UPTO_def)

lemma GETBITS_11_10: "GETBITS x 11 10 = drop_bit 10 (x AND 0xc00)"
  by (simp add: GETBITS_def BITRANGE_def BITS_UPTO_def)

lemma SIP_MASK_sub:
  assumes "bit SIP_MASK n"
  shows "bit ALL_MIP_BITS n"
proof -
  have e: "SIP_MASK AND ALL_MIP_BITS = SIP_MASK"
    by (simp add: mask_defs mip_bit_defs)
  from assms have "bit (SIP_MASK AND ALL_MIP_BITS) n" by (simp only: e)
  then show ?thesis by (simp only: bit_and_iff)
qed

section \<open>CSR write followed by read\<close>

lemma and_all_ones: "(x :: ux_t) AND 0xffffffff = x"
proof -
  have "(0xffffffff :: ux_t) = - 1" by simp
  then show ?thesis by (simp only: and.right_neutral)
qed

lemma mask_roundtrip: "((x AND m) OR (y AND NOT m)) AND m = x AND (m :: ux_t)"
  by (rule bit_word_eqI) (auto simp: bit_simps)

lemma get_effective_xip_upd:
  "get_effective_xip (c\<lparr>xip := v\<rparr>) = v OR get_effective_xip (c\<lparr>xip := 0\<rparr>)"
  by (simp add: get_effective_xip_def)

lemma mip_algebra:
  "(((x AND SIP_MASK) OR (y AND NOT SIP_MASK)) OR z) AND ALL_MIP_BITS =
   (x AND SIP_MASK) OR (((y AND NOT SIP_MASK) OR z) AND ALL_MIP_BITS)"
  by (rule bit_word_eqI) (auto simp: bit_simps dest: SIP_MASK_sub)

lemma sip_algebra:
  "(((x AND (s AND d)) OR (y AND NOT (s AND d))) OR z) AND s AND d =
   (x AND (s AND d)) OR (z AND s AND (d :: ux_t))"
  by (rule bit_word_eqI) (auto simp: bit_simps)

lemma write_data_cases:
  assumes "write_data c a X = Some c'"
  shows "a \<in> {CSR_MISA, CSR_MHARTID, CSR_MARCHID, CSR_MIMPID, CSR_MVENDORID, CSR_MSTATUS,
     CSR_MIE, CSR_MIP, CSR_MTVEC, CSR_MSCRATCH, CSR_MEPC, CSR_MCAUSE, CSR_MTVAL, CSR_MEDELEG,
     CSR_MIDELEG, CSR_MCOUNTEREN, CSR_MCYCLE, CSR_MCYCLEH, CSR_MINSTRET, CSR_MINSTRETH,
     CSR_SSTATUS, CSR_SIE, CSR_SIP, CSR_STVEC, CSR_SCOUNTEREN, CSR_SSCRATCH, CSR_SEPC,
     CSR_SCAUSE, CSR_STVAL, CSR_SATP}"
  using assms unfolding write_data_def Let_def
  by (simp split: if_splits)

text \<open>
  For every CSR that a write reaches, \<^verbatim>\<open>minstret\<close> apart, a successful write of \<open>X\<close>
  followed by a read yields \<open>X\<close> under the mask of the table, together with the bits that
  the write does not control.
\<close>

lemma csr_write_then_read:
  assumes w: "RVCSR_write c a X WRITE = Some c'" and n: "a \<noteq> CSR_MINSTRET"
  shows "read c' a = Some ((X AND csr_wmask_spec c a) OR csr_fixed_bits_spec c a)"
proof -
  from w have r: "\<not> (ucast a :: ux_t) \<ge> push_bit 12 1" "\<not> GETBITS (ucast a) 9 8 > priv c"
    and wd: "write_data c a X = Some c'"
    by (auto simp: RVCSR_write_def write_op_defs split: if_splits)
  note simps = read_def write_data_def csr_wmask_spec_def csr_fixed_bits_spec_def Let_def
    csr_addr_defs GETBITS_9_8 MIE_R_MASK_def MIE_W_MASK_def MIP_R_MASK_def MIP_W_MASK_def
    mask_roundtrip and_all_ones
  from write_data_cases [OF wd] n
  consider "a = CSR_MISA" | "a = CSR_MHARTID" | "a = CSR_MARCHID" | "a = CSR_MIMPID"
    | "a = CSR_MVENDORID" | "a = CSR_MSTATUS" | "a = CSR_MIE" | "a = CSR_MIP" | "a = CSR_MTVEC"
    | "a = CSR_MSCRATCH" | "a = CSR_MEPC" | "a = CSR_MCAUSE" | "a = CSR_MTVAL"
    | "a = CSR_MEDELEG" | "a = CSR_MIDELEG" | "a = CSR_MCOUNTEREN" | "a = CSR_MCYCLE"
    | "a = CSR_MCYCLEH" | "a = CSR_MINSTRETH" | "a = CSR_SSTATUS" | "a = CSR_SIE"
    | "a = CSR_SIP" | "a = CSR_STVEC" | "a = CSR_SCOUNTEREN" | "a = CSR_SSCRATCH"
    | "a = CSR_SEPC" | "a = CSR_SCAUSE" | "a = CSR_STVAL" | "a = CSR_SATP"
    by blast
  then show ?thesis
  proof cases
    case 8
    from 8 wd have c': "c' = c\<lparr>xip := (X AND SIP_MASK) OR (xip c AND NOT SIP_MASK)\<rparr>"
      by (simp add: write_data_def Let_def csr_addr_defs MIP_W_MASK_def)
    from 8 r have rd: "read c' a = Some (get_effective_xip c' AND ALL_MIP_BITS)"
      by (simp add: c' read_def Let_def csr_addr_defs GETBITS_9_8 MIP_R_MASK_def)
    have f: "csr_fixed_bits_spec c a =
        ((xip c AND NOT SIP_MASK) OR get_effective_xip (c\<lparr>xip := 0\<rparr>)) AND ALL_MIP_BITS"
      using 8 get_effective_xip_upd [where c = c and v = "xip c AND NOT SIP_MASK"]
      by (simp add: csr_fixed_bits_spec_def csr_addr_defs)
    have m: "csr_wmask_spec c a = SIP_MASK"
      using 8 by (simp add: csr_wmask_spec_def csr_addr_defs)
    show ?thesis
      by (simp only: rd f m)
        (simp only: c' mip_algebra
           get_effective_xip_upd [where c = c
             and v = "(X AND SIP_MASK) OR (xip c AND NOT SIP_MASK)"])
  next
    case 22
    from 22 wd have c': "c' = c\<lparr>xip := (X AND (SIP_MASK AND mideleg c)) OR
                                        (xip c AND NOT (SIP_MASK AND mideleg c))\<rparr>"
      by (simp add: write_data_def Let_def csr_addr_defs)
    from 22 r have rd: "read c' a = Some (get_effective_xip c' AND SIP_MASK AND mideleg c)"
      by (simp add: c' read_def Let_def csr_addr_defs GETBITS_9_8)
    have f: "csr_fixed_bits_spec c a =
        get_effective_xip (c\<lparr>xip := 0\<rparr>) AND SIP_MASK AND mideleg c"
      using 22 by (simp add: csr_fixed_bits_spec_def csr_addr_defs)
    have m: "csr_wmask_spec c a = SIP_MASK AND mideleg c"
      using 22 by (simp add: csr_wmask_spec_def csr_addr_defs)
    show ?thesis
      by (simp only: rd f m)
        (simp only: c' sip_algebra
           get_effective_xip_upd [where c = c
             and v = "(X AND (SIP_MASK AND mideleg c)) OR
                      (xip c AND NOT (SIP_MASK AND mideleg c))"])
  qed (use r wd in \<open>auto simp: simps split: if_splits\<close>)
qed

text \<open>
  Claim C2. A successful \<^verbatim>\<open>write(a, X, WRITE)\<close> followed by \<^verbatim>\<open>read(a)\<close> should yield
  \<open>X\<close> under the W-mask of the register, and in particular \<^verbatim>\<open>minstret\<close> should read
  back the value last written to it. The code stores the value in \<^verbatim>\<open>minstret\<close> but
  \<^verbatim>\<open>read\<close> answers \<^verbatim>\<open>CSR_MINSTRET\<close> with \<^verbatim>\<open>minstreth\<close>: from the reset state, in M-mode,
  writing \<open>0x12345678\<close> to \<^verbatim>\<open>minstret\<close> succeeds, the field holds the value, and the
  read returns 0. For every other register the round trip holds, by the lemma above.
\<close>

theorem minstret_write_read_returns_minstreth:
  "case RVCSR_write RVCSR_init CSR_MINSTRET 0x12345678 WRITE of
     Some c' \<Rightarrow> minstret c' = 0x12345678 \<and> read c' CSR_MINSTRET = Some 0
   | None \<Rightarrow> False"
  by (simp add: RVCSR_write_def write_data_def read_def RVCSR_init_def csr_addr_defs
        GETBITS_9_8 GETBITS_11_10 write_op_defs prv_defs Let_def)

section \<open>Return from a machine-mode trap\<close>

text \<open>
  Claim C3, as stated, fails. The claim has \<^verbatim>\<open>mret\<close> set MPIE to 1. In M-mode with
  MPIE set (and every other status bit clear), \<^verbatim>\<open>trap_mret\<close> leaves MPIE clear.
\<close>

theorem mret_clears_mpie_counterexample:
  "priv (RVCSR_init\<lparr>xstatus := MSTATUS_MPIE\<rparr>) = PRV_M \<and>
   xstatus (snd (trap_mret (RVCSR_init\<lparr>xstatus := MSTATUS_MPIE\<rparr>))) AND MSTATUS_MPIE = 0"
  by (simp add: trap_mret_def RVCSR_init_def GETBITS_12_11 status_bit_defs prv_defs Let_def)

text \<open>
  Claim C3, amended. For every state with \<open>priv = M\<close>, executing the instruction
  \<^verbatim>\<open>mret\<close> (\<open>0x30200073\<close>) raises nothing, produces \<^verbatim>\<open>mepc\<close> as the next pc, sets
  \<open>priv\<close> to MPP, clears MPRV whenever the new privilege is not M, clears MPP to U, sets
  MIE when the old MPIE is 1, and clears MPIE. (What happens to MIE when the old MPIE is 0
  is left out of the statement.)
\<close>

theorem mret_amended:
  assumes "priv cs = PRV_M"
  shows "case exec_system 0x30200073 cur_pc fct rnum rval l cs of
     (l', cs') \<Rightarrow>
       l' = l\<lparr>pc_wdata := Some (mepc cs)\<rparr> \<and>
       priv cs' = GETBITS (xstatus cs) 12 11 \<and>
       (priv cs' \<noteq> PRV_M \<longrightarrow> xstatus cs' AND MSTATUS_MPRV = 0) \<and>
       xstatus cs' AND MSTATUS_MPP = 0 \<and>
       (xstatus cs AND MSTATUS_MPIE \<noteq> 0 \<longrightarrow> xstatus cs' AND MSTATUS_MIE = MSTATUS_MIE) \<and>
       xstatus cs' AND MSTATUS_MPIE = 0"
  using assms
  by (simp add: exec_system_def RVOPC_MATCH_def RVOPC_CSRRW_def RVOPC_CSRRS_def RVOPC_CSRRC_def
      RVOPC_CSRRWI_def RVOPC_CSRRSI_def RVOPC_CSRRCI_def RVOPC_MRET_def get_true_priv_def
      trap_mret_def Let_def status_bit_defs and.assoc word_ao_dist)

text \<open>
  Claim C3, witness: \<^verbatim>\<open>mret\<close> in M-mode with MPP = U, MPRV and MPIE set and
  \<^verbatim>\<open>mepc = 0x80\<close>; the hart ends in U-mode with only MIE set and the next pc \<open>0x80\<close>.
\<close>

theorem mret_amended_witness:
  "priv (RVCSR_init\<lparr>xstatus := MSTATUS_MPIE OR MSTATUS_MPRV, mepc := 0x80\<rparr>) = PRV_M \<and>
   (case exec_system 0x30200073 0 0 0 0 locals_init
           (RVCSR_init\<lparr>xstatus := MSTATUS_MPIE OR MSTATUS_MPRV, mepc := 0x80\<rparr>) of
      (l', cs') \<Rightarrow>
        pc_wdata l' = Some 0x80 \<and> priv cs' = PRV_U \<and> xstatus cs' AND MSTATUS_MPRV = 0 \<and>
        xstatus cs' AND MSTATUS_MPP = 0 \<and> xstatus cs' AND MSTATUS_MIE = MSTATUS_MIE \<and>
        xstatus cs' AND MSTATUS_MPIE = 0)"
  using mret_amended [where cs = "RVCSR_init\<lparr>xstatus := MSTATUS_MPIE OR MSTATUS_MPRV, mepc := 0x80\<rparr>"
      and cur_pc = 0 and fct = 0 and rnum = 0 and rval = 0 and l = locals_init]
  by (simp add: RVCSR_init_def GETBITS_12_11 status_bit_defs prv_defs split: prod.splits)

section \<open>Trap entry\<close>

lemma push_bit_11_and_8: "push_bit 11 (p :: ux_t) AND 8 = 0"
  using and_exp_eq_0_iff_not_bit [of "push_bit 11 p" 3] by (simp add: bit_push_bit_iff)

lemma push_bit_11_and_0x80: "push_bit 11 (p :: ux_t) AND 0x80 = 0"
  using and_exp_eq_0_iff_not_bit [of "push_bit 11 p" 7] by (simp add: bit_push_bit_iff)

text \<open>
  An entry into M-mode clears MIE in every state; MPIE is set when MIE was set and keeps
  its old value otherwise.
\<close>

lemma trap_enter_at_priv_M_status:
  "xstatus (snd (trap_enter_at_priv c cause xepc PRV_M)) AND MSTATUS_MIE = 0 \<and>
   xstatus (snd (trap_enter_at_priv c cause xepc PRV_M)) AND MSTATUS_MPIE =
     (if xstatus c AND MSTATUS_MIE \<noteq> 0 then MSTATUS_MPIE else xstatus c AND MSTATUS_MPIE)"
  by (simp add: trap_enter_at_priv_def Let_def status_bit_defs and.assoc word_ao_dist
        push_bit_11_and_8 push_bit_11_and_0x80)

text \<open>
  Claim C4. After a trap entry the saved xPIE should equal the xIE of before the entry,
  also when xIE was 0 and xPIE was 1. The code sets xPIE when xIE is set and has no branch
  for xIE clear: an illegal-instruction exception taken in M-mode with MIE = 0 and
  MPIE = 1 leaves MPIE at 1.
\<close>

theorem trap_entry_keeps_stale_mpie:
  "xstatus (RVCSR_init\<lparr>xstatus := MSTATUS_MPIE\<rparr>) AND MSTATUS_MIE = 0 \<and>
   xstatus (snd (trap_enter_exception (RVCSR_init\<lparr>xstatus := MSTATUS_MPIE\<rparr>)
                   XCAUSE_INSTR_ILLEGAL 0x100)) AND MSTATUS_MPIE = MSTATUS_MPIE"
  by (simp add: trap_enter_exception_def trap_enter_at_priv_def RVCSR_init_def
        status_bit_defs prv_defs xcause_defs Let_def)

section \<open>The interrupt check\<close>

lemma ctz_upto_lowest:
  "\<exists>i<n. bit w i \<Longrightarrow> bit w (ctz_upto n w) \<and> (\<forall>j<ctz_upto n w. \<not> bit w j)"
proof (induction n arbitrary: w)
  case 0
  then show ?case by simp
next
  case (Suc n)
  show ?case
  proof (cases "bit w 0")
    case True
    then show ?thesis by simp
  next
    case False
    from Suc.prems obtain i where i: "i < Suc n" "bit w i" by blast
    with False have "i \<noteq> 0" by (cases i) auto
    then obtain k where k: "i = Suc k" by (cases i) auto
    with i have "\<exists>i<n. bit (drop_bit 1 w) i"
      by (auto simp: bit_drop_bit_eq intro!: exI [of _ k])
    from Suc.IH [OF this]
    have IH: "bit (drop_bit 1 w) (ctz_upto n (drop_bit 1 w))"
      "\<forall>j<ctz_upto n (drop_bit 1 w). \<not> bit (drop_bit 1 w) j" by auto
    have "\<not> bit w j" if "j < Suc (ctz_upto n (drop_bit 1 w))" for j
    proof (cases j)
      case 0
      with False show ?thesis by simp
    next
      case (Suc m)
      with that IH(2) show ?thesis by (auto simp: bit_drop_bit_eq)
    qed
    with False IH(1) show ?thesis by (simp add: bit_drop_bit_eq)
  qed
qed

lemma builtin_ctz_lowest:
  fixes w :: ux_t
  assumes "w \<noteq> 0"
  shows "bit w (builtin_ctz w) \<and> (\<forall>j<builtin_ctz w. \<not> bit w j)"
proof -
  from assms obtain i where "bit w i" by (auto simp: bit_eq_iff)
  moreover then have "i < 32" by (auto dest: bit_imp_le_length)
  ultimately show ?thesis unfolding builtin_ctz_def by (intro ctz_upto_lowest) blast
qed

lemma m_targeted_irqs_spec:
  "m_targeted_irqs c =
     (get_effective_xip c AND MIP_R_MASK) AND (xie c AND MIE_R_MASK) AND NOT (mideleg c)"
  unfolding m_targeted_irqs_def MIP_R_MASK_def MIE_R_MASK_def
  by (rule bit_word_eqI) (auto simp: bit_and_iff)

lemma s_targeted_irqs_spec:
  "s_targeted_irqs c =
     (get_effective_xip c AND MIP_R_MASK) AND (xie c AND MIE_R_MASK) AND mideleg c AND SIP_MASK"
  unfolding s_targeted_irqs_def MIP_R_MASK_def MIE_R_MASK_def
  by (rule bit_word_eqI) (auto simp: bit_and_iff dest: SIP_MASK_sub)

lemma trap_enter_at_priv_M:
  "trap_enter_at_priv c cause xepc PRV_M = (t, c') \<Longrightarrow>
     priv c' = PRV_M \<and> mcause c' = cause \<and> mepc c' = xepc"
  by (auto simp: trap_enter_at_priv_def Let_def split: if_splits)

lemma trap_enter_at_priv_S:
  "trap_enter_at_priv c cause xepc PRV_S = (t, c') \<Longrightarrow>
     priv c' = PRV_S \<and> scause c' = cause \<and> sepc c' = xepc"
  by (auto simp: trap_enter_at_priv_def Let_def prv_defs split: if_splits)

text \<open>
  Claim C9. For every CSR state and latched IRQ lines, with \<open>effective_mip\<close> and
  \<open>mie\<close> the values the CSRs \<^verbatim>\<open>mip\<close> and \<^verbatim>\<open>mie\<close> read as: an M-targeted interrupt is
  taken iff \<open>effective_mip AND mie AND NOT mideleg\<close> is nonzero and (MIE is set or
  \<open>priv < M\<close>); an S-targeted interrupt is takeable iff
  \<open>effective_mip AND mie AND mideleg\<close>, restricted to the S bits, is nonzero,
  \<open>priv \<le> S\<close> and (SIE is set or \<open>priv < S\<close>); when both are takeable the M interrupt
  wins; the cause recorded is the index of the lowest set pending bit with bit 31 set;
  when neither is takeable nothing changes and no target is returned.
\<close>

theorem trap_check_enter_irq_decision:
  "case trap_check_enter_irq c xepc of
     (r, c') \<Rightarrow>
       (let effective_mip = get_effective_xip c AND MIP_R_MASK;
            mie = xie c AND MIE_R_MASK;
            pending_m = effective_mip AND mie AND NOT (mideleg c);
            pending_s = effective_mip AND mie AND mideleg c AND SIP_MASK;
            m_ok = (pending_m \<noteq> 0 \<and> (xstatus c AND MSTATUS_MIE \<noteq> 0 \<or> priv c < PRV_M));
            s_ok = (pending_s \<noteq> 0 \<and> priv c \<le> PRV_S \<and>
                    (xstatus c AND SSTATUS_SIE \<noteq> 0 \<or> priv c < PRV_S))
        in (r \<noteq> None \<longleftrightarrow> m_ok \<or> s_ok) \<and>
           (m_ok \<longrightarrow>
              priv c' = PRV_M \<and> mepc c' = xepc \<and>
              mcause c' = push_bit 31 1 OR of_nat (builtin_ctz pending_m) \<and>
              bit pending_m (builtin_ctz pending_m) \<and>
              (\<forall>j<builtin_ctz pending_m. \<not> bit pending_m j)) \<and>
           (\<not> m_ok \<and> s_ok \<longrightarrow>
              priv c' = PRV_S \<and> sepc c' = xepc \<and>
              scause c' = push_bit 31 1 OR of_nat (builtin_ctz pending_s) \<and>
              bit pending_s (builtin_ctz pending_s) \<and>
              (\<forall>j<builtin_ctz pending_s. \<not> bit pending_s j)) \<and>
           (\<not> m_ok \<and> \<not> s_ok \<longrightarrow> c' = c))"
proof -
  have m: "take_m_irq c \<Longrightarrow> m_targeted_irqs c \<noteq> 0"
    and s: "take_s_irq c \<Longrightarrow> s_targeted_irqs c \<noteq> 0"
    by (simp_all add: take_m_irq_def take_s_irq_def)
  show ?thesis
    unfolding Let_def m_targeted_irqs_spec [symmetric] s_targeted_irqs_spec [symmetric]
    using builtin_ctz_lowest [OF m] builtin_ctz_lowest [OF s]
    by (auto simp: trap_check_enter_irq_def take_m_irq_def take_s_irq_def Let_def
          split: prod.splits dest: trap_enter_at_priv_M trap_enter_at_priv_S)
qed

lemma ctz_0x80: "builtin_ctz 0x80 = 7"
  by code_simp

lemma ctz_0x2: "builtin_ctz 0x2 = 1"
  by code_simp

text \<open>
  Claim C9, witness. In S-mode with SIE set, MTIE and SSIE enabled, SSIP pending and
  delegated: with the timer line high both interrupts are takeable and the M interrupt is
  taken with cause \<open>0x80000007\<close>; with the timer line low the S interrupt is taken with
  cause \<open>0x80000001\<close>; from the reset state nothing is taken.
\<close>

theorem trap_check_enter_irq_decision_witness:
  "(case trap_check_enter_irq
           (RVCSR_init\<lparr>priv := PRV_S, irq_t := True, xstatus := SSTATUS_SIE,
              xie := MIP_MTIP OR MIP_SSIP, xip := MIP_SSIP, mideleg := MIP_SSIP\<rparr>) 0x1000 of
      (r, c') \<Rightarrow> r \<noteq> None \<and> priv c' = PRV_M \<and> mepc c' = 0x1000 \<and> mcause c' = 0x80000007) \<and>
   (case trap_check_enter_irq
           (RVCSR_init\<lparr>priv := PRV_S, irq_t := False, xstatus := SSTATUS_SIE,
              xie := MIP_MTIP OR MIP_SSIP, xip := MIP_SSIP, mideleg := MIP_SSIP\<rparr>) 0x1000 of
      (r, c') \<Rightarrow> r \<noteq> None \<and> priv c' = PRV_S \<and> sepc c' = 0x1000 \<and> scause c' = 0x80000001) \<and>
   trap_check_enter_irq RVCSR_init 0x1000 = (None, RVCSR_init)"
  using trap_check_enter_irq_decision [of "RVCSR_init\<lparr>priv := PRV_S, irq_t := True, xstatus := SSTATUS_SIE,
              xie := MIP_MTIP OR MIP_SSIP, xip := MIP_SSIP, mideleg := MIP_SSIP\<rparr>" "0x1000"]
    trap_check_enter_irq_decision [of "RVCSR_init\<lparr>priv := PRV_S, irq_t := False, xstatus := SSTATUS_SIE,
              xie := MIP_MTIP OR MIP_SSIP, xip := MIP_SSIP, mideleg := MIP_SSIP\<rparr>" "0x1000"]
    trap_check_enter_irq_decision [of RVCSR_init "0x1000"]
  by (simp add: RVCSR_init_def get_effective_xip_def mask_defs mip_bit_defs status_bit_defs
        prv_defs ctz_0x80 ctz_0x2 Let_def split: prod.splits)

section \<open>Fetch, decode and write-back\<close>

lemma low16_bit:
  fixes x y :: ux_t
  assumes "take_bit 16 x = take_bit 16 y" and "n < 16"
  shows "bit x n = bit y n"
proof -
  have "bit (take_bit 16 x) n = bit (take_bit 16 y) n" using assms(1) by simp
  with assms(2) show ?thesis by (simp add: bit_take_bit_iff)
qed

lemma low16_and:
  fixes x y m :: ux_t
  assumes "take_bit 16 x = take_bit 16 y" and "take_bit 16 m = m"
  shows "x AND m = y AND m"
proof (rule bit_word_eqI)
  fix n
  assume "n < LENGTH(32)"
  have "bit m n \<Longrightarrow> n < 16"
    using assms(2) by (metis bit_take_bit_iff)
  then show "bit (x AND m) n = bit (y AND m) n"
    using low16_bit [OF assms(1)] by (auto simp: bit_and_iff)
qed

lemma low16_fetch_instr:
  assumes "fetch0 f = Some h"
  shows "take_bit 16 (fetch_instr junk0 junk1 f) = take_bit 16 (ucast h :: ux_t)"
  using assms
  by (intro bit_word_eqI) (auto simp: fetch_instr_def deref_def bit_simps)

lemma and_3_eq_3_iff:
  fixes w :: "'a::len word"
  assumes "2 \<le> LENGTH('a)"
  shows "w AND 0x3 = 0x3 \<longleftrightarrow> bit w 0 \<and> bit w (Suc 0)"
proof -
  have m: "(0x3 :: 'a word) = mask 2" by (simp add: mask_eq_exp_minus_1)
  have "w AND mask 2 = mask 2 \<longleftrightarrow> bit w 0 \<and> bit w (Suc 0)"
  proof
    assume e: "w AND mask 2 = mask 2"
    have "bit (w AND mask 2) 0 = bit (mask 2 :: 'a word) 0"
      and "bit (w AND mask 2) (Suc 0) = bit (mask 2 :: 'a word) (Suc 0)"
      by (simp_all only: e)
    with assms show "bit w 0 \<and> bit w (Suc 0)"
      by (simp add: bit_and_iff bit_mask_iff)
  next
    assume b: "bit w 0 \<and> bit w (Suc 0)"
    show "w AND mask 2 = mask 2"
    proof (rule bit_word_eqI)
      fix n
      assume "n < LENGTH('a)"
      have "n < 2 \<Longrightarrow> n = 0 \<or> n = Suc 0" by auto
      with b show "bit (w AND mask 2) n = bit (mask 2 :: 'a word) n"
        by (auto simp: bit_and_iff bit_mask_iff)
    qed
  qed
  then show ?thesis by (simp only: m)
qed

lemma ucast_and_3:
  fixes h :: uint16_t
  shows "(ucast h :: ux_t) AND 0x3 = 0x3 \<longleftrightarrow> h AND 0x3 = 0x3"
  by (simp add: and_3_eq_3_iff bit_ucast_iff)

lemma fetch_instr_and_3:
  assumes "fetch0 f = Some h"
  shows "fetch_instr junk0 junk1 f AND 0x3 = 0x3 \<longleftrightarrow> h AND 0x3 = 0x3"
proof -
  have "fetch_instr junk0 junk1 f AND 0x3 = (ucast h :: ux_t) AND 0x3"
    by (simp add: low16_and [OF low16_fetch_instr [OF assms]])
  then show ?thesis by (simp only: ucast_and_3)
qed

text \<open>What a fetch that returns has done: the translation of \<open>pc\<close>, the read there, the
  translation of \<open>pc + 2\<close> from the state the first translation left, and the read
  there.\<close>

lemma step_fetch_Some:
  assumes "step_fetch M c = Some (f, c1)"
  shows "\<exists>c0. vmap_fetch M c (pc c) = Some (fetch_paddr0 f, c0) \<and>
              (case fetch_paddr0 f of
                 Some a \<Rightarrow> mem_r16 M (mem c0) a = Some (fetch0 f)
               | None \<Rightarrow> fetch0 f = None) \<and>
              vmap_fetch M c0 (pc c + 2) = Some (fetch_paddr1 f, c1) \<and>
              (case fetch_paddr1 f of
                 Some a \<Rightarrow> mem_r16 M (mem c1) a = Some (fetch1 f)
               | None \<Rightarrow> fetch1 f = None)"
  using assms
  by (auto simp: step_fetch_def split: option.splits prod.splits)

lemma step_fetch_paddr0:
  assumes "step_fetch M c = Some (f, c1)" and "fetch0 f = Some h"
  shows "fetch_paddr0 f \<noteq> None"
  using step_fetch_Some [OF assms(1)] assms(2) by (auto split: option.splits)

lemma step_fetch_paddr1:
  assumes "step_fetch M c = Some (f, c1)" and "fetch1 f = Some g"
  shows "fetch_paddr1 f \<noteq> None"
  using step_fetch_Some [OF assms(1)] assms(2) by (auto split: option.splits)

text \<open>The translations change neither the registers, the \<open>pc\<close>, the CSRs nor the
  reservation.\<close>

lemma w32_frame:
  assumes "w32 M c a v = Some (ok, c')"
  shows "regs c' = regs c \<and> pc c' = pc c \<and> csr c' = csr c \<and>
         load_reserved c' = load_reserved c \<and> ram_base c' = ram_base c \<and>
         ram_top c' = ram_top c"
  using assms by (auto simp: w32_def split: if_splits option.splits prod.splits)

lemma vmap_leaf_effect:
  assumes "vmap_leaf M c a pte req vaddr keep off = Some (r, c')"
  shows "c' = c \<or> (\<exists>ok. w32 M c a (pte_a_d_update pte req) = Some (ok, c'))"
  using assms by (auto simp: vmap_leaf_def Let_def split: if_splits option.splits prod.splits)

lemma vmap_sv32_effect:
  assumes "vmap_sv32 M c v atp ep req = Some (r, c')"
  shows "c' = c \<or>
         (\<exists>a p ok. r32 M c a = Some (Some p) \<and> w32 M c a (pte_a_d_update p req) = Some (ok, c'))"
  using assms
  by (auto simp: vmap_sv32_def Let_def split: option.splits if_splits
        dest!: vmap_leaf_effect)

lemma vmap_sv32_frame:
  assumes "vmap_sv32 M c v atp ep req = Some (r, c')"
  shows "regs c' = regs c \<and> pc c' = pc c \<and> csr c' = csr c \<and>
         load_reserved c' = load_reserved c \<and> ram_base c' = ram_base c \<and>
         ram_top c' = ram_top c"
  using vmap_sv32_effect [OF assms] by (auto dest: w32_frame)

lemma vmap_fetch_effect:
  assumes "vmap_fetch M c v = Some (r, c')"
  shows "c' = c \<or>
         (\<exists>a p ok. r32 M c a = Some (Some p) \<and> w32 M c a (p OR PTE_A) = Some (ok, c'))"
proof (cases "translation_enabled_fetch (csr c)")
  case True
  have e: "pte_a_d_update p PTE_X = p OR PTE_A" for p
    by (simp add: pte_a_d_update_def pte_bit_defs)
  from assms True
  have "vmap_sv32 M c v (get_atp (csr c)) (get_true_priv (csr c)) PTE_X = Some (r, c')"
    by (simp add: vmap_fetch_def)
  from vmap_sv32_effect [OF this] show ?thesis by (simp only: e)
next
  case False
  with assms show ?thesis by (simp add: vmap_fetch_def)
qed

lemma vmap_fetch_frame:
  assumes "vmap_fetch M c v = Some (r, c')"
  shows "regs c' = regs c \<and> pc c' = pc c \<and> csr c' = csr c \<and>
         load_reserved c' = load_reserved c \<and> ram_base c' = ram_base c \<and>
         ram_top c' = ram_top c"
  using vmap_fetch_effect [OF assms] by (auto dest: w32_frame)

lemma vmap_ls_frame:
  assumes "vmap_ls M c v req = Some (r, c')"
  shows "regs c' = regs c \<and> pc c' = pc c \<and> csr c' = csr c \<and>
         load_reserved c' = load_reserved c \<and> ram_base c' = ram_base c \<and>
         ram_top c' = ram_top c"
  using assms by (auto simp: vmap_ls_def split: if_splits dest: vmap_sv32_frame)

lemma step_fetch_frame:
  assumes "step_fetch M c = Some (f, c1)"
  shows "regs c1 = regs c \<and> pc c1 = pc c \<and> csr c1 = csr c \<and>
         load_reserved c1 = load_reserved c"
proof -
  from step_fetch_Some [OF assms] obtain c0
    where a: "vmap_fetch M c (pc c) = Some (fetch_paddr0 f, c0)"
      and b: "vmap_fetch M c0 (pc c + 2) = Some (fetch_paddr1 f, c1)" by blast
  from vmap_fetch_frame [OF a] vmap_fetch_frame [OF b] show ?thesis by simp
qed

text \<open>A 32-bit instruction whose two halfwords were fetched is executed by the
  \<^verbatim>\<open>switch (opc)\<close>.\<close>

lemma step_execute_32:
  assumes p0: "fetch_paddr0 f \<noteq> None" and p1: "fetch_paddr1 f \<noteq> None"
    and f0: "fetch0 f = Some h" and f1: "fetch1 f = Some g"
    and l: "fetch_instr junk0 junk1 f AND 0x3 = 0x3"
  shows "step_execute M junk0 junk1 f c = exec32 M (fetch_instr junk0 junk1 f) c"
proof -
  from p0 obtain a where a: "fetch_paddr0 f = Some a" by auto
  from p1 obtain b where b: "fetch_paddr1 f = Some b" by auto
  show ?thesis
    unfolding step_execute_def Let_def
    by (simp add: a b f0 f1 l)
qed

lemma step_32:
  assumes fetch: "step_fetch M c = Some (f, c1)"
    and f0: "fetch0 f = Some h" and f1: "fetch1 f = Some g"
    and l: "fetch_instr junk0 junk1 f AND 0x3 = 0x3"
  shows "step_execute M junk0 junk1 f c1 = exec32 M (fetch_instr junk0 junk1 f) c1"
    and "step M junk0 junk1 c =
         (case exec32 M (fetch_instr junk0 junk1 f) c1 of
            None \<Rightarrow> None
          | Some (l, c2) \<Rightarrow> Some (step_writeback (fetch_instr junk0 junk1 f) l c2))"
proof -
  show e: "step_execute M junk0 junk1 f c1 = exec32 M (fetch_instr junk0 junk1 f) c1"
    by (rule step_execute_32 [OF step_fetch_paddr0 [OF fetch f0]
          step_fetch_paddr1 [OF fetch f1] f0 f1 l])
  show "step M junk0 junk1 c =
         (case exec32 M (fetch_instr junk0 junk1 f) c1 of
            None \<Rightarrow> None
          | Some (l, c2) \<Rightarrow> Some (step_writeback (fetch_instr junk0 junk1 f) l c2))"
    by (simp add: step_def fetch e)
qed

text \<open>The write-back: the trap entry leaves \<^verbatim>\<open>rd_wdata\<close> and \<^verbatim>\<open>regnum_rd\<close> as they are, and
  the commit writes \<^verbatim>\<open>rd_wdata\<close> to the register whether or not an exception was raised.\<close>

lemma step_trap_rd:
  "rd_wdata (fst (step_trap instr l c)) = rd_wdata l \<and>
   regnum_rd (fst (step_trap instr l c)) = regnum_rd l"
  by (simp add: step_trap_def Let_def split_def split: option.split)

lemma step_writeback_frame:
  "load_reserved (step_writeback instr l c) = load_reserved c \<and>
   mem (step_writeback instr l c) = mem c \<and> ram (step_writeback instr l c) = ram c"
  by (simp add: step_writeback_def Let_def split_def split: option.split)

lemma step_writeback_regs:
  "regs (step_writeback instr l c) =
     (case rd_wdata l of
        Some v \<Rightarrow> if regnum_rd l \<noteq> 0 then (regs c)(unat (regnum_rd l) := v) else regs c
      | None \<Rightarrow> regs c)"
  by (simp add: step_writeback_def Let_def split_def step_trap_rd split: option.split)

lemma step_writeback_rd:
  assumes "regnum_rd l = r" and "r \<noteq> 0" and "rd_wdata l \<noteq> None"
  shows "regs (step_writeback instr l c) (unat r) = the (rd_wdata l)"
  using assms by (auto simp: step_writeback_regs)

section \<open>Division and remainder\<close>

lemma sdiv_minus_one: "(k :: int) sdiv (- 1) = - k"
  by (simp add: signed_divide_int_def sgn_if)

lemma smod_minus_one: "(k :: int) smod (- 1) = 0"
  by (simp add: signed_modulo_int_def)

lemma smod_one: "(k :: int) smod 1 = 0"
  by (simp add: signed_modulo_int_def)

lemma op_low_bits:
  assumes "instr AND 0x7f = (0x33 :: ux_t)"
  shows "instr AND 0x3 = 0x3"
proof -
  have "instr AND 0x3 = (instr AND 0x7f) AND 0x3" by (simp add: and.assoc)
  with assms show ?thesis by simp
qed

lemma op_opc:
  assumes "instr AND 0x7f = (0x33 :: ux_t)"
  shows "drop_bit 2 instr AND 0x1f = OPC_OP"
proof -
  have "instr AND 0x7c = (instr AND 0x7f) AND 0x7c" by (simp add: and.assoc)
  also have "\<dots> = 0x30" by (simp only: assms) simp
  finally have a: "instr AND 0x7c = 0x30" .
  have "drop_bit 2 instr AND 0x1f = drop_bit 2 (instr AND 0x7c)" by simp
  also have "\<dots> = 0x0c" by (simp only: a) simp
  finally show ?thesis by (simp only: OPC_OP_def)
qed

text \<open>
  The four cases of \<^verbatim>\<open>funct7 == 0b0000001\<close>, \<^verbatim>\<open>funct3 >= 0b100\<close>, on the locals.
\<close>

lemma exec_op_div_rem:
  assumes "funct3 = 4 \<or> funct3 = 5 \<or> funct3 = 6 \<or> funct3 = 7"
  shows "exec_op 0x01 funct3 rs1 rs2 l =
     l\<lparr>rd_wdata := Some
        (if funct3 = 4 then
           (if rs2 = 0 then - 1
            else if rs1 = 0x80000000 \<and> rs2 = - 1 then rs1
            else word_of_int (sint rs1 sdiv sint rs2))
         else if funct3 = 5 then
           (if rs2 = 0 then 0xffffffff else word_of_nat (unat rs1 div unat rs2))
         else if funct3 = 6 then
           (if rs2 = 0 then rs1
            else if rs1 = 0x80000000 \<and> rs2 = - 1 then 0
            else word_of_int (sint rs1 smod sint rs2))
         else
           (if rs2 = 0 then rs1 else word_of_nat (unat rs1 mod unat rs2)))\<rparr>"
proof -
  have d: "rs1 div rs2 = word_of_nat (unat rs1 div unat rs2)"
    by (simp flip: unat_div)
  have m: "rs1 mod rs2 = word_of_nat (unat rs1 mod unat rs2)"
    by (simp flip: unat_mod)
  from assms show ?thesis
    by (auto simp: exec_op_def div_ops_def d m sdiv_minus_one smod_minus_one smod_one)
qed

text \<open>
  Claim C10. For all 32-bit operands: an instruction with opcode OP and \<open>funct7 = 1\<close>
  whose two halfwords were fetched, with \<open>funct3\<close> 4 (DIV), 5 (DIVU), 6 (REM) or
  7 (REMU), raises nothing, and the step returns and writes \<open>v\<close> to \<open>rd\<close> (when \<open>rd\<close> is
  not \<open>x0\<close>) and to no other register, where \<open>v\<close> is: for DIV, -1 when \<open>rs2 = 0\<close>,
  \<open>rs1\<close> when \<open>rs1\<close> is \<open>INT_MIN\<close> and \<open>rs2 = -1\<close>, and otherwise the signed quotient,
  rounded towards zero; for DIVU, all ones when \<open>rs2 = 0\<close> and otherwise the unsigned
  quotient; for REM, \<open>rs1\<close> when \<open>rs2 = 0\<close>, 0 in the overflow case, and otherwise the
  signed remainder; for REMU, \<open>rs1\<close> when \<open>rs2 = 0\<close> and otherwise the unsigned remainder.
  The code's shortcut for \<open>rs2 = -1\<close> (\<open>- rs1\<close> for DIV, 0 for REM, for every \<open>rs1\<close>)
  agrees with these rules under 32-bit wrap-around.
\<close>

theorem div_rem_rules:
  assumes fetch: "step_fetch M c = Some (f, c1)"
    and f0: "fetch0 f = Some h" and f1: "fetch1 f = Some g"
    and instr: "instr = fetch_instr junk0 junk1 f"
    and op: "instr AND 0x7f = 0x33" and f7: "drop_bit 25 instr AND 0x7f = 0x01"
    and f3: "funct3 = drop_bit 12 instr AND 0x7"
            "funct3 = 4 \<or> funct3 = 5 \<or> funct3 = 6 \<or> funct3 = 7"
    and rd: "rd = drop_bit 7 instr AND 0x1f"
    and rs: "rs1 = regs c (unat (drop_bit 15 instr AND 0x1f))"
            "rs2 = regs c (unat (drop_bit 20 instr AND 0x1f))"
    and v: "v = (if funct3 = 4 then
                   (if rs2 = 0 then - 1
                    else if rs1 = 0x80000000 \<and> rs2 = - 1 then rs1
                    else word_of_int (sint rs1 sdiv sint rs2))
                 else if funct3 = 5 then
                   (if rs2 = 0 then 0xffffffff else word_of_nat (unat rs1 div unat rs2))
                 else if funct3 = 6 then
                   (if rs2 = 0 then rs1
                    else if rs1 = 0x80000000 \<and> rs2 = - 1 then 0
                    else word_of_int (sint rs1 smod sint rs2))
                 else
                   (if rs2 = 0 then rs1 else word_of_nat (unat rs1 mod unat rs2)))"
  shows
    "step_execute M junk0 junk1 f c1 =
       Some (locals_init\<lparr>regnum_rd := rd, rd_wdata := Some v\<rparr>, c1) \<and>
     (\<exists>s. step M junk0 junk1 c = Some s \<and>
          regs s = (if rd \<noteq> 0 then (regs c)(unat rd := v) else regs c) \<and>
          mem s = mem c1 \<and> ram s = ram c1 \<and> load_reserved s = load_reserved c)"
proof -
  have fr: "regs c1 = regs c" "load_reserved c1 = load_reserved c"
    using step_fetch_frame [OF fetch] by simp_all
  have l3: "fetch_instr junk0 junk1 f AND 0x3 = 0x3"
    using op_low_bits [OF op] by (simp only: instr)
  have e: "exec32 M instr c1 = Some (locals_init\<lparr>regnum_rd := rd, rd_wdata := Some v\<rparr>, c1)"
    unfolding exec32_def Let_def
    by (simp only: op_opc [OF op] f7 f3(1) [symmetric] rd [symmetric] fr rs [symmetric]
          exec_op_div_rem [OF f3(2)] v [symmetric] if_True simp_thms)
  show ?thesis
    using step_32 [OF fetch f0 f1 l3] e
    by (simp add: instr [symmetric] step_writeback_regs step_writeback_frame locals_init_def fr)
qed

text \<open>
  Claim C10, witness. On \<open>div_core\<close>, \<^verbatim>\<open>div x3, x1, x2\<close> with \<open>x1\<close> = \<open>INT_MIN\<close> and
  \<open>x2 = -1\<close>: the step returns and writes \<open>INT_MIN\<close> to \<open>x3\<close>, and no other register.
\<close>

theorem div_rem_rules_witness:
  "regs div_core 1 = 0x80000000 \<and> regs div_core 2 = 0xffffffff \<and> regs div_core 3 = 0 \<and>
   (\<exists>s. step FlatMem32_dev 0 0 div_core = Some s \<and>
        regs s = (regs div_core)(3 := 0x80000000))"
proof -
  let ?f = "\<lparr>fetch_paddr0 = Some 0, fetch0 = Some 0xc1b3, fetch_paddr1 = Some 2,
             fetch1 = Some 0x0220\<rparr>"
  have fetch: "step_fetch FlatMem32_dev div_core = Some (?f, div_core)"
    by (simp add: div_core_def step_fetch_def vmap_fetch_def translation_enabled_fetch_def
          get_true_priv_def RVCSR_init_def prv_defs FlatMem32_defs)
  have f0: "fetch0 ?f = Some 0xc1b3" and f1: "fetch1 ?f = Some 0x0220" by simp_all
  have i: "(0x0220c1b3 :: ux_t) = fetch_instr 0 0 ?f"
    by (simp add: fetch_instr_def deref_def)
  have op: "(0x0220c1b3 :: ux_t) AND 0x7f = 0x33"
    "drop_bit 25 (0x0220c1b3 :: ux_t) AND 0x7f = 0x01"
    "(4 :: uint) = drop_bit 12 (0x0220c1b3 :: ux_t) AND 0x7"
    "(3 :: uint) = drop_bit 7 (0x0220c1b3 :: ux_t) AND 0x1f"
    by simp_all
  have d: "(4 :: uint) = 4 \<or> (4 :: uint) = 5 \<or> (4 :: uint) = 6 \<or> (4 :: uint) = 7" by simp
  have r: "(0x80000000 :: ux_t) =
      regs div_core (unat (drop_bit 15 (0x0220c1b3 :: ux_t) AND 0x1f))"
    "(0xffffffff :: ux_t) = regs div_core (unat (drop_bit 20 (0x0220c1b3 :: ux_t) AND 0x1f))"
    by (simp_all add: div_core_def)
  have v: "(0x80000000 :: ux_t) =
       (if (4 :: uint) = 4 then
          (if (0xffffffff :: ux_t) = 0 then - 1
           else if (0x80000000 :: ux_t) = 0x80000000 \<and> (0xffffffff :: ux_t) = - 1
           then 0x80000000
           else word_of_int (sint (0x80000000 :: ux_t) sdiv sint (0xffffffff :: ux_t)))
        else if (4 :: uint) = 5 then
          (if (0xffffffff :: ux_t) = 0 then 0xffffffff
           else word_of_nat (unat (0x80000000 :: ux_t) div unat (0xffffffff :: ux_t)))
        else if (4 :: uint) = 6 then
          (if (0xffffffff :: ux_t) = 0 then 0x80000000
           else if (0x80000000 :: ux_t) = 0x80000000 \<and> (0xffffffff :: ux_t) = - 1 then 0
           else word_of_int (sint (0x80000000 :: ux_t) smod sint (0xffffffff :: ux_t)))
        else
          (if (0xffffffff :: ux_t) = 0 then 0x80000000
           else word_of_nat (unat (0x80000000 :: ux_t) mod unat (0xffffffff :: ux_t))))"
    by simp
  note t = div_rem_rules [OF fetch f0 f1 i op(1) op(2) op(3) d op(4) r v]
  then have "\<exists>s. step FlatMem32_dev 0 0 div_core = Some s \<and>
          regs s = (if (3 :: ux_t) \<noteq> 0 then (regs div_core)(unat (3 :: ux_t) := 0x80000000)
                    else regs div_core)"
    by blast
  then show ?thesis by (simp add: div_core_def)
qed

section \<open>Page-table entries that are writable but not readable\<close>

























section \<open>Whole steps on the example machines\<close>

lemmas step_defs =
  step_def step_fetch_def step_execute_def step_trap_def step_writeback_def fetch_instr_def
  deref_def
  vmap_fetch_def vmap_ls_def translation_enabled_fetch_def translation_enabled_ls_def
  get_true_priv_def get_effective_priv_ls_def locals_init_def

text \<open>
  When the read of an AMO succeeds and its write is refused, the execute stage ends with
  the store access fault raised and the loaded value still in \<^verbatim>\<open>rd_wdata\<close>.
\<close>

lemma exec_amo_rmw_write_fails:
  assumes "rs1 AND 0x3 = 0"
    and "vmap_ls M c rs1 (PTE_W OR PTE_R) = Some (Some p, c1)"
    and "mem_r32 M (mem c1) p = Some (Some v)"
    and "amo_wdata instr v rs2 = Some w"
    and "mem_w32 M (mem c1) p w = Some (False, m')"
  shows "exec_amo_rmw M instr rs1 rs2 l c =
     Some (l\<lparr>rd_wdata := Some v, exception_cause := Some XCAUSE_STORE_FAULT,
              xtval_wdata := Some rs1\<rparr>, c1\<lparr>mem := m'\<rparr>)"
  using assms by (simp add: exec_amo_rmw_def Let_def)

text \<open>
  Claim C1. An instruction that raises a fault should commit none of its own effects; in
  particular an AMO whose write fails with a store access fault must not write the loaded
  value to \<open>rd\<close>. The write-back at the end of \<^verbatim>\<open>step\<close> tests only \<^verbatim>\<open>rd_wdata\<close> and
  \<^verbatim>\<open>regnum_rd\<close>, and the AMO case leaves the loaded value in \<^verbatim>\<open>rd_wdata\<close> when the
  write fails: \<^verbatim>\<open>amoadd.w x5, x0, (x0)\<close> on the read-only device takes the store access
  fault (\<^verbatim>\<open>mcause = 7\<close>, \<^verbatim>\<open>mepc = 0\<close>, \<open>pc\<close> at the trap vector) and still writes the
  loaded word \<open>0x000022af\<close> to \<open>x5\<close>, which was 0.
\<close>

theorem amo_store_fault_writes_rd:
  "regs amo_core 5 = 0 \<and>
   (case step ReadOnlyMem32_dev junk0 junk1 amo_core of
      None \<Rightarrow> False
    | Some s \<Rightarrow>
        mcause (csr s) = XCAUSE_STORE_FAULT \<and> mepc (csr s) = 0 \<and> pc s = 0x100 \<and>
        regs s 5 = 0x000022af)"
  by (simp add: amo_core_def step_defs exec32_def exec_amo_def exec_amo_rmw_def amo_wdata_def
        RVOPC_MATCH_def rvopc32_defs trap_enter_exception_def trap_set_xtval_def
        trap_enter_at_priv_def step_counters_def ReadOnlyMem32_dev_def MemBase32_base_def
        FlatMem32_defs RVCSR_init_def opc_defs xcause_defs pte_bit_defs status_bit_defs prv_defs
        SATP32_MODE_def Let_def)

text \<open>
  When no exception is raised and a machine interrupt is taken, \<^verbatim>\<open>mepc\<close> is the target of
  the branch or jump if the instruction set one, and otherwise the \<open>pc\<close> of the
  instruction itself.
\<close>

lemma step_trap_irq_xepc:
  assumes "exception_cause l = None" and "take_m_irq (csr c)"
  shows "mepc (snd (step_trap instr l c)) = (case pc_wdata l of Some t \<Rightarrow> t | None \<Rightarrow> pc c)"
  using assms
  by (auto simp: step_trap_def trap_check_enter_irq_def Let_def split: prod.splits option.splits
      dest: trap_enter_at_priv_M)

text \<open>
  Claim C5. When a step raises no exception and an interrupt is taken, xepc should be the
  would-be next pc: the target of a taken branch or jump, else \<open>pc\<close> plus the length of
  the instruction. The code passes \<^verbatim>\<open>pc_wdata ? *pc_wdata : pc\<close> to the interrupt entry:
  for a fall-through instruction that is the pc of the instruction just committed.
  \<^verbatim>\<open>addi x1, x0, 1\<close> at \<open>pc = 0\<close> with a machine timer interrupt pending commits
  (\<open>x1 = 1\<close>), enters the interrupt (\<^verbatim>\<open>mcause = 0x80000007\<close>, \<open>pc = 0x100\<close>) and records
  \<^verbatim>\<open>mepc = 0\<close>, not 4.
\<close>

theorem irq_after_fallthrough_saves_old_pc:
  "pc irq_core = 0 \<and>
   (case step FlatMem32_dev junk0 junk1 irq_core of
      None \<Rightarrow> False
    | Some s \<Rightarrow>
        regs s 1 = 1 \<and> pc s = 0x100 \<and> mcause (csr s) = 0x80000007 \<and> mepc (csr s) = 0)"
  by (simp add: irq_core_def step_defs exec32_def exec_op_imm_def imm_i_def
        trap_check_enter_irq_def take_m_irq_def take_s_irq_def m_targeted_irqs_def
        s_targeted_irqs_def get_effective_xip_def trap_enter_at_priv_def step_counters_def
        FlatMem32_defs RVCSR_init_def opc_defs mask_defs mip_bit_defs status_bit_defs prv_defs
        SATP32_MODE_def ctz_0x80 Let_def)

section \<open>The fetch of a compressed instruction\<close>

lemma low16_GETBIT:
  fixes x y :: ux_t
  assumes "take_bit 16 x = take_bit 16 y" and "b < 16"
  shows "GETBIT x b = GETBIT y b"
  unfolding GETBIT_def
  using low16_bit [OF assms]
  by (intro bit_word_eqI) (auto simp: bit_simps)

lemma BITS_UPTO_mask: "BITS_UPTO k = mask (Suc k)"
proof -
  have "push_bit 1 (push_bit k (- 1 :: ux_t)) = push_bit (Suc k) (- 1)"
    by (simp only: push_bit_push_bit) simp
  also have "\<dots> = NOT (mask (Suc k))"
    by (rule bit_word_eqI) (auto simp: bit_simps simp del: push_bit_Suc)
  finally show ?thesis by (simp only: BITS_UPTO_def bit.double_compl)
qed

lemma BITRANGE_low16:
  assumes "lsb \<le> msb" and "msb < 16"
  shows "take_bit 16 (BITRANGE msb lsb) = BITRANGE msb lsb"
  unfolding BITRANGE_def BITS_UPTO_mask
  using assms
  by (intro bit_word_eqI) (auto simp: bit_simps simp del: mask_Suc_exp)

lemma low16_GETBITS:
  fixes x y :: ux_t
  assumes "take_bit 16 x = take_bit 16 y" and "lsb \<le> msb" and "msb < 16"
  shows "GETBITS x msb lsb = GETBITS y msb lsb"
  unfolding GETBITS_def
  by (simp only: low16_and [OF assms(1) BITRANGE_low16 [OF assms(2,3)]])

lemmas rvc_field_defs =
  c_rs1_s_def c_rs2_s_def c_rs1_l_def c_rs2_l_def
  imm_ci_def imm_cj_def imm_cb_def RVOPC_MATCH_def rvopc16_defs

lemma low16_exec_rvc_q0:
  assumes h: "take_bit 16 x = take_bit 16 y"
  shows "exec_rvc_q0 M x c = exec_rvc_q0 M y c"
  by (simp add: exec_rvc_q0_def rvc_field_defs low16_and [OF h] low16_GETBIT [OF h]
      low16_GETBITS [OF h] cong: if_cong)

lemma low16_exec_rvc_q1:
  assumes h: "take_bit 16 x = take_bit 16 y"
  shows "exec_rvc_q1 x c = exec_rvc_q1 y c"
  by (simp add: exec_rvc_q1_def rvc_field_defs low16_and [OF h] low16_GETBIT [OF h]
      low16_GETBITS [OF h] cong: if_cong)

lemma low16_exec_rvc_q2:
  assumes h: "take_bit 16 x = take_bit 16 y"
  shows "exec_rvc_q2 M x c = exec_rvc_q2 M y c"
  by (simp add: exec_rvc_q2_def rvc_field_defs low16_and [OF h] low16_GETBIT [OF h]
      low16_GETBITS [OF h] cong: if_cong)

lemma low16_step_writeback:
  assumes h: "take_bit 16 x = take_bit 16 y" and c: "y AND 0x3 \<noteq> 0x3"
  shows "step_writeback x l c = step_writeback y l c"
proof -
  have e3: "x AND 0x3 = y AND 0x3" and e16: "x AND 0xffff = y AND 0xffff"
    by (simp_all add: low16_and [OF h])
  from c e3 have c': "x AND 0x3 \<noteq> 0x3" by simp
  show ?thesis
    unfolding step_writeback_def step_trap_def by (simp only: c c' e16 if_False)
qed

text \<open>A compressed instruction is decoded from the first halfword alone, whatever the
  second translation and read gave.\<close>

lemma step_execute_compressed:
  assumes p0: "fetch_paddr0 f \<noteq> None" and f0: "fetch0 f = Some h" and c: "h AND 0x3 \<noteq> 0x3"
  shows "step_execute M junk0 junk1 f c1 =
     (let instr = (ucast h :: ux_t) in
      if instr AND 0x3 = 0x0 then exec_rvc_q0 M instr c1
      else if instr AND 0x3 = 0x1 then Some (exec_rvc_q1 instr c1, c1)
      else exec_rvc_q2 M instr c1)"
proof -
  let ?x = "fetch_instr junk0 junk1 f" and ?y = "ucast h :: ux_t"
  have h: "take_bit 16 ?x = take_bit 16 ?y" by (rule low16_fetch_instr [OF f0])
  have e3: "?x AND 0x3 = ?y AND 0x3" by (simp add: low16_and [OF h])
  from c have ny: "?y AND 0x3 \<noteq> 0x3" by (simp add: ucast_and_3)
  from p0 obtain p where p: "fetch_paddr0 f = Some p" by auto
  from p f0 c ny show ?thesis
    unfolding step_execute_def Let_def
    by (simp add: e3 deref_def low16_exec_rvc_q0 [OF h] low16_exec_rvc_q1 [OF h]
          low16_exec_rvc_q2 [OF h])
qed

text \<open>
  Claim C7, as stated, fails. On \<open>rvc_core\<close> the first halfword fetched is \<open>0x0001\<close>,
  whose low bits are not 11. The step still translates \<open>pc + 2 = 0x1000\<close>, which lies in
  the next page, and the walk sets the A bit of that page's entry: the word at index
  \<open>0x801\<close> changes from \<open>0x1409\<close> to \<open>0x1449\<close>, though the instruction (\<^verbatim>\<open>c.nop\<close>)
  accesses no data and lies in the other page.
\<close>

theorem compressed_fetch_touches_next_page_counterexample:
  "(case step_fetch FlatMem32_dev rvc_core of
      None \<Rightarrow> False
    | Some (f, c1) \<Rightarrow> fetch0 f = Some 0x0001 \<and> (0x0001 :: uint16_t) AND 0x3 \<noteq> 0x3) \<and>
   fm_mem (mem rvc_core) 0x801 = 0x1409 \<and>
   (case step FlatMem32_dev 0 0 rvc_core of
      None \<Rightarrow> False
    | Some s \<Rightarrow> fm_mem (mem s) 0x801 = 0x1449)"
  by (simp add: rvc_core_def step_defs exec_rvc_q1_def c_rs1_l_def imm_ci_def
        GETBITS_def BITRANGE_def BITS_UPTO_def GETBIT_def
        RVOPC_MATCH_def rvopc16_defs vmap_sv32_def vmap_leaf_def pte_a_d_update_def
        pte_permissions_ok_def get_atp_def r32_def w32_def
        trap_check_enter_irq_def take_m_irq_def take_s_irq_def m_targeted_irqs_def
        s_targeted_irqs_def get_effective_xip_def step_counters_def
        FlatMem32_defs RVCSR_init_def mask_defs mip_bit_defs pte_bit_defs status_bit_defs
        prv_defs SATP32_MODE_def SATP32_PPN_def Let_def)

text \<open>
  Claim C7, amended. For every step whose first halfword \<open>h\<close>, read at the translation of
  \<open>pc\<close>, has low bits different from 11: the step translates \<open>pc + 2\<close>, from the state
  \<open>c0\<close> that the first translation left, and when that translation gives an address it
  reads the halfword there; when the translation or the read does not return, the step
  does not return. The translation leaves the state as it was, or with one page-table
  entry that it has read written back with the A bit added; with fetch translation
  disabled both translations leave the state as it was. When the translation and the read
  return, the step is the decode, execution and write-back of the 16-bit instruction \<open>h\<close>
  on the state the second translation left, whatever address and halfword the second
  translation and read gave: no fault comes from them.
\<close>

theorem compressed_fetch_amended:
  assumes t0: "vmap_fetch M c (pc c) = Some (Some a0, c0)"
    and r0: "mem_r16 M (mem c0) a0 = Some (Some h)"
    and cmp: "h AND 0x3 \<noteq> 0x3"
  shows
    "case vmap_fetch M c0 (pc c + 2) of
       None \<Rightarrow> step M junk0 junk1 c = None
     | Some (p1, c1) \<Rightarrow>
         (c1 = c0 \<or>
          (\<exists>a p ok. r32 M c0 a = Some (Some p) \<and> w32 M c0 a (p OR PTE_A) = Some (ok, c1))) \<and>
         (\<not> translation_enabled_fetch (csr c) \<longrightarrow> c0 = c \<and> c1 = c) \<and>
         (case (case p1 of Some a1 \<Rightarrow> mem_r16 M (mem c1) a1 | None \<Rightarrow> Some None) of
            None \<Rightarrow> step M junk0 junk1 c = None
          | Some g \<Rightarrow>
              step M junk0 junk1 c =
                (let instr = (ucast h :: ux_t) in
                 case (if instr AND 0x3 = 0x0 then exec_rvc_q0 M instr c1
                       else if instr AND 0x3 = 0x1 then Some (exec_rvc_q1 instr c1, c1)
                       else exec_rvc_q2 M instr c1) of
                   None \<Rightarrow> None
                 | Some (l, c2) \<Rightarrow> Some (step_writeback instr l c2)))"
proof (cases "vmap_fetch M c0 (pc c + 2)")
  case None
  then show ?thesis by (simp add: step_def step_fetch_def t0 r0)
next
  case (Some r)
  obtain p1 c1 where r: "r = (p1, c1)" by (cases r)
  have t1: "vmap_fetch M c0 (pc c + 2) = Some (p1, c1)" using Some r by simp
  have e: "c1 = c0 \<or>
          (\<exists>a p ok. r32 M c0 a = Some (Some p) \<and> w32 M c0 a (p OR PTE_A) = Some (ok, c1))"
    by (rule vmap_fetch_effect [OF t1])
  have fr: "csr c0 = csr c" using vmap_fetch_frame [OF t0] by simp
  have u: "c0 = c \<and> c1 = c" if n: "\<not> translation_enabled_fetch (csr c)"
  proof -
    from t0 n have a: "c0 = c" by (simp add: vmap_fetch_def)
    from n fr have "\<not> translation_enabled_fetch (csr c0)" by simp
    with t1 have "c1 = c0" by (simp add: vmap_fetch_def)
    with a show ?thesis by simp
  qed
  show ?thesis
  proof (cases "case p1 of Some a1 \<Rightarrow> mem_r16 M (mem c1) a1 | None \<Rightarrow> Some None")
    case None
    then have "step M junk0 junk1 c = None"
      by (simp add: step_def step_fetch_def t0 r0 t1)
    with None e u show ?thesis by (simp add: t1)
  next
    case (Some g)
    let ?f = "\<lparr>fetch_paddr0 = Some a0, fetch0 = Some h, fetch_paddr1 = p1, fetch1 = g\<rparr>"
    have f: "step_fetch M c = Some (?f, c1)"
      using Some by (simp add: step_fetch_def t0 r0 t1)
    let ?x = "fetch_instr junk0 junk1 ?f" and ?y = "ucast h :: ux_t"
    have h: "take_bit 16 ?x = take_bit 16 ?y" by (rule low16_fetch_instr) simp
    from cmp have ny: "?y AND 0x3 \<noteq> 0x3" by (simp add: ucast_and_3)
    have x: "step_execute M junk0 junk1 ?f c1 =
       (let instr = (ucast h :: ux_t) in
        if instr AND 0x3 = 0x0 then exec_rvc_q0 M instr c1
        else if instr AND 0x3 = 0x1 then Some (exec_rvc_q1 instr c1, c1)
        else exec_rvc_q2 M instr c1)"
      by (rule step_execute_compressed [OF _ _ cmp]) simp_all
    have s: "step M junk0 junk1 c =
                (let instr = (ucast h :: ux_t) in
                 case (if instr AND 0x3 = 0x0 then exec_rvc_q0 M instr c1
                       else if instr AND 0x3 = 0x1 then Some (exec_rvc_q1 instr c1, c1)
                       else exec_rvc_q2 M instr c1) of
                   None \<Rightarrow> None
                 | Some (l, c2) \<Rightarrow> Some (step_writeback instr l c2))"
      unfolding step_def
      by (simp add: f x low16_step_writeback [OF h ny] Let_def split: option.splits)
    from Some e u s show ?thesis by (simp add: t1)
  qed
qed

lemmas rvc_eval_defs =
  vmap_fetch_def vmap_sv32_def vmap_leaf_def pte_a_d_update_def pte_permissions_ok_def
  r32_def w32_def FlatMem32_defs RVCSR_init_def get_atp_def translation_enabled_fetch_def
  get_true_priv_def get_effective_priv_ls_def SATP32_MODE_def SATP32_PPN_def pte_bit_defs
  status_bit_defs prv_defs Let_def

text \<open>
  Claim C7, witness. On \<open>rvc_core\<close> the first halfword is \<^verbatim>\<open>c.nop\<close>, and the step returns
  with \<open>pc = 0x1000\<close> and the registers unchanged. On \<open>edge_core\<close>, with translation
  off, the first halfword is \<^verbatim>\<open>c.nop\<close> too and the read at \<open>pc + 2\<close> fails the
  assertion of \<^verbatim>\<open>FlatMem32::r16\<close>: the step does not return.
\<close>

theorem compressed_fetch_amended_witness:
  "vmap_fetch FlatMem32_dev rvc_core (pc rvc_core) = Some (Some 0x4ffe, rvc_core) \<and>
   mem_r16 FlatMem32_dev (mem rvc_core) 0x4ffe = Some (Some 0x0001) \<and>
   (0x0001 :: uint16_t) AND 0x3 \<noteq> 0x3 \<and>
   (case step FlatMem32_dev 0 0 rvc_core of
      None \<Rightarrow> False
    | Some s \<Rightarrow> pc s = 0x1000 \<and> regs s = regs rvc_core) \<and>
   vmap_fetch FlatMem32_dev edge_core (pc edge_core) = Some (Some 0xfffe, edge_core) \<and>
   mem_r16 FlatMem32_dev (mem edge_core) 0xfffe = Some (Some 0x0001) \<and>
   \<not> translation_enabled_fetch (csr edge_core) \<and>
   step FlatMem32_dev 0 0 edge_core = None"
proof -
  let ?c1 = "rvc_core\<lparr>mem := \<lparr>fm_size = 0x10000,
               fm_mem = (\<lambda>_. 0)(0x400 := 0x801, 0x800 := 0x1049, 0x801 := 0x1449,
                                0x13ff := 0x00010000)\<rparr>\<rparr>"
  have t0: "vmap_fetch FlatMem32_dev rvc_core (pc rvc_core) = Some (Some 0x4ffe, rvc_core)"
    and r0: "mem_r16 FlatMem32_dev (mem rvc_core) 0x4ffe = Some (Some 0x0001)"
    by (simp_all add: rvc_core_def rvc_eval_defs)
  have cmp: "(0x0001 :: uint16_t) AND 0x3 \<noteq> 0x3" by simp
  have t1: "vmap_fetch FlatMem32_dev rvc_core (pc rvc_core + 2) = Some (Some 0x5000, ?c1)"
    by (simp add: rvc_core_def rvc_eval_defs fun_upd_twist)
  have r1: "mem_r16 FlatMem32_dev (mem ?c1) 0x5000 = Some (Some 0)"
    by (simp add: rvc_core_def rvc_eval_defs)
  have s1: "step FlatMem32_dev 0 0 rvc_core =
      (let instr = (ucast (0x0001 :: uint16_t) :: ux_t) in
       case (if instr AND 0x3 = 0x0 then exec_rvc_q0 FlatMem32_dev instr ?c1
             else if instr AND 0x3 = 0x1 then Some (exec_rvc_q1 instr ?c1, ?c1)
             else exec_rvc_q2 FlatMem32_dev instr ?c1) of
         None \<Rightarrow> None
       | Some (l, c2) \<Rightarrow> Some (step_writeback instr l c2))"
    using compressed_fetch_amended [OF t0 r0 cmp, where ?junk0.0 = 0 and ?junk1.0 = 0]
    by (simp only: t1 r1 option.case prod.case)
  have a: "case step FlatMem32_dev 0 0 rvc_core of
      None \<Rightarrow> False
    | Some s \<Rightarrow> pc s = 0x1000 \<and> regs s = regs rvc_core"
    by (simp only: s1)
      (simp add: rvc_core_def exec_rvc_q1_def c_rs1_l_def imm_ci_def
        GETBITS_def BITRANGE_def BITS_UPTO_def GETBIT_def RVOPC_MATCH_def rvopc16_defs
        step_writeback_def step_trap_def locals_init_def
        trap_check_enter_irq_def take_m_irq_def take_s_irq_def m_targeted_irqs_def
        s_targeted_irqs_def get_effective_xip_def step_counters_def RVCSR_init_def
        mask_defs mip_bit_defs status_bit_defs prv_defs Let_def)
  have u0: "vmap_fetch FlatMem32_dev edge_core (pc edge_core) = Some (Some 0xfffe, edge_core)"
    and v0: "mem_r16 FlatMem32_dev (mem edge_core) 0xfffe = Some (Some 0x0001)"
    and n: "\<not> translation_enabled_fetch (csr edge_core)"
    by (simp_all add: edge_core_def rvc_eval_defs)
  have u1: "vmap_fetch FlatMem32_dev edge_core (pc edge_core + 2) =
      Some (Some 0x10000, edge_core)"
    by (simp add: edge_core_def rvc_eval_defs)
  have v1: "mem_r16 FlatMem32_dev (mem edge_core) 0x10000 = None"
    by (simp add: edge_core_def rvc_eval_defs)
  have b: "step FlatMem32_dev 0 0 edge_core = None"
    using compressed_fetch_amended [OF u0 v0 cmp, where ?junk0.0 = 0 and ?junk1.0 = 0]
    by (simp only: u1 v1 option.case prod.case)
  from t0 r0 cmp a u0 v0 n b show ?thesis by simp
qed

section \<open>Store-conditional\<close>

lemma sc_w_low_bits:
  assumes "RVOPC_MATCH instr RVOPC_SC_W"
  shows "instr AND 0x3 = 0x3"
proof -
  have "instr AND 0x3 = (instr AND 0xf800707f) AND 0x3" by (simp add: and.assoc)
  with assms show ?thesis by (simp add: RVOPC_MATCH_def RVOPC_SC_W_def)
qed

lemma sc_w_opc:
  assumes "RVOPC_MATCH instr RVOPC_SC_W"
  shows "drop_bit 2 instr AND 0x1f = OPC_AMO"
proof -
  from assms have m: "instr AND 0xf800707f = 0x1800202f"
    by (simp add: RVOPC_MATCH_def RVOPC_SC_W_def)
  have "instr AND 0x7c = (instr AND 0xf800707f) AND 0x7c" by (simp add: and.assoc)
  also have "\<dots> = 0x2c" by (simp only: m) simp
  finally have a: "instr AND 0x7c = 0x2c" .
  have "drop_bit 2 instr AND 0x1f = drop_bit 2 (instr AND 0x7c)" by simp
  also have "\<dots> = 0x0b" by (simp only: a) simp
  finally show ?thesis by (simp only: OPC_AMO_def)
qed

lemma sc_w_not_lr_w:
  assumes "RVOPC_MATCH instr RVOPC_SC_W"
  shows "\<not> RVOPC_MATCH instr RVOPC_LR_W"
proof
  assume "RVOPC_MATCH instr RVOPC_LR_W"
  then have "(instr AND 0xf9f0707f) AND 0xf800707f = 0x1000202f AND 0xf800707f"
    by (simp only: RVOPC_MATCH_def RVOPC_LR_W_def fst_conv snd_conv)
  then have "instr AND 0xf800707f = 0x1000202f" by (simp add: and.assoc)
  with assms show False by (simp add: RVOPC_MATCH_def RVOPC_SC_W_def)
qed

lemma exec32_sc_w:
  assumes "RVOPC_MATCH instr RVOPC_SC_W"
  shows "exec32 M instr c =
     exec_sc_w M (regs c (unat (drop_bit 15 instr AND 0x1f)))
       (regs c (unat (drop_bit 20 instr AND 0x1f)))
       (locals_init\<lparr>regnum_rd := drop_bit 7 instr AND 0x1f\<rparr>) c"
  using sc_w_opc [OF assms] sc_w_not_lr_w [OF assms] assms
  by (simp add: exec32_def exec_amo_def opc_defs Let_def)

lemma sc_w_execute:
  assumes fetch: "step_fetch M c = Some (f, c1)"
    and f0: "fetch0 f = Some h" and f1: "fetch1 f = Some g"
    and sc: "RVOPC_MATCH (fetch_instr junk0 junk1 f) RVOPC_SC_W"
  shows "step_execute M junk0 junk1 f c1 =
     exec_sc_w M (regs c (unat (drop_bit 15 (fetch_instr junk0 junk1 f) AND 0x1f)))
       (regs c (unat (drop_bit 20 (fetch_instr junk0 junk1 f) AND 0x1f)))
       (locals_init\<lparr>regnum_rd := drop_bit 7 (fetch_instr junk0 junk1 f) AND 0x1f\<rparr>) c1"
  using step_32(1) [OF fetch f0 f1 sc_w_low_bits [OF sc]] step_fetch_frame [OF fetch]
  by (simp add: exec32_sc_w [OF sc])

lemma sc_w_execute_no_reservation:
  assumes fetch: "step_fetch M c = Some (f, c1)"
    and f0: "fetch0 f = Some h" and f1: "fetch1 f = Some g"
    and sc: "RVOPC_MATCH (fetch_instr junk0 junk1 f) RVOPC_SC_W"
    and al: "regs c (unat (drop_bit 15 (fetch_instr junk0 junk1 f) AND 0x1f)) AND 0x3 = 0"
    and nr: "\<not> load_reserved c"
  shows "step_execute M junk0 junk1 f c1 =
     Some (locals_init\<lparr>regnum_rd := drop_bit 7 (fetch_instr junk0 junk1 f) AND 0x1f,
             rd_wdata := Some 1\<rparr>, c1)"
  using al nr step_fetch_frame [OF fetch]
  by (simp add: sc_w_execute [OF fetch f0 f1 sc] exec_sc_w_def)

text \<open>
  Claim C8. For every SC.W executed on an aligned address (both halfwords fetched, and,
  when the reservation is set, the store translation and the bus write succeeding): no
  fault is raised; if \<^verbatim>\<open>load_reserved\<close> is true at SC time the write is made, 0 is produced
  for \<open>rd\<close> and the reservation is cleared; if it is false, 1 is produced for \<open>rd\<close>,
  and the state, memory and reservation included, is left as the fetch left it. The step
  returns; after it the reservation is clear, memory is what the execution left, and
  \<open>rd\<close> (when not \<open>x0\<close>) holds 0 or 1 accordingly. An SC.W that follows immediately
  produces 1 and changes nothing.
\<close>

theorem sc_w_step:
  assumes fetch: "step_fetch M c = Some (f, c1)"
    and f0: "fetch0 f = Some h" and f1: "fetch1 f = Some g"
    and instr: "instr = fetch_instr junk0 junk1 f"
    and sc: "RVOPC_MATCH instr RVOPC_SC_W"
    and rs: "addr = regs c (unat (drop_bit 15 instr AND 0x1f))"
            "data = regs c (unat (drop_bit 20 instr AND 0x1f))"
    and al: "addr AND 0x3 = 0"
    and ok: "load_reserved c \<longrightarrow>
               vmap_ls M c1 addr PTE_W = Some (Some p, c2) \<and>
               mem_w32 M (mem c2) p data = Some (True, m')"
  shows
    "(case step_execute M junk0 junk1 f c1 of
        None \<Rightarrow> False
      | Some (l, c3) \<Rightarrow>
         exception_cause l = None \<and> regnum_rd l = drop_bit 7 instr AND 0x1f \<and>
         (load_reserved c \<longrightarrow>
            rd_wdata l = Some 0 \<and> c3 = c2\<lparr>load_reserved := False, mem := m'\<rparr>) \<and>
         (\<not> load_reserved c \<longrightarrow> rd_wdata l = Some 1 \<and> c3 = c1) \<and>
         (case step M junk0 junk1 c of
            None \<Rightarrow> False
          | Some s \<Rightarrow>
              \<not> load_reserved s \<and> mem s = mem c3 \<and> ram s = ram c3 \<and>
              (regnum_rd l \<noteq> 0 \<longrightarrow>
                 regs s (unat (regnum_rd l)) = (if load_reserved c then 0 else 1)) \<and>
              (\<forall>fn sn hn gn.
                 step_fetch M s = Some (fn, sn) \<and>
                 fetch0 fn = Some hn \<and> fetch1 fn = Some gn \<and>
                 RVOPC_MATCH (fetch_instr junk0 junk1 fn) RVOPC_SC_W \<and>
                 regs s (unat (drop_bit 15 (fetch_instr junk0 junk1 fn) AND 0x1f)) AND 0x3 = 0
                 \<longrightarrow>
                 step_execute M junk0 junk1 fn sn =
                   Some (locals_init\<lparr>regnum_rd :=
                                         drop_bit 7 (fetch_instr junk0 junk1 fn) AND 0x1f,
                           rd_wdata := Some 1\<rparr>, sn))))"
proof -
  let ?l = "locals_init\<lparr>regnum_rd := drop_bit 7 instr AND 0x1f\<rparr>"
  have fr: "regs c1 = regs c" "load_reserved c1 = load_reserved c"
    using step_fetch_frame [OF fetch] by simp_all
  have ex: "step_execute M junk0 junk1 f c1 = exec_sc_w M addr data ?l c1"
    using sc_w_execute [OF fetch f0 f1 sc [unfolded instr]] by (simp add: instr rs)
  have st: "step M junk0 junk1 c =
      (case exec_sc_w M addr data ?l c1 of
         None \<Rightarrow> None
       | Some (l, c3) \<Rightarrow> Some (step_writeback instr l c3))"
    using ex unfolding instr by (simp add: step_def fetch)
  have e: "exec_sc_w M addr data ?l c1 =
      Some (?l\<lparr>rd_wdata := Some (if load_reserved c then 0 else 1)\<rparr>,
            if load_reserved c then c2\<lparr>load_reserved := False, mem := m'\<rparr> else c1)"
  proof (cases "load_reserved c")
    case True
    with ok have v: "vmap_ls M c1 addr PTE_W = Some (Some p, c2)"
      and w: "mem_w32 M (mem c2) p data = Some (True, m')" by simp_all
    show ?thesis using True by (simp add: exec_sc_w_def al fr v w Let_def)
  next
    case False
    then show ?thesis by (simp add: exec_sc_w_def al fr)
  qed
  have lr2: "\<not> load_reserved (if load_reserved c then c2\<lparr>load_reserved := False, mem := m'\<rparr>
                                else c1)"
    by (simp add: fr)
  let ?s = "step_writeback instr
              (?l\<lparr>rd_wdata := Some (if load_reserved c then 0 else 1)\<rparr>)
              (if load_reserved c then c2\<lparr>load_reserved := False, mem := m'\<rparr> else c1)"
  have s: "step M junk0 junk1 c = Some ?s" by (simp add: st e)
  have nr: "\<not> load_reserved ?s" using lr2 by (simp add: step_writeback_frame)
  have nx: "step_execute M junk0 junk1 fn sn =
                   Some (locals_init\<lparr>regnum_rd :=
                                         drop_bit 7 (fetch_instr junk0 junk1 fn) AND 0x1f,
                           rd_wdata := Some 1\<rparr>, sn)"
    if "step_fetch M ?s = Some (fn, sn)" "fetch0 fn = Some hn" "fetch1 fn = Some gn"
      "RVOPC_MATCH (fetch_instr junk0 junk1 fn) RVOPC_SC_W"
      "regs ?s (unat (drop_bit 15 (fetch_instr junk0 junk1 fn) AND 0x1f)) AND 0x3 = 0"
    for fn sn hn gn
    by (rule sc_w_execute_no_reservation [OF that nr])
  have rd: "regnum_rd ?l \<noteq> 0 \<longrightarrow>
      regs ?s (unat (regnum_rd ?l)) = (if load_reserved c then 0 else 1)"
    by (simp add: step_writeback_regs locals_init_def)
  show ?thesis
    unfolding ex e s
    using nr nx rd
    by (simp add: step_writeback_frame locals_init_def del: split_paired_All)
qed

lemmas sc_eval_defs =
  sc_core_def step_defs exec32_def exec_amo_def exec_sc_w_def
  RVOPC_MATCH_def rvopc32_defs trap_check_enter_irq_def take_m_irq_def take_s_irq_def
  m_targeted_irqs_def s_targeted_irqs_def get_effective_xip_def step_counters_def
  FlatMem32_defs RVCSR_init_def opc_defs mask_defs mip_bit_defs pte_bit_defs status_bit_defs
  prv_defs SATP32_MODE_def Let_def

text \<open>
  Claim C8, witness. On \<open>sc_core\<close> the first \<^verbatim>\<open>sc.w x5, x7, (x6)\<close> stores
  \<open>0xdead\<close> at \<open>0x100\<close> (word index \<open>0x40\<close>), writes 0 to \<open>x5\<close> and clears the
  reservation; the second writes 1 to \<open>x5\<close> and leaves memory as it was.
\<close>

theorem sc_w_step_witness:
  "load_reserved sc_core \<and> regs sc_core 5 = 0x55 \<and> fm_mem (mem sc_core) 0x40 = 0 \<and>
   (case step FlatMem32_dev 0 0 sc_core of
      None \<Rightarrow> False
    | Some s \<Rightarrow>
        regs s 5 = 0 \<and> fm_mem (mem s) 0x40 = 0xdead \<and> \<not> load_reserved s \<and>
        (case step FlatMem32_dev 0 0 s of
           None \<Rightarrow> False
         | Some s' \<Rightarrow> regs s' 5 = 1 \<and> mem s' = mem s))"
proof -
  let ?f = "\<lparr>fetch_paddr0 = Some 0, fetch0 = Some 0x22af, fetch_paddr1 = Some 2,
             fetch1 = Some 0x1873\<rparr>"
  let ?m = "\<lparr>fm_size = 0x10000,
             fm_mem = (\<lambda>_. 0)(0 := 0x187322af, 1 := 0x187322af, 0x40 := 0xdead)\<rparr>"
  have fetch: "step_fetch FlatMem32_dev sc_core = Some (?f, sc_core)"
    by (simp add: sc_eval_defs)
  have f0: "fetch0 ?f = Some 0x22af" and f1: "fetch1 ?f = Some 0x1873" by simp_all
  have i: "(0x187322af :: ux_t) = fetch_instr 0 0 ?f"
    by (simp add: fetch_instr_def deref_def)
  have sc: "RVOPC_MATCH (0x187322af :: ux_t) RVOPC_SC_W"
    by (simp add: RVOPC_MATCH_def RVOPC_SC_W_def)
  have a: "(0x100 :: ux_t) = regs sc_core (unat (drop_bit 15 (0x187322af :: ux_t) AND 0x1f))"
    and d: "(0xdead :: ux_t) = regs sc_core (unat (drop_bit 20 (0x187322af :: ux_t) AND 0x1f))"
    by (simp_all add: sc_core_def)
  have ok: "load_reserved sc_core \<longrightarrow>
      vmap_ls FlatMem32_dev sc_core 0x100 PTE_W = Some (Some 0x100, sc_core) \<and>
      mem_w32 FlatMem32_dev (mem sc_core) 0x100 0xdead = Some (True, ?m)"
    by (simp add: sc_eval_defs fun_upd_twist)
  have al: "(0x100 :: ux_t) AND 0x3 = 0" by simp
  have lr: "load_reserved sc_core" by (simp add: sc_core_def)
  note t = sc_w_step [OF fetch f0 f1 i sc a d al ok]
  obtain s where s: "step FlatMem32_dev 0 0 sc_core = Some s"
    using t by (auto split: option.splits prod.splits)
  from t s lr have r5: "regs s 5 = 0" and m: "mem s = ?m" and nr: "\<not> load_reserved s"
    by (auto split: option.splits prod.splits)
  let ?S = "\<lparr> regs = (\<lambda>_. 0)(5 := 0, 6 := 0x100, 7 := 0xdead), pc = 4,
              csr = step_counters RVCSR_init, load_reserved = False, mem = ?m,
              ram = (\<lambda>_. 0), ram_base = 0, ram_top = 0 \<rparr>"
  have "step FlatMem32_dev 0 0 sc_core = Some ?S"
    by (simp add: sc_eval_defs fun_upd_twist)
  with s have sv: "s = ?S" by simp
  let ?g = "\<lparr>fetch_paddr0 = Some 4, fetch0 = Some 0x22af, fetch_paddr1 = Some 6,
             fetch1 = Some 0x1873\<rparr>"
  have fetch2: "step_fetch FlatMem32_dev s = Some (?g, s)"
    by (simp add: sv sc_eval_defs)
  have g0: "fetch0 ?g = Some 0x22af" and g1: "fetch1 ?g = Some 0x1873" by simp_all
  have i2: "(0x187322af :: ux_t) = fetch_instr 0 0 ?g"
    by (simp add: fetch_instr_def deref_def)
  have a2: "(0x100 :: ux_t) = regs s (unat (drop_bit 15 (0x187322af :: ux_t) AND 0x1f))"
    and d2: "(0xdead :: ux_t) = regs s (unat (drop_bit 20 (0x187322af :: ux_t) AND 0x1f))"
    by (simp_all add: sv)
  have ok2: "load_reserved s \<longrightarrow>
      vmap_ls FlatMem32_dev s 0x100 PTE_W = Some (Some 0x100, s) \<and>
      mem_w32 FlatMem32_dev (mem s) 0x100 0xdead = Some (True, ?m)"
    using nr by simp
  note t2 = sc_w_step [OF fetch2 g0 g1 i2 sc a2 d2 al ok2]
  obtain s' where s': "step FlatMem32_dev 0 0 s = Some s'"
    using t2 by (auto split: option.splits prod.splits)
  from t2 s' nr have r5': "regs s' 5 = 1" and m': "mem s' = mem s"
    by (auto split: option.splits prod.splits)
  from lr r5 m nr s s' r5' m' show ?thesis
    by (simp add: sc_core_def)
qed

end
